theory Spec2Isabelle
  imports Complex_Main "HOL-Library.Word"
begin

section \<open>Strings of the page script\<close>

text \<open>
  The script under study is \<^verbatim>\<open>src/script.js\<close>, which holds two variants of the same
  page script one after the other: the baseline variant (lines 1 to 359) and the
  accessibility-enhanced variant (lines 359 to 836). A definition named after a source
  function embeds the baseline copy; the same name with the suffix \<open>_enh\<close> embeds the
  enhanced copy.

  A JavaScript string is a sequence of UTF-16 code units. Regular expressions without
  the \<^verbatim>\<open>u\<close> flag, \<^verbatim>\<open>trim\<close>, \<^verbatim>\<open>substring\<close> and \<^verbatim>\<open>length\<close> all work on code units.
  Class names, element ids and \<^verbatim>\<open>style.display\<close> values only ever are the ASCII literals
  of the script and are kept as \<^typ>\<open>string\<close>.
\<close>

type_synonym jschar = "16 word"
type_synonym jsstring = "jschar list"

definition js :: "string \<Rightarrow> jsstring" where
  "js s = map of_char s"

text \<open>
  \<^verbatim>\<open>\s\<close> of a regular expression, and the characters \<^verbatim>\<open>trim\<close> strips: the WhiteSpace and
  LineTerminator code points of ECMAScript.
\<close>

definition is_space :: "jschar \<Rightarrow> bool" where
  "is_space c \<longleftrightarrow>
     c = 0x0009 \<or> c = 0x000A \<or> c = 0x000B \<or> c = 0x000C \<or> c = 0x000D \<or> c = 0x0020 \<or>
     c = 0x00A0 \<or> c = 0x1680 \<or> (0x2000 \<le> c \<and> c \<le> 0x200A) \<or> c = 0x2028 \<or> c = 0x2029 \<or>
     c = 0x202F \<or> c = 0x205F \<or> c = 0x3000 \<or> c = 0xFEFF"

text \<open>\<^verbatim>\<open>\d\<close>: the ASCII digits.\<close>

definition is_digit :: "jschar \<Rightarrow> bool" where
  "is_digit c \<longleftrightarrow> 0x0030 \<le> c \<and> c \<le> 0x0039"

text \<open>\<^verbatim>\<open>String.prototype.trim\<close>.\<close>

definition trim :: "jsstring \<Rightarrow> jsstring" where
  "trim s = rev (dropWhile is_space (rev (dropWhile is_space s)))"

text \<open>\<^verbatim>\<open>s.substring(a, b)\<close> and \<^verbatim>\<open>s.substring(a)\<close> for non-negative indices: both ends are
  clamped to the length and swapped when out of order.\<close>

definition substring :: "jsstring \<Rightarrow> nat \<Rightarrow> nat \<Rightarrow> jsstring" where
  "substring s a b =
     (let a' = min a (length s); b' = min b (length s)
      in take (max a' b' - min a' b') (drop (min a' b') s))"

definition substring_from :: "jsstring \<Rightarrow> nat \<Rightarrow> jsstring" where
  "substring_from s a = substring s a (length s)"

section \<open>Regular expressions\<close>

text \<open>
  The members of a character class: a literal code unit, \<^verbatim>\<open>\s\<close> or \<^verbatim>\<open>\d\<close>.
\<close>

datatype cc = Ch jschar | WS | Dig

fun cc_mem :: "cc \<Rightarrow> jschar \<Rightarrow> bool" where
  "cc_mem (Ch d) c = (c = d)"
| "cc_mem WS c = is_space c"
| "cc_mem Dig c = is_digit c"

text \<open>\<open>in_class neg cs c\<close>: does \<open>c\<close> match \<^verbatim>\<open>[...]\<close> (\<open>neg = False\<close>) or \<^verbatim>\<open>[^...]\<close>
  (\<open>neg = True\<close>) with the members \<open>cs\<close>.\<close>

definition in_class :: "bool \<Rightarrow> cc list \<Rightarrow> jschar \<Rightarrow> bool" where
  "in_class neg cs c = (list_ex (\<lambda>m. cc_mem m c) cs \<noteq> neg)"

text \<open>\<^verbatim>\<open>s.replace(/[...]/g, '')\<close>: every code unit matching the class is deleted.\<close>

definition remove_class :: "bool \<Rightarrow> cc list \<Rightarrow> jsstring \<Rightarrow> jsstring" where
  "remove_class neg cs s = filter (\<lambda>c. \<not> in_class neg cs c) s"

datatype regex =
    Fail
  | Eps
  | Cls bool "cc list"
  | Seq regex regex
  | Alt regex regex
  | Star regex

definition Plus :: "regex \<Rightarrow> regex" where
  "Plus r = Seq r (Star r)"

fun nullable :: "regex \<Rightarrow> bool" where
  "nullable Fail = False"
| "nullable Eps = True"
| "nullable (Cls neg cs) = False"
| "nullable (Seq r s) = (nullable r \<and> nullable s)"
| "nullable (Alt r s) = (nullable r \<or> nullable s)"
| "nullable (Star r) = True"

fun deriv :: "jschar \<Rightarrow> regex \<Rightarrow> regex" where
  "deriv c Fail = Fail"
| "deriv c Eps = Fail"
| "deriv c (Cls neg cs) = (if in_class neg cs c then Eps else Fail)"
| "deriv c (Seq r s) =
     (if nullable r then Alt (Seq (deriv c r) s) (deriv c s) else Seq (deriv c r) s)"
| "deriv c (Alt r s) = Alt (deriv c r) (deriv c s)"
| "deriv c (Star r) = Seq (deriv c r) (Star r)"

text \<open>\<^verbatim>\<open>/^r$/.test(s)\<close>: a pattern anchored at both ends (and without the multiline flag)
  accepts exactly when the whole string matches \<open>r\<close>.\<close>

definition test_anchored :: "regex \<Rightarrow> jsstring \<Rightarrow> bool" where
  "test_anchored r s = nullable (foldl (\<lambda>q c. deriv c q) r s)"

text \<open>
  \<^verbatim>\<open>new RegExp(pattern)\<close> for a pattern that comes from the document (the \<^verbatim>\<open>data-pattern\<close>
  attribute of a country option). The HTML is not part of the sources, so the
  constructor is a parameter: \<open>None\<close> when it throws a SyntaxError, otherwise the \<^verbatim>\<open>test\<close>
  method of the regular expression it builds.
\<close>

type_synonym regexp_ctor = "jsstring \<Rightarrow> (jsstring \<Rightarrow> bool) option"

datatype exn = TypeError | SyntaxError

section \<open>The document\<close>

text \<open>
  An \<^verbatim>\<open>option\<close> element of the country selector; \<^verbatim>\<open>getAttribute\<close> gives \<^verbatim>\<open>null\<close>
  (\<open>None\<close>) for an attribute the element does not have.
\<close>

record option_el =
  data_pattern :: "jsstring option"
  data_placeholder :: "jsstring option"
  option_text :: jsstring

text \<open>
  An element, with the properties the script reads or writes. \<open>val\<close> is \<^verbatim>\<open>value\<close>,
  \<open>display\<close> is \<^verbatim>\<open>style.display\<close>, \<open>attrs\<close> holds what \<^verbatim>\<open>setAttribute\<close>,
  \<^verbatim>\<open>removeAttribute\<close> and \<^verbatim>\<open>getAttribute\<close> work on. \<open>defaultValue\<close>, \<open>defaultChecked\<close> and
  \<open>defaultSelectedIndex\<close> are what \<^verbatim>\<open>form.reset()\<close> restores: the value, the checkedness
  and the selection the markup gives the control (for an \<^verbatim>\<open>input\<close>, the \<^verbatim>\<open>value\<close> attribute
  as the control takes it).
\<close>

record element =
  val :: jsstring
  defaultValue :: jsstring
  checked :: bool
  defaultChecked :: bool
  required :: bool
  placeholder :: jsstring
  classList :: "string list"
  textContent :: jsstring
  display :: string
  attrs :: "string \<rightharpoonup> jsstring"
  selectionStart :: nat
  selectionEnd :: nat
  options :: "option_el list"
  selectedIndex :: int
  defaultSelectedIndex :: int

text \<open>\<^verbatim>\<open>classList.add(c)\<close> and \<^verbatim>\<open>classList.remove(c1, ...)\<close> on the ordered token set.\<close>

definition classList_add :: "string \<Rightarrow> element \<Rightarrow> element" where
  "classList_add c e =
     (if c \<in> set (classList e) then e else e\<lparr>classList := classList e @ [c]\<rparr>)"

definition classList_remove :: "string list \<Rightarrow> element \<Rightarrow> element" where
  "classList_remove cs e = e\<lparr>classList := filter (\<lambda>c. c \<notin> set cs) (classList e)\<rparr>"

definition setAttribute :: "string \<Rightarrow> jsstring \<Rightarrow> element \<Rightarrow> element" where
  "setAttribute a v e = e\<lparr>attrs := (attrs e)(a \<mapsto> v)\<rparr>"

definition removeAttribute :: "string \<Rightarrow> element \<Rightarrow> element" where
  "removeAttribute a e = e\<lparr>attrs := (attrs e)(a := None)\<rparr>"

text \<open>
  \<^verbatim>\<open>setSelectionRange(start, end)\<close>: the arguments are converted to unsigned 32-bit
  integers, clamped to the length of the value, and the start is lowered to the end
  when it lies beyond it.
\<close>

definition setSelectionRange :: "int \<Rightarrow> int \<Rightarrow> element \<Rightarrow> element" where
  "setSelectionRange a b e =
     (let n = length (val e);
          b' = min (nat (b mod 2 ^ 32)) n;
          a' = min (min (nat (a mod 2 ^ 32)) n) b'
      in e\<lparr>selectionStart := a', selectionEnd := b'\<rparr>)"

text \<open>
  Assignment to \<^verbatim>\<open>value\<close> of the phone field. The field is an \<^verbatim>\<open>input\<close> whose type has a
  text selection (the script calls \<^verbatim>\<open>setSelectionRange\<close> on it, which the other types
  refuse) and is taken to be one of \<^verbatim>\<open>text\<close>, \<^verbatim>\<open>tel\<close>, \<^verbatim>\<open>search\<close> and \<^verbatim>\<open>password\<close>: the
  platform deletes the line feeds and carriage returns of the new value, and when
  the value differs from the old one it moves the caret to the end of the text.
\<close>

definition strip_newlines :: "jsstring \<Rightarrow> jsstring" where
  "strip_newlines v = filter (\<lambda>c. c \<noteq> 0x000A \<and> c \<noteq> 0x000D) v"

definition set_value :: "jsstring \<Rightarrow> element \<Rightarrow> element" where
  "set_value v e =
     (let v' = strip_newlines v
      in if v' = val e then e
         else e\<lparr>val := v', selectionStart := length v', selectionEnd := length v'\<rparr>)"

text \<open>\<open>xs[i]\<close> on a collection: \<^verbatim>\<open>undefined\<close> (\<open>None\<close>) outside the range.\<close>

definition item :: "'a list \<Rightarrow> int \<Rightarrow> 'a option" where
  "item xs i = (if 0 \<le> i \<and> i < int (length xs) then Some (xs ! nat i) else None)"

text \<open>What the platform does on behalf of a handler, besides changing the document.\<close>

datatype target = Elem string | ModalButton | SubmitButton | Selected jsstring

datatype effect =
  PreventDefault | StopPropagation | FormReset | Focus target | ScrollIntoView jsstring
  | OffcanvasHide

text \<open>The callbacks the script hands to \<^verbatim>\<open>setTimeout\<close>.\<close>

datatype callback = ClearAnnouncer | FocusCloseButton | FocusSection jsstring | UpdateNav

text \<open>
  The page. \<open>doc\<close> maps an id to the element that carries it: the script reaches every
  form element through \<^verbatim>\<open>getElementById\<close>, once at load time (the \<^verbatim>\<open>elements\<close> object) or
  at event time, and an absent element is \<^verbatim>\<open>null\<close>. \<open>formElems\<close> lists the ids of the
  descendants of the form, in document order. \<open>navLinks\<close> are the \<^verbatim>\<open>.nav-link\<close> elements
  and \<open>sections\<close> the \<^verbatim>\<open>section[id]\<close> elements (id and \<^verbatim>\<open>offsetTop\<close>), in document order.
  \<open>modalHasButton\<close> says whether the success modal contains a \<^verbatim>\<open>button\<close>.
  \<open>timers\<close> are the pending timeouts (handle, callback, delay), \<open>nextTimer\<close> the
  next handle the platform gives out, \<open>scrollTimeout\<close> the script's variable of that
  name (\<open>None\<close> while \<^verbatim>\<open>undefined\<close>), \<open>lastSection\<close> the variable of that name, and
  \<open>effects\<close> the platform calls made so far. The platform numbers the timeouts with a
  counter, as browsers do.
\<close>

record page =
  doc :: "string \<rightharpoonup> element"
  formElems :: "string list"
  navLinks :: "element list"
  sections :: "(jsstring \<times> int) list"
  scrollY :: real
  modalHasButton :: bool
  timers :: "(nat \<times> callback \<times> nat) list"
  nextTimer :: nat
  scrollTimeout :: "nat option"
  lastSection :: jsstring
  effects :: "effect list"

definition emit :: "effect \<Rightarrow> page \<Rightarrow> page" where
  "emit x s = s\<lparr>effects := effects s @ [x]\<rparr>"

text \<open>Mutation of the element with id \<open>k\<close>; the callers have checked that it exists.\<close>

definition upd :: "string \<Rightarrow> (element \<Rightarrow> element) \<Rightarrow> page \<Rightarrow> page" where
  "upd k f s = s\<lparr>doc := (doc s)(k := map_option f (doc s k))\<rparr>"

definition setTimeout :: "callback \<Rightarrow> nat \<Rightarrow> page \<Rightarrow> nat \<times> page" where
  "setTimeout cb delay s =
     (nextTimer s,
      s\<lparr>timers := timers s @ [(nextTimer s, cb, delay)], nextTimer := Suc (nextTimer s)\<rparr>)"

definition clearTimeout :: "nat option \<Rightarrow> page \<Rightarrow> page" where
  "clearTimeout h s =
     (case h of None \<Rightarrow> s
      | Some i \<Rightarrow> s\<lparr>timers := filter (\<lambda>t. fst t \<noteq> i) (timers s)\<rparr>)"

section \<open>Utility functions, baseline variant\<close>

text \<open>\<^verbatim>\<open>const emailPattern = /^[^\s@]+@[^\s@]+\.[^\s@]+$/\<close>.\<close>

definition emailPattern :: regex where
  "emailPattern =
     Seq (Plus (Cls True [WS, Ch 0x40]))
       (Seq (Cls False [Ch 0x40])
         (Seq (Plus (Cls True [WS, Ch 0x40]))
           (Seq (Cls False [Ch 0x2E])
             (Plus (Cls True [WS, Ch 0x40])))))"

definition isValidEmail :: "jsstring \<Rightarrow> bool" where
  "isValidEmail email = test_anchored emailPattern email"

text \<open>
  \<^verbatim>\<open>validatePhoneNumber(phoneNumber, countryCodeSelect)\<close>. Reading a property of \<^verbatim>\<open>null\<close>
  (no selector) or of \<^verbatim>\<open>undefined\<close> (no option at the selected index) throws a
  TypeError; \<^verbatim>\<open>!pattern\<close> holds for \<^verbatim>\<open>null\<close> and for the empty string.
\<close>

definition validatePhoneNumber ::
  "regexp_ctor \<Rightarrow> jsstring \<Rightarrow> element option \<Rightarrow> exn + bool" where
  "validatePhoneNumber RegExp phoneNumber countryCodeSelect =
     (let cleanNumber = remove_class False [WS, Ch 0x2D, Ch 0x28, Ch 0x29, Ch 0x2E] phoneNumber
      in case countryCodeSelect of
           None \<Rightarrow> Inl TypeError
         | Some sel \<Rightarrow>
             (case item (options sel) (selectedIndex sel) of
                None \<Rightarrow> Inl TypeError
              | Some selectedOption \<Rightarrow>
                  (case data_pattern selectedOption of
                     None \<Rightarrow> Inr False
                   | Some pattern \<Rightarrow>
                       if pattern = [] then Inr False
                       else (case RegExp pattern of
                               None \<Rightarrow> Inl SyntaxError
                             | Some regex \<Rightarrow> Inr (regex cleanNumber)))))"

text \<open>
  \<^verbatim>\<open>validateField(field, errorElement, validationFn, errorMessage)\<close>. The two elements
  are distinct objects at every call (they carry different ids), so they are passed
  and returned as values and the caller stores them back. The validation function
  runs before anything is changed, so an exception of it leaves both as they were.
  \<^verbatim>\<open>if (errorMessage)\<close> holds for a non-empty string.
\<close>

definition validateField ::
  "element option \<Rightarrow> element option \<Rightarrow> (jsstring \<Rightarrow> exn + bool) \<Rightarrow> jsstring
     \<Rightarrow> exn + (bool \<times> element option \<times> element option)" where
  "validateField field errorElement validationFn errorMessage =
     (case (field, errorElement) of
        (Some f, Some e) \<Rightarrow>
          (case validationFn (val f) of
             Inl x \<Rightarrow> Inl x
           | Inr isValid \<Rightarrow>
               if \<not> isValid then
                 Inr (False,
                      Some (classList_remove [''is-valid''] (classList_add ''is-invalid'' f)),
                      Some (classList_add ''d-block''
                              (if errorMessage \<noteq> [] then e\<lparr>textContent := errorMessage\<rparr> else e)))
               else
                 Inr (True,
                      Some (classList_add ''is-valid'' (classList_remove [''is-invalid''] f)),
                      Some (classList_remove [''d-block''] e)))
      | _ \<Rightarrow> Inr (True, field, errorElement))"

text \<open>\<^verbatim>\<open>clearValidation(field, errorElement)\<close>, on values like \<open>validateField\<close>.\<close>

definition clearValidation ::
  "element option \<Rightarrow> element option \<Rightarrow> element option \<times> element option" where
  "clearValidation field errorElement =
     (map_option (classList_remove [''is-invalid'', ''is-valid'']) field,
      map_option (classList_remove [''d-block'']) errorElement)"


text \<open>Storing back the two elements a call of \<open>validateField\<close> or \<open>clearValidation\<close>
  has worked on.\<close>

definition store2 ::
  "string \<Rightarrow> element option \<Rightarrow> string \<Rightarrow> element option \<Rightarrow> page \<Rightarrow> page" where
  "store2 k f k' e s = s\<lparr>doc := (doc s)(k := f, k' := e)\<rparr>"

text \<open>\<^verbatim>\<open>isValid = validateField(elements[k], elements[k'], fn, msg) && isValid\<close>.\<close>

definition validate_and ::
  "string \<Rightarrow> string \<Rightarrow> (jsstring \<Rightarrow> exn + bool) \<Rightarrow> jsstring \<Rightarrow> bool \<Rightarrow> page
     \<Rightarrow> (exn + bool) \<times> page" where
  "validate_and k k' validationFn errorMessage isValid s =
     (case validateField (doc s k) (doc s k') validationFn errorMessage of
        Inl x \<Rightarrow> (Inl x, s)
      | Inr (ok, f, e) \<Rightarrow> (Inr (ok \<and> isValid), store2 k f k' e s))"

section \<open>Utility functions, enhanced variant\<close>

definition announceToScreenReader_enh :: "jsstring \<Rightarrow> page \<Rightarrow> page" where
  "announceToScreenReader_enh message s =
     (case doc s ''status-announcer'' of
        None \<Rightarrow> s
      | Some _ \<Rightarrow>
          snd (setTimeout ClearAnnouncer 1000
                 (upd ''status-announcer'' (\<lambda>e. e\<lparr>textContent := message\<rparr>) s)))"

definition emailPattern_enh :: regex where
  "emailPattern_enh =
     Seq (Plus (Cls True [WS, Ch 0x40]))
       (Seq (Cls False [Ch 0x40])
         (Seq (Plus (Cls True [WS, Ch 0x40]))
           (Seq (Cls False [Ch 0x2E])
             (Plus (Cls True [WS, Ch 0x40])))))"

definition isValidEmail_enh :: "jsstring \<Rightarrow> bool" where
  "isValidEmail_enh email = test_anchored emailPattern_enh email"

definition validatePhoneNumber_enh ::
  "regexp_ctor \<Rightarrow> jsstring \<Rightarrow> element option \<Rightarrow> exn + bool" where
  "validatePhoneNumber_enh RegExp phoneNumber countryCodeSelect =
     (let cleanNumber = remove_class False [WS, Ch 0x2D, Ch 0x28, Ch 0x29, Ch 0x2E] phoneNumber
      in case countryCodeSelect of
           None \<Rightarrow> Inl TypeError
         | Some sel \<Rightarrow>
             (case item (options sel) (selectedIndex sel) of
                None \<Rightarrow> Inl TypeError
              | Some selectedOption \<Rightarrow>
                  (case data_pattern selectedOption of
                     None \<Rightarrow> Inr False
                   | Some pattern \<Rightarrow>
                       if pattern = [] then Inr False
                       else (case RegExp pattern of
                               None \<Rightarrow> Inl SyntaxError
                             | Some regex \<Rightarrow> Inr (regex cleanNumber)))))"

definition validateField_enh ::
  "element option \<Rightarrow> element option \<Rightarrow> (jsstring \<Rightarrow> exn + bool) \<Rightarrow> jsstring
     \<Rightarrow> exn + (bool \<times> element option \<times> element option)" where
  "validateField_enh field errorElement validationFn errorMessage =
     (case (field, errorElement) of
        (Some f, Some e) \<Rightarrow>
          (case validationFn (val f) of
             Inl x \<Rightarrow> Inl x
           | Inr isValid \<Rightarrow>
               if \<not> isValid then
                 Inr (False,
                      Some (setAttribute ''aria-invalid'' (js ''true'')
                              (classList_remove [''is-valid''] (classList_add ''is-invalid'' f))),
                      Some (classList_add ''d-block''
                              (if errorMessage \<noteq> [] then e\<lparr>textContent := errorMessage\<rparr> else e)))
               else
                 Inr (True,
                      Some (setAttribute ''aria-invalid'' (js ''false'')
                              (classList_add ''is-valid'' (classList_remove [''is-invalid''] f))),
                      Some (classList_remove [''d-block''] e)))
      | _ \<Rightarrow> Inr (True, field, errorElement))"

definition clearValidation_enh ::
  "element option \<Rightarrow> element option \<Rightarrow> element option \<times> element option" where
  "clearValidation_enh field errorElement =
     (map_option (\<lambda>f. removeAttribute ''aria-invalid''
                        (classList_remove [''is-invalid'', ''is-valid''] f)) field,
      map_option (\<lambda>e. (classList_remove [''d-block''] e)\<lparr>textContent := []\<rparr>) errorElement)"

definition validate_and_enh ::
  "string \<Rightarrow> string \<Rightarrow> (jsstring \<Rightarrow> exn + bool) \<Rightarrow> jsstring \<Rightarrow> bool \<Rightarrow> page
     \<Rightarrow> (exn + bool) \<times> page" where
  "validate_and_enh k k' validationFn errorMessage isValid s =
     (case validateField_enh (doc s k) (doc s k') validationFn errorMessage of
        Inl x \<Rightarrow> (Inl x, s)
      | Inr (ok, f, e) \<Rightarrow> (Inr (ok \<and> isValid), store2 k f k' e s))"

section \<open>Phone field management, baseline variant\<close>

text \<open>
  A handler is attached only when its element exists; on a page without the element
  the event cannot happen and the model leaves the page as it is.
\<close>

definition contactPhone_change :: "page \<Rightarrow> page" where
  "contactPhone_change s =
     (case doc s ''contactPhone'' of
        None \<Rightarrow> s
      | Some this \<Rightarrow>
          if checked this \<and> doc s ''phone-group'' \<noteq> None \<and> doc s ''phone'' \<noteq> None then
            upd ''phone'' (\<lambda>e. e\<lparr>required := True\<rparr>)
              (upd ''phone-group'' (\<lambda>e. e\<lparr>display := ''block''\<rparr>) s)
          else s)"

definition contactEmail_change :: "page \<Rightarrow> page" where
  "contactEmail_change s =
     (case doc s ''contactEmail'' of
        None \<Rightarrow> s
      | Some this \<Rightarrow>
          if checked this \<and> doc s ''phone-group'' \<noteq> None \<and> doc s ''phone'' \<noteq> None then
            (let s1 = upd ''phone-group'' (\<lambda>e. e\<lparr>display := ''none''\<rparr>) s;
                 s2 = upd ''phone'' (\<lambda>e. e\<lparr>required := False\<rparr>) s1;
                 (f, e) = clearValidation (doc s2 ''phone'') (doc s2 ''phoneError'')
             in store2 ''phone'' f ''phoneError'' e s2)
          else s)"

text \<open>
  The \<^verbatim>\<open>change\<close> listener of the country selector, attached when the selector and the
  phone field exist. Reading a property of \<^verbatim>\<open>undefined\<close> (no option at the selected
  index) throws a TypeError.
\<close>

definition countryCode_change :: "page \<Rightarrow> (exn + unit) \<times> page" where
  "countryCode_change s =
     (case (doc s ''countryCode'', doc s ''phone'') of
        (Some this, Some _) \<Rightarrow>
          (case item (options this) (selectedIndex this) of
             None \<Rightarrow> (Inl TypeError, s)
           | Some selectedOption \<Rightarrow>
               (case data_placeholder selectedOption of
                  None \<Rightarrow> (Inr (), s)
                | Some ph \<Rightarrow>
                    if ph = [] then (Inr (), s)
                    else
                      (let s1 = upd ''phone'' (\<lambda>e. e\<lparr>placeholder := ph\<rparr>) s;
                           (f, e) = clearValidation (doc s1 ''phone'') (doc s1 ''phoneError'')
                       in (Inr (), store2 ''phone'' f ''phoneError'' e s1))))
      | _ \<Rightarrow> (Inr (), s))"

text \<open>
  The \<^verbatim>\<open>input\<close> listener of the phone field. The browser dispatches the event when the
  user has edited the text of the field, with the new text and the caret in place.
\<close>

definition phoneInput_input :: "page \<Rightarrow> page" where
  "phoneInput_input s =
     (case doc s ''phone'' of
        None \<Rightarrow> s
      | Some this \<Rightarrow>
          (let cursorPos = int (selectionStart this);
               oldLength = int (length (val this));
               cleaned = remove_class True [Dig, WS] (val this);
               this1 = set_value cleaned this;
               newLength = int (length (val this1));
               diff = oldLength - newLength
           in s\<lparr>doc := (doc s)(''phone'' \<mapsto>
                  setSelectionRange (cursorPos - diff) (cursorPos - diff) this1)\<rparr>))"

text \<open>The \<^verbatim>\<open>paste\<close> listener of the phone field, for the clipboard text \<open>pastedText\<close>;
  \<^verbatim>\<open>dispatchEvent\<close> runs the \<^verbatim>\<open>input\<close> listener before it returns.\<close>

definition phoneInput_paste :: "jsstring \<Rightarrow> page \<Rightarrow> page" where
  "phoneInput_paste pastedText s =
     (case doc s ''phone'' of
        None \<Rightarrow> s
      | Some this \<Rightarrow>
          (let s1 = emit PreventDefault s;
               cleaned = remove_class True [Dig, WS] pastedText;
               start = selectionStart this;
               endp = selectionEnd this;
               currentValue = val this;
               this1 = set_value (substring currentValue 0 start @ cleaned
                                    @ substring_from currentValue endp) this;
               newPos = int start + int (length cleaned);
               this2 = setSelectionRange newPos newPos this1
           in phoneInput_input (s1\<lparr>doc := (doc s1)(''phone'' \<mapsto> this2)\<rparr>)))"

section \<open>Field validators, baseline variant\<close>

record config =
  validator :: "jsstring \<Rightarrow> bool"
  errorMessage :: jsstring
  emptyMessage :: "jsstring option"

text \<open>The \<^verbatim>\<open>fieldValidators\<close> object; \<^verbatim>\<open>Object.keys\<close> walks it in the order written.\<close>

definition fieldValidators :: "(string \<times> config) list" where
  "fieldValidators =
     [(''firstName'',
         \<lparr>validator = (\<lambda>v. trim v \<noteq> []),
          errorMessage = js ''Please provide your first name.'',
          emptyMessage = None\<rparr>),
      (''lastName'',
         \<lparr>validator = (\<lambda>v. trim v \<noteq> []),
          errorMessage = js ''Please provide your last name.'',
          emptyMessage = None\<rparr>),
      (''email'',
         \<lparr>validator = (\<lambda>v. trim v \<noteq> [] \<and> isValidEmail v),
          errorMessage = js ''Please provide a valid email address.'',
          emptyMessage = Some (js ''Please provide your email address.'')\<rparr>),
      (''messageSubject'',
         \<lparr>validator = (\<lambda>v. trim v \<noteq> []),
          errorMessage = js ''Please provide a subject.'',
          emptyMessage = None\<rparr>),
      (''message'',
         \<lparr>validator = (\<lambda>v. trim v \<noteq> []),
          errorMessage = js ''Please write your message.'',
          emptyMessage = None\<rparr>)]"

text \<open>A message that may be \<^verbatim>\<open>undefined\<close>, as an argument of \<open>validateField\<close>, which
  only tests it for truth: \<^verbatim>\<open>undefined\<close> and the empty string are both false.\<close>

definition message_arg :: "jsstring option \<Rightarrow> jsstring" where
  "message_arg m = (case m of None \<Rightarrow> [] | Some t \<Rightarrow> t)"

section \<open>Validation on blur, baseline variant\<close>

text \<open>
  The \<^verbatim>\<open>blur\<close> listener of the text field \<open>fieldName\<close>, attached when the field exists.
  The result of \<^verbatim>\<open>validateField\<close> is dropped.
\<close>

definition field_blur :: "string \<times> config \<Rightarrow> page \<Rightarrow> page" where
  "field_blur kc s =
     (let fieldName = fst kc; cfg = snd kc
      in case doc s fieldName of
           None \<Rightarrow> s
         | Some this \<Rightarrow>
             if fieldName = ''email'' \<and> trim (val this) = [] then
               snd (validate_and fieldName (fieldName @ ''Error'') (\<lambda>v. Inr False)
                      (message_arg (emptyMessage cfg)) True s)
             else
               snd (validate_and fieldName (fieldName @ ''Error'') (\<lambda>v. Inr (validator cfg v))
                      (errorMessage cfg) True s))"

text \<open>
  The \<^verbatim>\<open>blur\<close> listener of the phone field. An exception of the phone check ends the
  listener and leaves the page as it was.
\<close>

definition phone_blur :: "regexp_ctor \<Rightarrow> page \<Rightarrow> page" where
  "phone_blur RegExp s =
     (case doc s ''phone'' of
        None \<Rightarrow> s
      | Some this \<Rightarrow>
          (case doc s ''contactPhone'' of
             None \<Rightarrow> s
           | Some contactPhone \<Rightarrow>
               if \<not> checked contactPhone then s
               else if trim (val this) = [] then
                 snd (validate_and ''phone'' ''phoneError'' (\<lambda>v. Inr False)
                        (js ''Please provide your phone number.'') True s)
               else
                 snd (validate_and ''phone'' ''phoneError''
                        (\<lambda>v. validatePhoneNumber RegExp v (doc s ''countryCode''))
                        (js ''Please provide a valid phone number for the selected country.'')
                        True s)))"

section \<open>Form submission, baseline variant\<close>

text \<open>One round of the loop over the text fields.\<close>

definition submit_field :: "string \<times> config \<Rightarrow> bool \<Rightarrow> page \<Rightarrow> (exn + bool) \<times> page" where
  "submit_field kc isValid s =
     (let fieldName = fst kc; cfg = snd kc;
          field = doc s fieldName;
          errorElement = doc s (fieldName @ ''Error'')
      in case (field, errorElement) of
           (Some f, Some e) \<Rightarrow>
             if fieldName = ''email'' then
               if trim (val f) = [] then
                 validate_and fieldName (fieldName @ ''Error'') (\<lambda>v. Inr False)
                   (message_arg (emptyMessage cfg)) isValid s
               else
                 validate_and fieldName (fieldName @ ''Error'') (\<lambda>v. Inr (validator cfg v))
                   (errorMessage cfg) isValid s
             else
               validate_and fieldName (fieldName @ ''Error'') (\<lambda>v. Inr (validator cfg v))
                 (errorMessage cfg) isValid s
         | _ \<Rightarrow> (Inr isValid, s))"

fun submit_fields :: "(string \<times> config) list \<Rightarrow> bool \<Rightarrow> page \<Rightarrow> (exn + bool) \<times> page" where
  "submit_fields [] isValid s = (Inr isValid, s)"
| "submit_fields (kc # rest) isValid s =
     (case submit_field kc isValid s of
        (Inl x, s') \<Rightarrow> (Inl x, s')
      | (Inr isValid', s') \<Rightarrow> submit_fields rest isValid' s')"

text \<open>The phone check; \<^verbatim>\<open>elements.phoneInput.value\<close> is read without a test for \<^verbatim>\<open>null\<close>.\<close>

definition submit_phone :: "regexp_ctor \<Rightarrow> bool \<Rightarrow> page \<Rightarrow> (exn + bool) \<times> page" where
  "submit_phone RegExp isValid s =
     (case doc s ''contactPhone'' of
        None \<Rightarrow> (Inr isValid, s)
      | Some contactPhone \<Rightarrow>
          if \<not> checked contactPhone then (Inr isValid, s)
          else (case doc s ''phone'' of
                  None \<Rightarrow> (Inl TypeError, s)
                | Some phoneInput \<Rightarrow>
                    if trim (val phoneInput) = [] then
                      validate_and ''phone'' ''phoneError'' (\<lambda>v. Inr False)
                        (js ''Please provide your phone number.'') isValid s
                    else
                      validate_and ''phone'' ''phoneError''
                        (\<lambda>v. validatePhoneNumber RegExp v (doc s ''countryCode''))
                        (js ''Please provide a valid phone number for the selected country.'')
                        isValid s))"

text \<open>\<^verbatim>\<open>form.reset()\<close>: every control of the form goes back to its default state.\<close>

definition reset_element :: "element \<Rightarrow> element" where
  "reset_element e =
     e\<lparr>val := defaultValue e, checked := defaultChecked e,
       selectedIndex := defaultSelectedIndex e\<rparr>"

text \<open>\<^verbatim>\<open>form.querySelectorAll(sel).forEach(f)\<close> for a selector \<open>sel\<close> on single elements.\<close>

definition form_forEach :: "(element \<Rightarrow> bool) \<Rightarrow> (element \<Rightarrow> element) \<Rightarrow> page \<Rightarrow> page" where
  "form_forEach sel f s =
     s\<lparr>doc := (\<lambda>k. if k \<in> set (formElems s)
                    then map_option (\<lambda>e. if sel e then f e else e) (doc s k)
                    else doc s k)\<rparr>"

definition form_reset :: "page \<Rightarrow> page" where
  "form_reset s = form_forEach (\<lambda>e. True) reset_element (emit FormReset s)"

definition has_class :: "string \<Rightarrow> element \<Rightarrow> bool" where
  "has_class c e \<longleftrightarrow> c \<in> set (classList e)"

text \<open>The branch taken when every check has passed.\<close>

definition submit_success :: "page \<Rightarrow> (exn + bool) \<times> page" where
  "submit_success s =
     (case doc s ''modalOverlay'' of
        None \<Rightarrow> (Inl TypeError, s)
      | Some _ \<Rightarrow>
          (let s1 = upd ''modalOverlay'' (\<lambda>e. e\<lparr>display := ''block''\<rparr>) s
           in case doc s1 ''successModal'' of
                None \<Rightarrow> (Inl TypeError, s1)
              | Some _ \<Rightarrow>
                  (let s2 = upd ''successModal'' (\<lambda>e. e\<lparr>display := ''block''\<rparr>) s1;
                       s3 = form_reset s2;
                       s4 = form_forEach (\<lambda>e. has_class ''is-valid'' e \<or> has_class ''is-invalid'' e)
                              (classList_remove [''is-valid'', ''is-invalid'']) s3;
                       s5 = form_forEach (has_class ''invalid-feedback'')
                              (classList_remove [''d-block'']) s4
                   in (Inr True, s5))))"

text \<open>
  The \<^verbatim>\<open>submit\<close> listener of the form. The result is the exception that ended the
  listener, or the final value of its variable \<^verbatim>\<open>isValid\<close>.
\<close>

definition submit_handler :: "regexp_ctor \<Rightarrow> page \<Rightarrow> (exn + bool) \<times> page" where
  "submit_handler RegExp s =
     (let s1 = emit PreventDefault s;
          s2 = emit StopPropagation s1
      in case submit_fields fieldValidators True s2 of
           (Inl x, s3) \<Rightarrow> (Inl x, s3)
         | (Inr isValid, s3) \<Rightarrow>
             (case submit_phone RegExp isValid s3 of
                (Inl x, s4) \<Rightarrow> (Inl x, s4)
              | (Inr isValid', s4) \<Rightarrow>
                  if isValid' then submit_success s4 else (Inr False, s4)))"

section \<open>The modal, baseline variant\<close>

definition closeModal :: "page \<Rightarrow> page" where
  "closeModal s =
     (let s1 = (if doc s ''modalOverlay'' \<noteq> None
                then upd ''modalOverlay'' (\<lambda>e. e\<lparr>display := ''none''\<rparr>) s else s)
      in if doc s1 ''successModal'' \<noteq> None
         then upd ''successModal'' (\<lambda>e. e\<lparr>display := ''none''\<rparr>) s1 else s1)"

text \<open>The \<^verbatim>\<open>click\<close> listener of the overlay, attached when the overlay exists.\<close>

definition modalOverlay_click :: "page \<Rightarrow> page" where
  "modalOverlay_click s = (case doc s ''modalOverlay'' of None \<Rightarrow> s | Some _ \<Rightarrow> closeModal s)"

section \<open>Navigation, baseline variant\<close>

text \<open>
  The \<^verbatim>\<open>click\<close> listener of an anchor whose \<^verbatim>\<open>href\<close> attribute is \<open>href\<close>; \<open>found\<close> says
  whether \<^verbatim>\<open>document.querySelector(href)\<close> finds a target (when it throws, because
  \<open>href\<close> is no selector, the listener ends as it does when nothing is found), and
  \<open>offcanvas\<close> whether the collapsible panel exists with an instance of the component
  library.
\<close>

definition anchor_click :: "jsstring \<Rightarrow> bool \<Rightarrow> bool \<Rightarrow> page \<Rightarrow> page" where
  "anchor_click href found offcanvas s =
     (let s1 = emit PreventDefault s
      in if found then
           (let s2 = emit (ScrollIntoView href) s1
            in if offcanvas then emit OffcanvasHide s2 else s2)
         else s1)"

text \<open>The id of the last section whose top is at most 200 pixels below the scroll
  position; the empty string when there is none.\<close>

definition current_section :: "page \<Rightarrow> jsstring" where
  "current_section s =
     foldl (\<lambda>current (sid, sectionTop).
              if scrollY s \<ge> real_of_int (sectionTop - 200) then sid else current)
       [] (sections s)"

definition update_link :: "jsstring \<Rightarrow> element \<Rightarrow> element" where
  "update_link current link =
     (let link1 = classList_remove [''active''] link
      in if attrs link1 ''href'' = Some (0x23 # current)
         then classList_add ''active'' link1 else link1)"

text \<open>The \<^verbatim>\<open>scroll\<close> listener of the window: the links are updated at once.\<close>

definition scroll_handler :: "page \<Rightarrow> page" where
  "scroll_handler s = s\<lparr>navLinks := map (update_link (current_section s)) (navLinks s)\<rparr>"


section \<open>Phone field management, enhanced variant\<close>

definition contactPhone_change_enh :: "page \<Rightarrow> page" where
  "contactPhone_change_enh s =
     (case doc s ''contactPhone'' of
        None \<Rightarrow> s
      | Some this \<Rightarrow>
          if checked this \<and> doc s ''phone-group'' \<noteq> None \<and> doc s ''phone'' \<noteq> None then
            (let s1 = upd ''phone-group'' (\<lambda>e. e\<lparr>display := ''block''\<rparr>) s;
                 s2 = upd ''phone'' (\<lambda>e. e\<lparr>required := True\<rparr>) s1;
                 s3 = upd ''phone'' (setAttribute ''aria-required'' (js ''true'')) s2
             in announceToScreenReader_enh (js ''Phone number field is now required'') s3)
          else s)"

definition contactEmail_change_enh :: "page \<Rightarrow> page" where
  "contactEmail_change_enh s =
     (case doc s ''contactEmail'' of
        None \<Rightarrow> s
      | Some this \<Rightarrow>
          if checked this \<and> doc s ''phone-group'' \<noteq> None \<and> doc s ''phone'' \<noteq> None then
            (let s1 = upd ''phone-group'' (\<lambda>e. e\<lparr>display := ''none''\<rparr>) s;
                 s2 = upd ''phone'' (\<lambda>e. e\<lparr>required := False\<rparr>) s1;
                 s3 = upd ''phone'' (setAttribute ''aria-required'' (js ''false'')) s2;
                 (f, e) = clearValidation_enh (doc s3 ''phone'') (doc s3 ''phoneError'');
                 s4 = store2 ''phone'' f ''phoneError'' e s3
             in announceToScreenReader_enh (js ''Phone number field is no longer required'') s4)
          else s)"

text \<open>\<^verbatim>\<open>t.split(' ')\<close>.\<close>

fun split_space :: "jsstring \<Rightarrow> jsstring list" where
  "split_space [] = [[]]"
| "split_space (c # cs) =
     (if c = 0x20 then [] # split_space cs
      else (case split_space cs of [] \<Rightarrow> [[c]] | w # ws \<Rightarrow> (c # w) # ws))"

text \<open>
  The \<^verbatim>\<open>change\<close> listener of the country selector. A template literal prints
  \<^verbatim>\<open>undefined\<close> by its name.
\<close>

definition countryCode_change_enh :: "page \<Rightarrow> (exn + unit) \<times> page" where
  "countryCode_change_enh s =
     (case (doc s ''countryCode'', doc s ''phone'') of
        (Some this, Some _) \<Rightarrow>
          (case item (options this) (selectedIndex this) of
             None \<Rightarrow> (Inl TypeError, s)
           | Some selectedOption \<Rightarrow>
               (case data_placeholder selectedOption of
                  None \<Rightarrow> (Inr (), s)
                | Some ph \<Rightarrow>
                    if ph = [] then (Inr (), s)
                    else
                      (let s1 = upd ''phone'' (\<lambda>e. e\<lparr>placeholder := ph\<rparr>) s;
                           (f, e) = clearValidation_enh (doc s1 ''phone'') (doc s1 ''phoneError'');
                           s2 = store2 ''phone'' f ''phoneError'' e s1;
                           countryName =
                             (case item (split_space (option_text selectedOption)) 1 of
                                None \<Rightarrow> js ''undefined'' | Some w \<Rightarrow> w)
                       in (Inr (),
                           announceToScreenReader_enh
                             (js ''Country code changed to '' @ countryName) s2))))
      | _ \<Rightarrow> (Inr (), s))"

definition phoneInput_input_enh :: "page \<Rightarrow> page" where
  "phoneInput_input_enh s =
     (case doc s ''phone'' of
        None \<Rightarrow> s
      | Some this \<Rightarrow>
          (let cursorPos = int (selectionStart this);
               oldLength = int (length (val this));
               cleaned = remove_class True [Dig, WS] (val this);
               this1 = set_value cleaned this;
               newLength = int (length (val this1));
               diff = oldLength - newLength
           in s\<lparr>doc := (doc s)(''phone'' \<mapsto>
                  setSelectionRange (cursorPos - diff) (cursorPos - diff) this1)\<rparr>))"

definition phoneInput_paste_enh :: "jsstring \<Rightarrow> page \<Rightarrow> page" where
  "phoneInput_paste_enh pastedText s =
     (case doc s ''phone'' of
        None \<Rightarrow> s
      | Some this \<Rightarrow>
          (let s1 = emit PreventDefault s;
               cleaned = remove_class True [Dig, WS] pastedText;
               start = selectionStart this;
               endp = selectionEnd this;
               currentValue = val this;
               this1 = set_value (substring currentValue 0 start @ cleaned
                                    @ substring_from currentValue endp) this;
               newPos = int start + int (length cleaned);
               this2 = setSelectionRange newPos newPos this1
           in phoneInput_input_enh (s1\<lparr>doc := (doc s1)(''phone'' \<mapsto> this2)\<rparr>)))"

section \<open>Field validators and form submission, enhanced variant\<close>

definition fieldValidators_enh :: "(string \<times> config) list" where
  "fieldValidators_enh =
     [(''firstName'',
         \<lparr>validator = (\<lambda>v. trim v \<noteq> []),
          errorMessage = js ''Please provide your first name.'',
          emptyMessage = None\<rparr>),
      (''lastName'',
         \<lparr>validator = (\<lambda>v. trim v \<noteq> []),
          errorMessage = js ''Please provide your last name.'',
          emptyMessage = None\<rparr>),
      (''email'',
         \<lparr>validator = (\<lambda>v. trim v \<noteq> [] \<and> isValidEmail_enh v),
          errorMessage = js ''Please provide a valid email address.'',
          emptyMessage = Some (js ''Please provide your email address.'')\<rparr>),
      (''messageSubject'',
         \<lparr>validator = (\<lambda>v. trim v \<noteq> []),
          errorMessage = js ''Please provide a subject.'',
          emptyMessage = None\<rparr>),
      (''message'',
         \<lparr>validator = (\<lambda>v. trim v \<noteq> []),
          errorMessage = js ''Please write your message.'',
          emptyMessage = None\<rparr>)]"

definition submit_field_enh ::
  "string \<times> config \<Rightarrow> bool \<Rightarrow> page \<Rightarrow> (exn + bool) \<times> page" where
  "submit_field_enh kc isValid s =
     (let fieldName = fst kc; cfg = snd kc;
          field = doc s fieldName;
          errorElement = doc s (fieldName @ ''Error'')
      in case (field, errorElement) of
           (Some f, Some e) \<Rightarrow>
             if fieldName = ''email'' then
               if trim (val f) = [] then
                 validate_and_enh fieldName (fieldName @ ''Error'') (\<lambda>v. Inr False)
                   (message_arg (emptyMessage cfg)) isValid s
               else
                 validate_and_enh fieldName (fieldName @ ''Error'') (\<lambda>v. Inr (validator cfg v))
                   (errorMessage cfg) isValid s
             else
               validate_and_enh fieldName (fieldName @ ''Error'') (\<lambda>v. Inr (validator cfg v))
                 (errorMessage cfg) isValid s
         | _ \<Rightarrow> (Inr isValid, s))"

fun submit_fields_enh ::
  "(string \<times> config) list \<Rightarrow> bool \<Rightarrow> page \<Rightarrow> (exn + bool) \<times> page" where
  "submit_fields_enh [] isValid s = (Inr isValid, s)"
| "submit_fields_enh (kc # rest) isValid s =
     (case submit_field_enh kc isValid s of
        (Inl x, s') \<Rightarrow> (Inl x, s')
      | (Inr isValid', s') \<Rightarrow> submit_fields_enh rest isValid' s')"

definition submit_phone_enh :: "regexp_ctor \<Rightarrow> bool \<Rightarrow> page \<Rightarrow> (exn + bool) \<times> page" where
  "submit_phone_enh RegExp isValid s =
     (case doc s ''contactPhone'' of
        None \<Rightarrow> (Inr isValid, s)
      | Some contactPhone \<Rightarrow>
          if \<not> checked contactPhone then (Inr isValid, s)
          else (case doc s ''phone'' of
                  None \<Rightarrow> (Inl TypeError, s)
                | Some phoneInput \<Rightarrow>
                    if trim (val phoneInput) = [] then
                      validate_and_enh ''phone'' ''phoneError'' (\<lambda>v. Inr False)
                        (js ''Please provide your phone number.'') isValid s
                    else
                      validate_and_enh ''phone'' ''phoneError''
                        (\<lambda>v. validatePhoneNumber_enh RegExp v (doc s ''countryCode''))
                        (js ''Please provide a valid phone number for the selected country.'')
                        isValid s))"

definition submit_success_enh :: "page \<Rightarrow> (exn + bool) \<times> page" where
  "submit_success_enh s =
     (case doc s ''modalOverlay'' of
        None \<Rightarrow> (Inl TypeError, s)
      | Some _ \<Rightarrow>
          (let s1 = upd ''modalOverlay'' (\<lambda>e. e\<lparr>display := ''block''\<rparr>) s;
               s2 = upd ''modalOverlay'' (setAttribute ''aria-hidden'' (js ''false'')) s1
           in case doc s2 ''successModal'' of
                None \<Rightarrow> (Inl TypeError, s2)
              | Some _ \<Rightarrow>
                  (let s3 = upd ''successModal'' (\<lambda>e. e\<lparr>display := ''block''\<rparr>) s2;
                       s4 = upd ''successModal'' (setAttribute ''aria-hidden'' (js ''false'')) s3;
                       s5 = (if modalHasButton s4
                             then snd (setTimeout FocusCloseButton 100 s4) else s4);
                       s6 = announceToScreenReader_enh (js ''Message sent successfully!'') s5;
                       s7 = form_reset s6;
                       s8 = form_forEach
                              (\<lambda>e. has_class ''is-valid'' e \<or> has_class ''is-invalid'' e)
                              (\<lambda>e. removeAttribute ''aria-invalid''
                                     (classList_remove [''is-valid'', ''is-invalid''] e)) s7;
                       s9 = form_forEach (has_class ''invalid-feedback'')
                              (\<lambda>e. (classList_remove [''d-block''] e)\<lparr>textContent := []\<rparr>) s8
                   in (Inr True, s9))))"

text \<open>The branch taken when a check has failed; \<^verbatim>\<open>form.querySelector('.is-invalid')\<close> is
  the first such element in document order.\<close>

definition submit_failure_enh :: "page \<Rightarrow> (exn + bool) \<times> page" where
  "submit_failure_enh s =
     (let s1 = announceToScreenReader_enh
                 (js ''Form contains errors. Please check the fields and try again.'') s
      in case find (\<lambda>k. case doc s1 k of None \<Rightarrow> False | Some e \<Rightarrow> has_class ''is-invalid'' e)
                (formElems s1) of
           None \<Rightarrow> (Inr False, s1)
         | Some firstInvalid \<Rightarrow> (Inr False, emit (Focus (Elem firstInvalid)) s1))"

definition submit_handler_enh :: "regexp_ctor \<Rightarrow> page \<Rightarrow> (exn + bool) \<times> page" where
  "submit_handler_enh RegExp s =
     (let s1 = emit PreventDefault s;
          s2 = emit StopPropagation s1
      in case submit_fields_enh fieldValidators_enh True s2 of
           (Inl x, s3) \<Rightarrow> (Inl x, s3)
         | (Inr isValid, s3) \<Rightarrow>
             (case submit_phone_enh RegExp isValid s3 of
                (Inl x, s4) \<Rightarrow> (Inl x, s4)
              | (Inr isValid', s4) \<Rightarrow>
                  if isValid' then submit_success_enh s4 else submit_failure_enh s4))"

section \<open>Validation on blur and the modal, enhanced variant\<close>

definition field_blur_enh :: "string \<times> config \<Rightarrow> page \<Rightarrow> page" where
  "field_blur_enh kc s =
     (let fieldName = fst kc; cfg = snd kc
      in case doc s fieldName of
           None \<Rightarrow> s
         | Some this \<Rightarrow>
             if fieldName = ''email'' \<and> trim (val this) = [] then
               snd (validate_and_enh fieldName (fieldName @ ''Error'') (\<lambda>v. Inr False)
                      (message_arg (emptyMessage cfg)) True s)
             else
               snd (validate_and_enh fieldName (fieldName @ ''Error'')
                      (\<lambda>v. Inr (validator cfg v)) (errorMessage cfg) True s))"

definition phone_blur_enh :: "regexp_ctor \<Rightarrow> page \<Rightarrow> page" where
  "phone_blur_enh RegExp s =
     (case doc s ''phone'' of
        None \<Rightarrow> s
      | Some this \<Rightarrow>
          (case doc s ''contactPhone'' of
             None \<Rightarrow> s
           | Some contactPhone \<Rightarrow>
               if \<not> checked contactPhone then s
               else if trim (val this) = [] then
                 snd (validate_and_enh ''phone'' ''phoneError'' (\<lambda>v. Inr False)
                        (js ''Please provide your phone number.'') True s)
               else
                 snd (validate_and_enh ''phone'' ''phoneError''
                        (\<lambda>v. validatePhoneNumber_enh RegExp v (doc s ''countryCode''))
                        (js ''Please provide a valid phone number for the selected country.'')
                        True s)))"

text \<open>
  \<^verbatim>\<open>closeModal()\<close>; \<open>submitButton\<close> says whether the form exists and holds a submit
  button.
\<close>

definition closeModal_enh :: "bool \<Rightarrow> page \<Rightarrow> page" where
  "closeModal_enh submitButton s =
     (let s1 = (if doc s ''modalOverlay'' \<noteq> None
                then upd ''modalOverlay'' (setAttribute ''aria-hidden'' (js ''true''))
                       (upd ''modalOverlay'' (\<lambda>e. e\<lparr>display := ''none''\<rparr>) s)
                else s);
          s2 = (if doc s1 ''successModal'' \<noteq> None
                then upd ''successModal'' (setAttribute ''aria-hidden'' (js ''true''))
                       (upd ''successModal'' (\<lambda>e. e\<lparr>display := ''none''\<rparr>) s1)
                else s1)
      in if submitButton then emit (Focus SubmitButton) s2 else s2)"

definition modalOverlay_click_enh :: "bool \<Rightarrow> page \<Rightarrow> page" where
  "modalOverlay_click_enh submitButton s =
     (case doc s ''modalOverlay'' of None \<Rightarrow> s | Some _ \<Rightarrow> closeModal_enh submitButton s)"

text \<open>The \<^verbatim>\<open>keydown\<close> listener of the document, for the key \<open>key\<close>.\<close>

definition keydown_enh :: "jsstring \<Rightarrow> bool \<Rightarrow> page \<Rightarrow> page" where
  "keydown_enh key submitButton s =
     (case doc s ''successModal'' of
        None \<Rightarrow> s
      | Some successModal \<Rightarrow>
          if key = js ''Escape'' \<and> display successModal = ''block''
          then closeModal_enh submitButton s else s)"

section \<open>Navigation, enhanced variant\<close>

text \<open>
  The \<^verbatim>\<open>click\<close> listener of an anchor whose \<^verbatim>\<open>href\<close> attribute is \<open>href\<close>; \<open>found\<close> says
  whether \<^verbatim>\<open>document.querySelector(href)\<close> finds a target, \<open>offcanvas\<close> whether the
  collapsible panel exists with an instance of the component library.
\<close>

definition anchor_click_enh :: "jsstring \<Rightarrow> bool \<Rightarrow> bool \<Rightarrow> page \<Rightarrow> page" where
  "anchor_click_enh href found offcanvas s =
     (if href = [] \<or> href = [0x23] then s
      else
        (let s1 = emit PreventDefault s
         in if found then
              (let s2 = emit (ScrollIntoView href) s1;
                   s3 = snd (setTimeout (FocusSection href) 500 s2)
               in if offcanvas then emit OffcanvasHide s3 else s3)
            else s1))"

definition current_section_enh :: "page \<Rightarrow> jsstring" where
  "current_section_enh s =
     foldl (\<lambda>current (sid, sectionTop).
              if scrollY s \<ge> real_of_int (sectionTop - 200) then sid else current)
       [] (sections s)"

definition update_link_enh :: "jsstring \<Rightarrow> element \<Rightarrow> element" where
  "update_link_enh current link =
     (let link1 = removeAttribute ''aria-current'' (classList_remove [''active''] link)
      in if attrs link1 ''href'' = Some (0x23 # current)
         then setAttribute ''aria-current'' (js ''page'') (classList_add ''active'' link1)
         else link1)"

definition update_nav_enh :: "page \<Rightarrow> page" where
  "update_nav_enh s = s\<lparr>navLinks := map (update_link_enh (current_section_enh s)) (navLinks s)\<rparr>"

text \<open>The \<^verbatim>\<open>scroll\<close> listener of the window: the update is put off by 100 ms.\<close>

definition scroll_handler_enh :: "page \<Rightarrow> page" where
  "scroll_handler_enh s =
     (let s1 = clearTimeout (scrollTimeout s) s;
          (h, s2) = setTimeout UpdateNav 100 s1
      in s2\<lparr>scrollTimeout := Some h\<rparr>)"

text \<open>One entry handed to the callback of the intersection observer: whether the
  section intersects, by which ratio, its id and the text of its first heading.\<close>

record entry =
  isIntersecting :: bool
  intersectionRatio :: real
  sectionId :: "jsstring option"
  heading :: "jsstring option"

definition observe_entry_enh :: "entry \<Rightarrow> page \<Rightarrow> page" where
  "observe_entry_enh en s =
     (if isIntersecting en \<and> intersectionRatio en > 0.5 then
        (case sectionId en of
           None \<Rightarrow> s
         | Some sid \<Rightarrow>
             if sid \<noteq> [] \<and> sid \<noteq> lastSection s then
               (let s1 = s\<lparr>lastSection := sid\<rparr>
                in case heading en of
                     None \<Rightarrow> s1
                   | Some h \<Rightarrow>
                       announceToScreenReader_enh (js ''Navigated to '' @ h @ js '' section'') s1)
             else s)
      else s)"

definition observer_callback_enh :: "entry list \<Rightarrow> page \<Rightarrow> page" where
  "observer_callback_enh entries s = foldl (\<lambda>s en. observe_entry_enh en s) s entries"

section \<open>The two pages as machines\<close>

text \<open>A pending timeout expires: it leaves the list and its callback runs.\<close>

definition run_callback :: "callback \<Rightarrow> page \<Rightarrow> page" where
  "run_callback cb s =
     (case cb of
        ClearAnnouncer \<Rightarrow> upd ''status-announcer'' (\<lambda>e. e\<lparr>textContent := []\<rparr>) s
      | FocusCloseButton \<Rightarrow> emit (Focus ModalButton) s
      | FocusSection href \<Rightarrow> emit (Focus (Selected href)) s
      | UpdateNav \<Rightarrow> update_nav_enh s)"

definition fire_timer :: "nat \<Rightarrow> page \<Rightarrow> page" where
  "fire_timer i s =
     (case find (\<lambda>t. fst t = i) (timers s) of
        None \<Rightarrow> s
      | Some (_, cb, _) \<Rightarrow> run_callback cb (s\<lparr>timers := filter (\<lambda>t. fst t \<noteq> i) (timers s)\<rparr>))"

text \<open>
  The user edits the text of the phone field (typing, deleting, dropping text,
  completion by the browser): the browser puts the new text and the new selection in
  place. It then dispatches an \<^verbatim>\<open>input\<close> event.
\<close>

definition edit_phone :: "jsstring \<Rightarrow> nat \<Rightarrow> nat \<Rightarrow> page \<Rightarrow> page" where
  "edit_phone raw a b s =
     upd ''phone'' (\<lambda>e. e\<lparr>val := raw, selectionStart := a, selectionEnd := b\<rparr>) s"

text \<open>
  What can happen to a page: a listener of the script runs, a timeout expires, or the
  user and the browser change the document and the scroll position otherwise (typing
  into the other fields, ticking, layout). \<open>PhoneEdit\<close> is an edit of the phone field
  with the \<^verbatim>\<open>input\<close> event that follows it, \<open>PhoneInput\<close> an \<^verbatim>\<open>input\<close> event alone,
  \<open>Blur k\<close> the \<^verbatim>\<open>blur\<close> event of the text field \<open>k\<close>, \<open>ModalClick\<close> a click on the
  overlay and \<open>Keydown\<close> a key pressed anywhere, with the arguments of the listeners.
\<close>

datatype event =
    Scroll
  | Expire nat
  | Submit
  | ContactPhoneChange
  | ContactEmailChange
  | CountryCodeChange
  | PhoneEdit jsstring nat nat
  | PhoneInput
  | PhonePaste jsstring
  | Blur string
  | PhoneBlur
  | ModalClick bool
  | Keydown jsstring bool
  | AnchorClick jsstring bool bool
  | Intersect "entry list"
  | Change "string \<rightharpoonup> element" real

text \<open>
  The baseline page. It sets no timeout, observes no intersection and listens to no
  key: these events find no listener and leave the page as it is.
\<close>

definition step :: "regexp_ctor \<Rightarrow> event \<Rightarrow> page \<Rightarrow> page" where
  "step RegExp ev s =
     (case ev of
        Scroll \<Rightarrow> scroll_handler s
      | Expire i \<Rightarrow> s
      | Submit \<Rightarrow> snd (submit_handler RegExp s)
      | ContactPhoneChange \<Rightarrow> contactPhone_change s
      | ContactEmailChange \<Rightarrow> contactEmail_change s
      | CountryCodeChange \<Rightarrow> snd (countryCode_change s)
      | PhoneEdit raw a b \<Rightarrow> phoneInput_input (edit_phone raw a b s)
      | PhoneInput \<Rightarrow> phoneInput_input s
      | PhonePaste t \<Rightarrow> phoneInput_paste t s
      | Blur k \<Rightarrow>
          (case map_of fieldValidators k of None \<Rightarrow> s | Some cfg \<Rightarrow> field_blur (k, cfg) s)
      | PhoneBlur \<Rightarrow> phone_blur RegExp s
      | ModalClick submitButton \<Rightarrow> modalOverlay_click s
      | Keydown key submitButton \<Rightarrow> s
      | AnchorClick href found offcanvas \<Rightarrow> anchor_click href found offcanvas s
      | Intersect entries \<Rightarrow> s
      | Change d y \<Rightarrow> s\<lparr>doc := d, scrollY := y\<rparr>)"

definition run :: "regexp_ctor \<Rightarrow> event list \<Rightarrow> page \<Rightarrow> page" where
  "run RegExp evs s = foldl (\<lambda>s ev. step RegExp ev s) s evs"

text \<open>The enhanced page.\<close>

definition step_enh :: "regexp_ctor \<Rightarrow> event \<Rightarrow> page \<Rightarrow> page" where
  "step_enh RegExp ev s =
     (case ev of
        Scroll \<Rightarrow> scroll_handler_enh s
      | Expire i \<Rightarrow> fire_timer i s
      | Submit \<Rightarrow> snd (submit_handler_enh RegExp s)
      | ContactPhoneChange \<Rightarrow> contactPhone_change_enh s
      | ContactEmailChange \<Rightarrow> contactEmail_change_enh s
      | CountryCodeChange \<Rightarrow> snd (countryCode_change_enh s)
      | PhoneEdit raw a b \<Rightarrow> phoneInput_input_enh (edit_phone raw a b s)
      | PhoneInput \<Rightarrow> phoneInput_input_enh s
      | PhonePaste t \<Rightarrow> phoneInput_paste_enh t s
      | Blur k \<Rightarrow>
          (case map_of fieldValidators_enh k of
             None \<Rightarrow> s | Some cfg \<Rightarrow> field_blur_enh (k, cfg) s)
      | PhoneBlur \<Rightarrow> phone_blur_enh RegExp s
      | ModalClick submitButton \<Rightarrow> modalOverlay_click_enh submitButton s
      | Keydown key submitButton \<Rightarrow> keydown_enh key submitButton s
      | AnchorClick href found offcanvas \<Rightarrow> anchor_click_enh href found offcanvas s
      | Intersect entries \<Rightarrow> observer_callback_enh entries s
      | Change d y \<Rightarrow> s\<lparr>doc := d, scrollY := y\<rparr>)"

definition run_enh :: "regexp_ctor \<Rightarrow> event list \<Rightarrow> page \<Rightarrow> page" where
  "run_enh RegExp evs s = foldl (\<lambda>s ev. step_enh RegExp ev s) s evs"



section \<open>Notions used in the statements\<close>

text \<open>
  \<open>feedback_only e e'\<close>: the element \<open>e'\<close> is \<open>e\<close> up to validation feedback, that is
  up to its class list, its text and its attributes.
\<close>

definition feedback_only :: "element \<Rightarrow> element \<Rightarrow> bool" where
  "feedback_only e e' \<longleftrightarrow>
     val e' = val e \<and> defaultValue e' = defaultValue e \<and> checked e' = checked e \<and>
     defaultChecked e' = defaultChecked e \<and> required e' = required e \<and>
     placeholder e' = placeholder e \<and> display e' = display e \<and>
     selectionStart e' = selectionStart e \<and> selectionEnd e' = selectionEnd e \<and>
     options e' = options e \<and> selectedIndex e' = selectedIndex e \<and>
     defaultSelectedIndex e' = defaultSelectedIndex e"

text \<open>\<open>same_but_feedback s s'\<close>: the page \<open>s'\<close> is \<open>s\<close> up to validation feedback on
  its elements.\<close>

definition same_but_feedback :: "page \<Rightarrow> page \<Rightarrow> bool" where
  "same_but_feedback s s' \<longleftrightarrow>
     s' = s\<lparr>doc := doc s'\<rparr> \<and> (\<forall>k. rel_option feedback_only (doc s k) (doc s' k))"

text \<open>
  What the checks of the \<^verbatim>\<open>submit\<close> listener compute, as functions of the page they
  start from: the verdict on one text field and on all of them, the verdict on the
  phone number, and the result of the listener. The lemmas of the next sections prove
  that the listeners compute them.
\<close>

definition field_check :: "string \<times> config \<Rightarrow> page \<Rightarrow> bool" where
  "field_check kc s =
     (case (doc s (fst kc), doc s (fst kc @ ''Error'')) of
        (Some f, Some e) \<Rightarrow>
          if fst kc = ''email'' then trim (val f) \<noteq> [] \<and> validator (snd kc) (val f)
          else validator (snd kc) (val f)
      | _ \<Rightarrow> True)"

definition phone_check :: "regexp_ctor \<Rightarrow> page \<Rightarrow> exn + bool" where
  "phone_check RegExp s =
     (case doc s ''contactPhone'' of
        None \<Rightarrow> Inr True
      | Some cp \<Rightarrow>
          if \<not> checked cp then Inr True
          else (case doc s ''phone'' of
                  None \<Rightarrow> Inl TypeError
                | Some p \<Rightarrow>
                    (case doc s ''phoneError'' of
                       None \<Rightarrow> Inr True
                     | Some e \<Rightarrow>
                         if trim (val p) = [] then Inr False
                         else validatePhoneNumber RegExp (val p) (doc s ''countryCode''))))"

definition text_check :: "page \<Rightarrow> bool" where
  "text_check s = list_all (\<lambda>kc. field_check kc s) fieldValidators"

definition submit_verdict :: "regexp_ctor \<Rightarrow> page \<Rightarrow> exn + bool" where
  "submit_verdict RegExp s =
     (case phone_check RegExp s of
        Inl x \<Rightarrow> Inl x
      | Inr pv \<Rightarrow>
          if text_check s \<and> pv then
            (if doc s ''modalOverlay'' = None \<or> doc s ''successModal'' = None
             then Inl TypeError else Inr True)
          else Inr False)"

text \<open>A string of digits and white space characters.\<close>

definition only_digits_and_spaces :: "jsstring \<Rightarrow> bool" where
  "only_digits_and_spaces v = list_all (\<lambda>c. is_digit c \<or> is_space c) v"

text \<open>The digits and the white space characters other than line breaks of a string,
  in their order.\<close>

definition digits_and_spaces_of :: "jsstring \<Rightarrow> jsstring" where
  "digits_and_spaces_of v =
     filter (\<lambda>c. (is_digit c \<or> is_space c) \<and> c \<noteq> 0x000A \<and> c \<noteq> 0x000D) v"

text \<open>The value and the default value of the phone field, when the page has one.\<close>

definition phone_text :: "page \<Rightarrow> (jsstring \<times> jsstring) option" where
  "phone_text s = map_option (\<lambda>p. (val p, defaultValue p)) (doc s ''phone'')"

text \<open>
  \<open>quiet ev s\<close>: the event \<open>ev\<close>, happening on the page \<open>s\<close>, is no edit of the phone
  field behind the back of its \<^verbatim>\<open>input\<close> listener. Only a change of the document by
  the user or the browser can be one; it is quiet when it keeps the phone field with
  its value and default value. An edit of the phone field comes with its \<^verbatim>\<open>input\<close>
  event, as \<open>PhoneEdit\<close>.
\<close>

definition quiet :: "event \<Rightarrow> page \<Rightarrow> bool" where
  "quiet ev s = (case ev of Change d y \<Rightarrow> phone_text (s\<lparr>doc := d\<rparr>) = phone_text s | _ \<Rightarrow> True)"

text \<open>\<open>quiet_run st evs s\<close>: every event of \<open>evs\<close> is quiet on the page it happens on,
  when the events happen in turn from the page \<open>s\<close> of the machine \<open>st\<close>.\<close>

fun quiet_run :: "(event \<Rightarrow> page \<Rightarrow> page) \<Rightarrow> event list \<Rightarrow> page \<Rightarrow> bool" where
  "quiet_run st [] s = True"
| "quiet_run st (ev # evs) s = (quiet ev s \<and> quiet_run st evs (st ev s))"

text \<open>The platform calls made between the page \<open>s\<close> and the later page \<open>s'\<close>.\<close>

definition emitted :: "page \<Rightarrow> page \<Rightarrow> effect list" where
  "emitted s s' = drop (length (effects s)) (effects s')"

text \<open>Every element of \<open>s'\<close> is the element of \<open>s\<close> with the same id, up to feedback.\<close>

definition values_kept :: "page \<Rightarrow> page \<Rightarrow> bool" where
  "values_kept s s' \<longleftrightarrow> (\<forall>k. rel_option feedback_only (doc s k) (doc s' k))"

text \<open>An element in the state \<^verbatim>\<open>form.reset()\<close> leaves it in.\<close>

definition is_reset :: "element \<Rightarrow> bool" where
  "is_reset e \<longleftrightarrow> val e = defaultValue e \<and> checked e = defaultChecked e
     \<and> selectedIndex e = defaultSelectedIndex e"


text \<open>What the page holds about timeouts.\<close>

definition tview :: "page \<Rightarrow> (nat \<times> callback \<times> nat) list \<times> nat \<times> nat option" where
  "tview s = (timers s, nextTimer s, scrollTimeout s)"


text \<open>\<open>grows s s'\<close>: from \<open>s\<close> to \<open>s'\<close> no timeout was cancelled or has expired, the new
  ones are no updates of the links, and \<^verbatim>\<open>scrollTimeout\<close> is unchanged.\<close>

definition grows :: "page \<Rightarrow> page \<Rightarrow> bool" where
  "grows s s' \<longleftrightarrow>
     scrollTimeout s' = scrollTimeout s \<and> nextTimer s \<le> nextTimer s'
     \<and> (\<exists>new. timers s' = timers s @ new
            \<and> list_all (\<lambda>t. fst (snd t) \<noteq> UpdateNav \<and> nextTimer s \<le> fst t \<and> fst t < nextTimer s') new
            \<and> distinct (map fst new))"

section \<open>Sample pages\<close>

text \<open>Concrete input on which the listeners are run below.\<close>

definition blank :: element where
  "blank =
     \<lparr>val = [], defaultValue = [], checked = False, defaultChecked = False,
      required = False, placeholder = [], classList = [], textContent = [], display = [],
      attrs = Map.empty, selectionStart = 0, selectionEnd = 0, options = [],
      selectedIndex = - 1, defaultSelectedIndex = - 1\<rparr>"

text \<open>The callback \<^verbatim>\<open>() => false\<close> of the script.\<close>

definition always_false :: "jsstring \<Rightarrow> exn + bool" where
  "always_false v = Inr False"

definition always_true :: "jsstring \<Rightarrow> exn + bool" where
  "always_true v = Inr True"

text \<open>A country selector with one option, selected, whose \<^verbatim>\<open>data-pattern\<close> is \<open>pat\<close>.\<close>

definition country_select :: "jsstring option \<Rightarrow> element" where
  "country_select pat =
     blank\<lparr>options := [\<lparr>data_pattern = pat, data_placeholder = None, option_text = []\<rparr>],
           selectedIndex := 0, defaultSelectedIndex := 0\<rparr>"

text \<open>
  A page with the whole form. The first name is \<open>fn\<close>, the phone number \<open>ph\<close>, the
  phone method is ticked when \<open>byPhone\<close> holds, and the selected country has the
  \<^verbatim>\<open>data-pattern\<close> \<open>pat\<close>; the other text fields are filled in correctly.
\<close>

definition sample_doc :: "jsstring \<Rightarrow> bool \<Rightarrow> jsstring \<Rightarrow> jsstring option \<Rightarrow> (string \<rightharpoonup> element)" where
  "sample_doc fn byPhone ph pat =
     [''firstName'' \<mapsto> blank\<lparr>val := fn\<rparr>,
      ''firstNameError'' \<mapsto> blank\<lparr>classList := [''invalid-feedback'']\<rparr>,
      ''lastName'' \<mapsto> blank\<lparr>val := js ''Lovelace''\<rparr>,
      ''lastNameError'' \<mapsto> blank\<lparr>classList := [''invalid-feedback'']\<rparr>,
      ''email'' \<mapsto> blank\<lparr>val := js ''ada@example.org''\<rparr>,
      ''emailError'' \<mapsto> blank\<lparr>classList := [''invalid-feedback'']\<rparr>,
      ''messageSubject'' \<mapsto> blank\<lparr>val := js ''Hello''\<rparr>,
      ''messageSubjectError'' \<mapsto> blank\<lparr>classList := [''invalid-feedback'']\<rparr>,
      ''message'' \<mapsto> blank\<lparr>val := js ''Good day.''\<rparr>,
      ''messageError'' \<mapsto> blank\<lparr>classList := [''invalid-feedback'']\<rparr>,
      ''contactEmail'' \<mapsto> blank\<lparr>checked := \<not> byPhone, defaultChecked := True\<rparr>,
      ''contactPhone'' \<mapsto> blank\<lparr>checked := byPhone\<rparr>,
      ''phone-group'' \<mapsto> blank\<lparr>display := ''none''\<rparr>,
      ''phone'' \<mapsto> blank\<lparr>val := ph, selectionStart := length ph, selectionEnd := length ph\<rparr>,
      ''phoneError'' \<mapsto> blank\<lparr>classList := [''invalid-feedback'']\<rparr>,
      ''countryCode'' \<mapsto> country_select pat,
      ''successModal'' \<mapsto> blank\<lparr>display := ''none''\<rparr>,
      ''modalOverlay'' \<mapsto> blank\<lparr>display := ''none''\<rparr>,
      ''status-announcer'' \<mapsto> blank]"

definition sample_page :: "jsstring \<Rightarrow> bool \<Rightarrow> jsstring \<Rightarrow> jsstring option \<Rightarrow> page" where
  "sample_page fn byPhone ph pat =
     \<lparr>doc = sample_doc fn byPhone ph pat,
      formElems = [''firstName'', ''firstNameError'', ''lastName'', ''lastNameError'',
                   ''email'', ''emailError'', ''contactEmail'', ''contactPhone'',
                   ''phone-group'', ''countryCode'', ''phone'', ''phoneError'',
                   ''messageSubject'', ''messageSubjectError'', ''message'', ''messageError''],
      navLinks = [blank\<lparr>attrs := [''href'' \<mapsto> js ''#home'']\<rparr>,
                  blank\<lparr>attrs := [''href'' \<mapsto> js ''#contact'']\<rparr>],
      sections = [(js ''home'', 0), (js ''contact'', 900)],
      scrollY = 800,
      modalHasButton = True,
      timers = [], nextTimer = 1, scrollTimeout = None, lastSection = [],
      effects = []\<rparr>"

text \<open>
  A stand-in for \<^verbatim>\<open>new RegExp\<close> that knows three patterns and treats them as the
  platform does: the empty pattern matches every string, \<^verbatim>\<open>^[0-9]*$\<close> the strings of
  digits, \<^verbatim>\<open>^[0-9]{10}$\<close> the strings of ten digits.
\<close>

definition sample_RegExp :: regexp_ctor where
  "sample_RegExp p =
     (if p = [] then Some (\<lambda>t. True)
      else if p = js ''^[0-9]*$'' then Some (list_all is_digit)
      else if p = js ''^[0-9]{10}$'' then Some (\<lambda>t. length t = 10 \<and> list_all is_digit t)
      else None)"

text \<open>The page \<open>s\<close> without the element of id \<open>k\<close>.\<close>

definition without :: "string \<Rightarrow> page \<Rightarrow> page" where
  "without k s = s\<lparr>doc := (doc s)(k := None)\<rparr>"

text \<open>Two valid forms with the phone method ticked: one lacks the phone input, the
  other the error element of the phone input (and its country has no pattern).\<close>

definition page_without_phone_input :: page where
  "page_without_phone_input = without ''phone'' (sample_page (js ''Ada'') True [] None)"

definition page_without_phoneError :: page where
  "page_without_phoneError = without ''phoneError'' (sample_page (js ''Ada'') True (js ''5'') None)"

text \<open>A valid form, to be answered by electronic mail, whose phone field holds \<^verbatim>\<open>41\<close> and
  has the default value \<^verbatim>\<open>+41\<close>.\<close>

definition page_with_phone_default :: page where
  "page_with_phone_default =
     upd ''phone'' (\<lambda>e. e\<lparr>defaultValue := js ''+41''\<rparr>)
       (sample_page (js ''Ada'') False (js ''41'') None)"

section \<open>Validation leaves everything but feedback alone\<close>

lemma feedback_only_refl [simp]: "feedback_only e e"
  by (simp add: feedback_only_def)

lemma feedback_only_trans: "feedback_only a b \<Longrightarrow> feedback_only b c \<Longrightarrow> feedback_only a c"
  by (simp add: feedback_only_def)

lemma feedback_only_updates [simp]:
  "feedback_only e e' \<Longrightarrow> feedback_only e (classList_add c e')"
  "feedback_only e e' \<Longrightarrow> feedback_only e (classList_remove cs e')"
  "feedback_only e e' \<Longrightarrow> feedback_only e (setAttribute a v e')"
  "feedback_only e e' \<Longrightarrow> feedback_only e (removeAttribute a e')"
  "feedback_only e e' \<Longrightarrow> feedback_only e (e'\<lparr>textContent := t\<rparr>)"
  by (simp_all add: feedback_only_def classList_add_def classList_remove_def
        setAttribute_def removeAttribute_def)

lemma rel_feedback_refl [simp]: "rel_option feedback_only x x"
  by (cases x) simp_all

lemma rel_feedback_trans:
  "rel_option feedback_only x y \<Longrightarrow> rel_option feedback_only y z \<Longrightarrow> rel_option feedback_only x z"
  by (cases x; cases y; cases z) (auto intro: feedback_only_trans)

lemma same_but_feedback_refl [simp]: "same_but_feedback s s"
  by (simp add: same_but_feedback_def)

lemma same_but_feedback_trans:
  "same_but_feedback s t \<Longrightarrow> same_but_feedback t u \<Longrightarrow> same_but_feedback s u"
  unfolding same_but_feedback_def
  apply (intro conjI allI)
   apply (cases s, cases t, cases u, simp)
  apply (blast intro: rel_feedback_trans)
  done

lemma validateField_verdict:
  "map_sum id fst (validateField fo eo fn msg) =
     (case (fo, eo) of (Some f, Some e) \<Rightarrow> fn (val f) | _ \<Rightarrow> Inr True)"
  by (auto simp: validateField_def split: option.splits sum.splits)

lemma validateField_feedback:
  "validateField fo eo fn msg = Inr (ok, f', e') \<Longrightarrow>
     rel_option feedback_only fo f' \<and> rel_option feedback_only eo e'"
  by (auto simp: validateField_def split: option.splits sum.splits if_splits)

lemma validate_and_fst:
  "fst (validate_and k k' fn msg b s) =
     map_sum id (\<lambda>ok. ok \<and> b)
       (case (doc s k, doc s k') of (Some f, Some e) \<Rightarrow> fn (val f) | _ \<Rightarrow> Inr True)"
proof -
  have "fst (validate_and k k' fn msg b s) =
          map_sum id (\<lambda>ok. ok \<and> b) (map_sum id fst (validateField (doc s k) (doc s k') fn msg))"
    by (simp add: validate_and_def split: sum.splits prod.splits)
  then show ?thesis by (simp only: validateField_verdict)
qed

lemma validate_and_snd:
  "same_but_feedback s (snd (validate_and k k' fn msg b s))"
proof (cases "validateField (doc s k) (doc s k') fn msg")
  case (Inl x)
  then show ?thesis by (simp add: validate_and_def)
next
  case (Inr r)
  obtain ok f' e' where r: "r = (ok, f', e')" by (cases r)
  from Inr r have rel: "rel_option feedback_only (doc s k) f'" "rel_option feedback_only (doc s k') e'"
    using validateField_feedback by blast+
  show ?thesis using Inr r rel
    by (simp add: validate_and_def store2_def same_but_feedback_def)
qed

lemma same_but_feedback_doc:
  "same_but_feedback s s' \<Longrightarrow> rel_option feedback_only (doc s k) (doc s' k)"
  by (simp add: same_but_feedback_def)

lemma rel_feedback_None [simp]:
  "rel_option feedback_only x y \<Longrightarrow> (y = None) = (x = None)"
  by (cases x; cases y) simp_all

lemma rel_feedback_val:
  "rel_option feedback_only x y \<Longrightarrow> map_option val y = map_option val x"
  by (cases x; cases y) (simp_all add: feedback_only_def)

lemma validatePhoneNumber_feedback:
  "rel_option feedback_only x y \<Longrightarrow>
     validatePhoneNumber RegExp v y = validatePhoneNumber RegExp v x"
  by (cases x; cases y) (simp_all add: validatePhoneNumber_def feedback_only_def)

lemma field_check_feedback:
  assumes "same_but_feedback s s'"
  shows "field_check kc s' = field_check kc s"
proof -
  have a: "rel_option feedback_only (doc s (fst kc)) (doc s' (fst kc))"
    and b: "rel_option feedback_only (doc s (fst kc @ ''Error'')) (doc s' (fst kc @ ''Error''))"
    using assms by (simp_all add: same_but_feedback_doc)
  show ?thesis
  proof (cases "doc s (fst kc)")
    case None
    with a show ?thesis by (simp add: field_check_def)
  next
    case (Some f)
    with a obtain f' where f': "doc s' (fst kc) = Some f'" "val f' = val f"
      by (cases "doc s' (fst kc)") (auto simp: feedback_only_def)
    show ?thesis
    proof (cases "doc s (fst kc @ ''Error'')")
      case None
      with b Some f' show ?thesis by (simp add: field_check_def)
    next
      case (Some e)
      with b obtain e' where "doc s' (fst kc @ ''Error'') = Some e'"
        by (cases "doc s' (fst kc @ ''Error'')") auto
      with Some \<open>doc s (fst kc) = Some f\<close> f' show ?thesis by (simp add: field_check_def)
    qed
  qed
qed

lemma phone_check_feedback:
  assumes "same_but_feedback s s'"
  shows "phone_check RegExp s' = phone_check RegExp s"
proof -
  have cp: "rel_option feedback_only (doc s ''contactPhone'') (doc s' ''contactPhone'')"
    and p: "rel_option feedback_only (doc s ''phone'') (doc s' ''phone'')"
    and e: "rel_option feedback_only (doc s ''phoneError'') (doc s' ''phoneError'')"
    and c: "rel_option feedback_only (doc s ''countryCode'') (doc s' ''countryCode'')"
    using assms by (simp_all add: same_but_feedback_doc)
  show ?thesis
    using cp p e validatePhoneNumber_feedback [OF c, of RegExp]
    by (cases "doc s ''contactPhone''"; cases "doc s' ''contactPhone''";
        cases "doc s ''phone''"; cases "doc s' ''phone''";
        cases "doc s ''phoneError''"; cases "doc s' ''phoneError''")
       (simp_all add: phone_check_def feedback_only_def)
qed

lemma submit_field_fst:
  "fst (submit_field kc b s) = Inr (field_check kc s \<and> b)"
  by (cases "doc s (fst kc)"; cases "doc s (fst kc @ ''Error'')")
     (auto simp: submit_field_def field_check_def validate_and_fst Let_def)

lemma submit_field_snd:
  "same_but_feedback s (snd (submit_field kc b s))"
  by (cases "doc s (fst kc)"; cases "doc s (fst kc @ ''Error'')")
     (simp_all add: submit_field_def validate_and_snd Let_def)

lemma submit_fields_both:
  "fst (submit_fields kcs b s) = Inr (list_all (\<lambda>kc. field_check kc s) kcs \<and> b) \<and>
   same_but_feedback s (snd (submit_fields kcs b s))"
proof (induction kcs arbitrary: b s)
  case Nil
  show ?case by simp
next
  case (Cons kc kcs)
  obtain r s1 where step: "submit_field kc b s = (r, s1)" by (cases "submit_field kc b s")
  from submit_field_fst [of kc b s] step have r: "r = Inr (field_check kc s \<and> b)" by simp
  from submit_field_snd [of s kc b] step have f1: "same_but_feedback s s1" by simp
  have chk: "list_all (\<lambda>kc. field_check kc s1) kcs = list_all (\<lambda>kc. field_check kc s) kcs"
    using field_check_feedback [OF f1] by simp
  from Cons.IH [of "field_check kc s \<and> b" s1] step r chk f1 show ?case
    by (auto intro: same_but_feedback_trans)
qed

lemma submit_phone_fst:
  "fst (submit_phone RegExp b s) = map_sum id (\<lambda>ok. ok \<and> b) (phone_check RegExp s)"
  by (cases "doc s ''contactPhone''"; cases "doc s ''phone''"; cases "doc s ''phoneError''")
     (simp_all add: submit_phone_def phone_check_def validate_and_fst)

lemma submit_phone_snd:
  "same_but_feedback s (snd (submit_phone RegExp b s))"
  by (cases "doc s ''contactPhone''"; cases "doc s ''phone''")
     (simp_all add: submit_phone_def validate_and_snd)

lemma same_but_feedback_emit:
  "field_check kc (emit x s) = field_check kc s"
  "phone_check RegExp (emit x s) = phone_check RegExp s"
  by (simp_all add: emit_def field_check_def phone_check_def cong: option.case_cong if_cong)

lemma submit_handler_cases:
  obtains
    (threw) x s4 where
      "submit_handler RegExp s = (Inl x, s4)" "phone_check RegExp s = Inl x"
      "same_but_feedback (emit StopPropagation (emit PreventDefault s)) s4"
  | (failed) pv s4 where
      "submit_handler RegExp s = (Inr False, s4)" "phone_check RegExp s = Inr pv"
      "\<not> (text_check s \<and> pv)"
      "same_but_feedback (emit StopPropagation (emit PreventDefault s)) s4"
  | (passed) s4 where
      "submit_handler RegExp s = submit_success s4" "phone_check RegExp s = Inr True"
      "text_check s"
      "same_but_feedback (emit StopPropagation (emit PreventDefault s)) s4"
proof -
  define s2 where "s2 = emit StopPropagation (emit PreventDefault s)"
  obtain r3 s3 where f: "submit_fields fieldValidators True s2 = (r3, s3)"
    by (cases "submit_fields fieldValidators True s2")
  from submit_fields_both [of fieldValidators True s2] f
  have r3: "r3 = Inr (text_check s)" and f23: "same_but_feedback s2 s3"
    by (simp_all add: text_check_def s2_def same_but_feedback_emit)
  obtain r4 s4 where p: "submit_phone RegExp (text_check s) s3 = (r4, s4)"
    by (cases "submit_phone RegExp (text_check s) s3")
  from submit_phone_fst [of RegExp "text_check s" s3] p phone_check_feedback [OF f23, of RegExp]
  have r4: "r4 = map_sum id (\<lambda>ok. ok \<and> text_check s) (phone_check RegExp s)"
    by (simp add: s2_def same_but_feedback_emit)
  from submit_phone_snd [of s3 RegExp "text_check s"] p f23
  have f24: "same_but_feedback s2 s4"
    by (auto intro: same_but_feedback_trans)
  have unfold: "submit_handler RegExp s =
      (case r4 of Inl x \<Rightarrow> (Inl x, s4)
       | Inr b \<Rightarrow> if b then submit_success s4 else (Inr False, s4))"
    using f p r3 by (simp add: submit_handler_def s2_def Let_def)
  show thesis
  proof (cases "phone_check RegExp s")
    case (Inl x)
    with r4 unfold f24 threw show ?thesis by (simp add: s2_def)
  next
    case (Inr pv)
    show ?thesis
    proof (cases "text_check s \<and> pv")
      case True
      with Inr r4 unfold f24 passed show ?thesis by (simp add: s2_def)
    next
      case False
      with Inr r4 unfold f24 failed [of s4 pv] show ?thesis by (auto simp: s2_def)
    qed
  qed
qed

lemma submit_success_fst:
  "fst (submit_success s) =
     (if doc s ''modalOverlay'' = None \<or> doc s ''successModal'' = None
      then Inl TypeError else Inr True)"
  by (auto simp: submit_success_def upd_def Let_def split: option.splits)

lemma submit_handler_fst: "fst (submit_handler RegExp s) = submit_verdict RegExp s"
proof (cases rule: submit_handler_cases [of RegExp s])
  case (threw x s4)
  then show ?thesis by (simp add: submit_verdict_def)
next
  case (failed pv s4)
  then show ?thesis by (auto simp: submit_verdict_def text_check_def)
next
  case (passed s4)
  from passed(4) have
    "rel_option feedback_only (doc s ''modalOverlay'') (doc s4 ''modalOverlay'')"
    "rel_option feedback_only (doc s ''successModal'') (doc s4 ''successModal'')"
    using same_but_feedback_doc [OF passed(4)] by (simp_all add: emit_def)
  then have "(doc s4 ''modalOverlay'' = None) = (doc s ''modalOverlay'' = None)"
    "(doc s4 ''successModal'' = None) = (doc s ''successModal'' = None)"
    by simp_all
  with passed show ?thesis
    by (simp add: submit_verdict_def text_check_def submit_success_fst)
qed

section \<open>The phone field holds digits and spaces\<close>

lemma val_setSelectionRange [simp]: "val (setSelectionRange a b e) = val e"
  by (simp add: setSelectionRange_def Let_def)

lemma val_set_value [simp]: "val (set_value v e) = strip_newlines v"
  by (simp add: set_value_def Let_def)

lemma defaultValue_set_value [simp]: "defaultValue (set_value v e) = defaultValue e"
  by (simp add: set_value_def Let_def)

lemma defaultValue_setSelectionRange [simp]:
  "defaultValue (setSelectionRange a b e) = defaultValue e"
  by (simp add: setSelectionRange_def Let_def)

lemma strip_remove_class:
  "strip_newlines (remove_class True [Dig, WS] v) = digits_and_spaces_of v"
  by (induction v)
     (auto simp: strip_newlines_def remove_class_def digits_and_spaces_of_def in_class_def)

lemma digits_and_spaces_of_append [simp]:
  "digits_and_spaces_of (u @ v) = digits_and_spaces_of u @ digits_and_spaces_of v"
  by (simp add: digits_and_spaces_of_def)

lemma digits_and_spaces_of_idem [simp]:
  "digits_and_spaces_of (digits_and_spaces_of v) = digits_and_spaces_of v"
  by (simp add: digits_and_spaces_of_def)

lemma digits_and_spaces_of_strip [simp]:
  "digits_and_spaces_of (strip_newlines v) = digits_and_spaces_of v"
  by (induction v) (auto simp: strip_newlines_def digits_and_spaces_of_def)

lemma digits_and_spaces_of_remove [simp]:
  "digits_and_spaces_of (remove_class True [Dig, WS] v) = digits_and_spaces_of v"
  by (induction v) (auto simp: remove_class_def digits_and_spaces_of_def in_class_def)

lemma digits_and_spaces_of_clean: "only_digits_and_spaces (digits_and_spaces_of v)"
  by (simp add: only_digits_and_spaces_def digits_and_spaces_of_def list_all_iff)

lemma substring_take: "substring v 0 n = take n v"
  by (simp add: substring_def Let_def min_def)

lemma substring_from_drop: "substring_from v n = drop n v"
  by (simp add: substring_from_def substring_def Let_def min_def)

lemma input_val:
  "doc s ''phone'' = Some p \<Longrightarrow>
     map_option val (doc (phoneInput_input s) ''phone'') = Some (digits_and_spaces_of (val p))"
  by (simp add: phoneInput_input_def Let_def strip_remove_class)

lemma paste_val:
  "doc s ''phone'' = Some p \<Longrightarrow>
     map_option val (doc (phoneInput_paste t s) ''phone'') =
       Some (digits_and_spaces_of
               (take (selectionStart p) (val p) @ t @ drop (selectionEnd p) (val p)))"
  by (simp add: phoneInput_paste_def phoneInput_input_def Let_def emit_def strip_remove_class
        substring_take substring_from_drop)

lemma input_val_enh:
  "doc s ''phone'' = Some p \<Longrightarrow>
     map_option val (doc (phoneInput_input_enh s) ''phone'') = Some (digits_and_spaces_of (val p))"
  by (simp add: phoneInput_input_enh_def Let_def strip_remove_class)

lemma paste_val_enh:
  "doc s ''phone'' = Some p \<Longrightarrow>
     map_option val (doc (phoneInput_paste_enh t s) ''phone'') =
       Some (digits_and_spaces_of
               (take (selectionStart p) (val p) @ t @ drop (selectionEnd p) (val p)))"
  by (simp add: phoneInput_paste_enh_def phoneInput_input_enh_def Let_def emit_def
        strip_remove_class substring_take substring_from_drop)

section \<open>The two variants check alike\<close>

lemma isValidEmail_enh_eq: "isValidEmail_enh = isValidEmail"
  by (rule ext) (simp add: isValidEmail_enh_def isValidEmail_def emailPattern_enh_def emailPattern_def)

lemma validatePhoneNumber_enh_eq: "validatePhoneNumber_enh = validatePhoneNumber"
  by (intro ext) (simp add: validatePhoneNumber_enh_def validatePhoneNumber_def)

lemma fieldValidators_enh_eq: "fieldValidators_enh = fieldValidators"
  by (simp add: fieldValidators_enh_def fieldValidators_def isValidEmail_enh_eq)

lemma validateField_enh_verdict:
  "map_sum id fst (validateField_enh fo eo fn msg) =
     (case (fo, eo) of (Some f, Some e) \<Rightarrow> fn (val f) | _ \<Rightarrow> Inr True)"
  by (auto simp: validateField_enh_def split: option.splits sum.splits)

lemma validateField_enh_feedback:
  "validateField_enh fo eo fn msg = Inr (ok, f', e') \<Longrightarrow>
     rel_option feedback_only fo f' \<and> rel_option feedback_only eo e'"
  by (auto simp: validateField_enh_def split: option.splits sum.splits if_splits)

lemma validate_and_enh_fst:
  "fst (validate_and_enh k k' fn msg b s) =
     map_sum id (\<lambda>ok. ok \<and> b)
       (case (doc s k, doc s k') of (Some f, Some e) \<Rightarrow> fn (val f) | _ \<Rightarrow> Inr True)"
proof -
  have "fst (validate_and_enh k k' fn msg b s) =
          map_sum id (\<lambda>ok. ok \<and> b)
            (map_sum id fst (validateField_enh (doc s k) (doc s k') fn msg))"
    by (simp add: validate_and_enh_def split: sum.splits prod.splits)
  then show ?thesis by (simp only: validateField_enh_verdict)
qed

lemma validate_and_enh_snd:
  "same_but_feedback s (snd (validate_and_enh k k' fn msg b s))"
proof (cases "validateField_enh (doc s k) (doc s k') fn msg")
  case (Inl x)
  then show ?thesis by (simp add: validate_and_enh_def)
next
  case (Inr r)
  obtain ok f' e' where r: "r = (ok, f', e')" by (cases r)
  from Inr r have rel: "rel_option feedback_only (doc s k) f'" "rel_option feedback_only (doc s k') e'"
    using validateField_enh_feedback by blast+
  show ?thesis using Inr r rel
    by (simp add: validate_and_enh_def store2_def same_but_feedback_def)
qed

lemma submit_field_enh_fst:
  "fst (submit_field_enh kc b s) = Inr (field_check kc s \<and> b)"
  by (cases "doc s (fst kc)"; cases "doc s (fst kc @ ''Error'')")
     (auto simp: submit_field_enh_def field_check_def validate_and_enh_fst Let_def)

lemma submit_field_enh_snd:
  "same_but_feedback s (snd (submit_field_enh kc b s))"
  by (cases "doc s (fst kc)"; cases "doc s (fst kc @ ''Error'')")
     (simp_all add: submit_field_enh_def validate_and_enh_snd Let_def)

lemma submit_fields_enh_both:
  "fst (submit_fields_enh kcs b s) = Inr (list_all (\<lambda>kc. field_check kc s) kcs \<and> b) \<and>
   same_but_feedback s (snd (submit_fields_enh kcs b s))"
proof (induction kcs arbitrary: b s)
  case Nil
  show ?case by simp
next
  case (Cons kc kcs)
  obtain r s1 where step: "submit_field_enh kc b s = (r, s1)"
    by (cases "submit_field_enh kc b s")
  from submit_field_enh_fst [of kc b s] step have r: "r = Inr (field_check kc s \<and> b)" by simp
  from submit_field_enh_snd [of s kc b] step have f1: "same_but_feedback s s1" by simp
  have chk: "list_all (\<lambda>kc. field_check kc s1) kcs = list_all (\<lambda>kc. field_check kc s) kcs"
    using field_check_feedback [OF f1] by simp
  from Cons.IH [of "field_check kc s \<and> b" s1] step r chk f1 show ?case
    by (auto intro: same_but_feedback_trans)
qed

lemma submit_phone_enh_fst:
  "fst (submit_phone_enh RegExp b s) = map_sum id (\<lambda>ok. ok \<and> b) (phone_check RegExp s)"
  by (cases "doc s ''contactPhone''"; cases "doc s ''phone''"; cases "doc s ''phoneError''")
     (simp_all add: submit_phone_enh_def phone_check_def validate_and_enh_fst
        validatePhoneNumber_enh_eq)

lemma submit_phone_enh_snd:
  "same_but_feedback s (snd (submit_phone_enh RegExp b s))"
  by (cases "doc s ''contactPhone''"; cases "doc s ''phone''")
     (simp_all add: submit_phone_enh_def validate_and_enh_snd)

lemma submit_handler_enh_cases:
  obtains
    (threw) x s4 where
      "submit_handler_enh RegExp s = (Inl x, s4)" "phone_check RegExp s = Inl x"
      "same_but_feedback (emit StopPropagation (emit PreventDefault s)) s4"
  | (failed) pv s4 where
      "submit_handler_enh RegExp s = submit_failure_enh s4" "phone_check RegExp s = Inr pv"
      "\<not> (text_check s \<and> pv)"
      "same_but_feedback (emit StopPropagation (emit PreventDefault s)) s4"
  | (passed) s4 where
      "submit_handler_enh RegExp s = submit_success_enh s4" "phone_check RegExp s = Inr True"
      "text_check s"
      "same_but_feedback (emit StopPropagation (emit PreventDefault s)) s4"
proof -
  define s2 where "s2 = emit StopPropagation (emit PreventDefault s)"
  obtain r3 s3 where f: "submit_fields_enh fieldValidators_enh True s2 = (r3, s3)"
    by (cases "submit_fields_enh fieldValidators_enh True s2")
  from submit_fields_enh_both [of fieldValidators_enh True s2] f
  have r3: "r3 = Inr (text_check s)" and f23: "same_but_feedback s2 s3"
    by (simp_all add: text_check_def s2_def same_but_feedback_emit fieldValidators_enh_eq)
  obtain r4 s4 where p: "submit_phone_enh RegExp (text_check s) s3 = (r4, s4)"
    by (cases "submit_phone_enh RegExp (text_check s) s3")
  from submit_phone_enh_fst [of RegExp "text_check s" s3] p
    phone_check_feedback [OF f23, of RegExp]
  have r4: "r4 = map_sum id (\<lambda>ok. ok \<and> text_check s) (phone_check RegExp s)"
    by (simp add: s2_def same_but_feedback_emit)
  from submit_phone_enh_snd [of s3 RegExp "text_check s"] p f23
  have f24: "same_but_feedback s2 s4"
    by (auto intro: same_but_feedback_trans)
  have unfold: "submit_handler_enh RegExp s =
      (case r4 of Inl x \<Rightarrow> (Inl x, s4)
       | Inr b \<Rightarrow> if b then submit_success_enh s4 else submit_failure_enh s4)"
    using f p r3 by (simp add: submit_handler_enh_def s2_def Let_def)
  show thesis
  proof (cases "phone_check RegExp s")
    case (Inl x)
    with r4 unfold f24 threw show ?thesis by (simp add: s2_def)
  next
    case (Inr pv)
    show ?thesis
    proof (cases "text_check s \<and> pv")
      case True
      with Inr r4 unfold f24 passed show ?thesis by (simp add: s2_def)
    next
      case False
      with Inr r4 unfold f24 failed [of s4 pv] show ?thesis by (auto simp: s2_def)
    qed
  qed
qed

lemma doc_announce_None [simp]:
  "(doc (announceToScreenReader_enh m s) k = None) = (doc s k = None)"
  by (simp add: announceToScreenReader_enh_def setTimeout_def upd_def split: option.splits)

lemma submit_success_enh_fst:
  "fst (submit_success_enh s) =
     (if doc s ''modalOverlay'' = None \<or> doc s ''successModal'' = None
      then Inl TypeError else Inr True)"
  by (auto simp: submit_success_enh_def upd_def Let_def split: option.splits)

lemma submit_failure_enh_fst: "fst (submit_failure_enh s) = Inr False"
  by (simp add: submit_failure_enh_def Let_def split: option.splits)

lemma submit_handler_enh_fst: "fst (submit_handler_enh RegExp s) = submit_verdict RegExp s"
proof (cases rule: submit_handler_enh_cases [of RegExp s])
  case (threw x s4)
  then show ?thesis by (simp add: submit_verdict_def)
next
  case (failed pv s4)
  then show ?thesis by (auto simp: submit_verdict_def text_check_def submit_failure_enh_fst)
next
  case (passed s4)
  from passed(4) have
    "rel_option feedback_only (doc s ''modalOverlay'') (doc s4 ''modalOverlay'')"
    "rel_option feedback_only (doc s ''successModal'') (doc s4 ''successModal'')"
    using same_but_feedback_doc [OF passed(4)] by (simp_all add: emit_def)
  then have "(doc s4 ''modalOverlay'' = None) = (doc s ''modalOverlay'' = None)"
    "(doc s4 ''successModal'' = None) = (doc s ''successModal'' = None)"
    by simp_all
  with passed show ?thesis
    by (simp add: submit_verdict_def text_check_def submit_success_enh_fst)
qed

text \<open>
  Claim C6. The enhanced variant checks what the baseline variant checks: the two
  copies of \<^verbatim>\<open>isValidEmail\<close>, of \<^verbatim>\<open>validatePhoneNumber\<close> and of the five validators of
  \<^verbatim>\<open>fieldValidators\<close> are equal as functions, the two copies of \<^verbatim>\<open>validateField\<close>
  return the same verdict (or throw the same exception) on the same arguments, and on
  every page the two \<^verbatim>\<open>submit\<close> listeners end alike: both accept, both reject, or both
  throw the same exception.
\<close>

theorem variants_validate_alike:
  "isValidEmail_enh = isValidEmail
   \<and> validatePhoneNumber_enh = validatePhoneNumber
   \<and> map (\<lambda>kc. (fst kc, validator (snd kc))) fieldValidators_enh
       = map (\<lambda>kc. (fst kc, validator (snd kc))) fieldValidators
   \<and> (\<forall>field errorElement validationFn msg.
         map_sum id fst (validateField_enh field errorElement validationFn msg)
           = map_sum id fst (validateField field errorElement validationFn msg))
   \<and> (\<forall>RegExp s. fst (submit_handler_enh RegExp s) = fst (submit_handler RegExp s))"
  by (simp add: isValidEmail_enh_eq validatePhoneNumber_enh_eq fieldValidators_enh_eq
        validateField_enh_verdict validateField_verdict submit_handler_enh_fst submit_handler_fst)

section \<open>What validateField does\<close>

lemma in_classList_add [simp]:
  "x \<in> set (classList (classList_add c e)) \<longleftrightarrow> x = c \<or> x \<in> set (classList e)"
  by (auto simp: classList_add_def)

lemma in_classList_remove [simp]:
  "x \<in> set (classList (classList_remove cs e)) \<longleftrightarrow> x \<notin> set cs \<and> x \<in> set (classList e)"
  by (auto simp: classList_remove_def)

lemma element_update_simps [simp]:
  "textContent (classList_add c e) = textContent e"
  "textContent (classList_remove cs e) = textContent e"
  "textContent (setAttribute a v e) = textContent e"
  "textContent (removeAttribute a e) = textContent e"
  "classList (setAttribute a v e) = classList e"
  "classList (removeAttribute a e) = classList e"
  "attrs (classList_add c e) = attrs e"
  "attrs (classList_remove cs e) = attrs e"
  "attrs (setAttribute a v e) = (attrs e)(a \<mapsto> v)"
  "attrs (removeAttribute a e) = (attrs e)(a := None)"
  by (simp_all add: classList_add_def classList_remove_def setAttribute_def removeAttribute_def)

lemma validateField_missing_element:
  "validateField None errorElement validationFn msg = Inr (True, None, errorElement)"
  "validateField field None validationFn msg = Inr (True, field, None)"
  "validateField_enh None errorElement validationFn msg = Inr (True, None, errorElement)"
  "validateField_enh field None validationFn msg = Inr (True, field, None)"
  by (simp_all add: validateField_def validateField_enh_def split: option.splits)

lemma classList_of_add:
  "classList (classList_add c e) = (if c \<in> set (classList e) then classList e else classList e @ [c])"
  by (simp add: classList_add_def)

lemma classList_of_remove:
  "classList (classList_remove cs e) = filter (\<lambda>c. c \<notin> set cs) (classList e)"
  by (simp add: classList_remove_def)

lemma field_classes:
  fixes f :: element
  defines "g \<equiv> classList_remove [''is-valid''] (classList_add ''is-invalid'' f)"
    and "h \<equiv> classList_add ''is-valid'' (classList_remove [''is-invalid''] f)"
  shows "g = f\<lparr>classList := classList g\<rparr>"
    and "h = f\<lparr>classList := classList h\<rparr>"
    and "set (classList g) = set (classList f) - {''is-valid'', ''is-invalid''} \<union> {''is-invalid''}"
    and "set (classList h) = set (classList f) - {''is-valid'', ''is-invalid''} \<union> {''is-valid''}"
    and "filter (\<lambda>c. c \<noteq> ''is-valid'' \<and> c \<noteq> ''is-invalid'') (classList g)
           = filter (\<lambda>c. c \<noteq> ''is-valid'' \<and> c \<noteq> ''is-invalid'') (classList f)"
    and "filter (\<lambda>c. c \<noteq> ''is-valid'' \<and> c \<noteq> ''is-invalid'') (classList h)
           = filter (\<lambda>c. c \<noteq> ''is-valid'' \<and> c \<noteq> ''is-invalid'') (classList f)"
proof -
  show "g = f\<lparr>classList := classList g\<rparr>" "h = f\<lparr>classList := classList h\<rparr>"
    by (simp_all add: g_def h_def classList_add_def classList_remove_def)
  show "set (classList g) = set (classList f) - {''is-valid'', ''is-invalid''} \<union> {''is-invalid''}"
    "set (classList h) = set (classList f) - {''is-valid'', ''is-invalid''} \<union> {''is-valid''}"
    unfolding g_def h_def by auto
  show "filter (\<lambda>c. c \<noteq> ''is-valid'' \<and> c \<noteq> ''is-invalid'') (classList g)
           = filter (\<lambda>c. c \<noteq> ''is-valid'' \<and> c \<noteq> ''is-invalid'') (classList f)"
    "filter (\<lambda>c. c \<noteq> ''is-valid'' \<and> c \<noteq> ''is-invalid'') (classList h)
           = filter (\<lambda>c. c \<noteq> ''is-valid'' \<and> c \<noteq> ''is-invalid'') (classList f)"
    unfolding g_def h_def
    by (auto simp: classList_of_add classList_of_remove intro: filter_cong)
qed

lemma error_classes:
  fixes e :: element
  shows "set (classList (classList_add ''d-block'' e)) = insert ''d-block'' (set (classList e))"
    and "set (classList (classList_remove [''d-block''] e)) = set (classList e) - {''d-block''}"
    and "filter (\<lambda>c. c \<noteq> ''d-block'') (classList (classList_add ''d-block'' e))
           = filter (\<lambda>c. c \<noteq> ''d-block'') (classList e)"
    and "filter (\<lambda>c. c \<noteq> ''d-block'') (classList (classList_remove [''d-block''] e))
           = filter (\<lambda>c. c \<noteq> ''d-block'') (classList e)"
  by (auto simp: classList_of_add classList_of_remove)


lemma script_messages:
  "list_all (\<lambda>kc. errorMessage (snd kc) \<noteq> []
               \<and> (fst kc = ''email'' \<longrightarrow> message_arg (emptyMessage (snd kc)) \<noteq> []))
     (fieldValidators @ fieldValidators_enh)"
  "js ''Please provide your phone number.'' \<noteq> []"
  "js ''Please provide a valid phone number for the selected country.'' \<noteq> []"
  by (simp_all add: fieldValidators_def fieldValidators_enh_def message_arg_def js_def)

lemma validateField_result:
  assumes "validationFn (val f) = Inr ok" and "msg \<noteq> []"
  shows "\<exists>f' e'. validateField (Some f) (Some e) validationFn msg = Inr (ok, Some f', Some e')
            \<and> f' = f\<lparr>classList := classList f'\<rparr>
            \<and> set (classList f')
                = set (classList f) - {''is-valid'', ''is-invalid''}
                  \<union> {if ok then ''is-valid'' else ''is-invalid''}
            \<and> filter (\<lambda>c. c \<noteq> ''is-valid'' \<and> c \<noteq> ''is-invalid'') (classList f')
                = filter (\<lambda>c. c \<noteq> ''is-valid'' \<and> c \<noteq> ''is-invalid'') (classList f)
            \<and> e' = e\<lparr>classList := classList e',
                       textContent := (if ok then textContent e else msg)\<rparr>
            \<and> set (classList e')
                = (if ok then set (classList e) - {''d-block''}
                   else insert ''d-block'' (set (classList e)))
            \<and> filter (\<lambda>c. c \<noteq> ''d-block'') (classList e')
                = filter (\<lambda>c. c \<noteq> ''d-block'') (classList e)"
proof (cases ok)
  case True
  have "validateField (Some f) (Some e) validationFn msg
          = Inr (True, Some (classList_add ''is-valid'' (classList_remove [''is-invalid''] f)),
                 Some (classList_remove [''d-block''] e))"
    using assms True by (simp add: validateField_def)
  moreover have "classList_remove [''d-block''] e
                   = e\<lparr>classList := classList (classList_remove [''d-block''] e),
                        textContent := textContent e\<rparr>"
    by (simp add: classList_remove_def)
  ultimately show ?thesis
    using True field_classes(2,4,6) [of f] error_classes(2,4) [of e] by simp
next
  case False
  have "validateField (Some f) (Some e) validationFn msg
          = Inr (False, Some (classList_remove [''is-valid''] (classList_add ''is-invalid'' f)),
                 Some (classList_add ''d-block'' (e\<lparr>textContent := msg\<rparr>)))"
    using assms False by (simp add: validateField_def)
  moreover have "classList_add ''d-block'' (e\<lparr>textContent := msg\<rparr>)
                   = e\<lparr>classList := classList (classList_add ''d-block'' (e\<lparr>textContent := msg\<rparr>)),
                        textContent := msg\<rparr>"
    by (simp add: classList_add_def)
  ultimately show ?thesis
    using False field_classes(1,3,5) [of f] error_classes(1,3) [of "e\<lparr>textContent := msg\<rparr>"]
    by simp
qed


lemma setAttribute_after:
  assumes "g = f\<lparr>classList := classList g\<rparr>"
  shows "setAttribute a v g = f\<lparr>classList := classList (setAttribute a v g),
                                 attrs := (attrs f)(a \<mapsto> v)\<rparr>"
proof -
  have "attrs g = attrs f" by (subst assms) simp
  then have "setAttribute a v g = g\<lparr>attrs := (attrs f)(a \<mapsto> v)\<rparr>"
    by (simp add: setAttribute_def)
  also have "\<dots> = f\<lparr>classList := classList g, attrs := (attrs f)(a \<mapsto> v)\<rparr>"
    by (subst assms) simp
  finally show ?thesis by simp
qed

lemma validateField_enh_result:
  assumes "validationFn (val f) = Inr ok" and "msg \<noteq> []"
  shows "\<exists>f' e'. validateField_enh (Some f) (Some e) validationFn msg
                    = Inr (ok, Some f', Some e')
            \<and> f' = f\<lparr>classList := classList f',
                       attrs := (attrs f)(''aria-invalid'' \<mapsto>
                                  (if ok then js ''false'' else js ''true''))\<rparr>
            \<and> set (classList f')
                = set (classList f) - {''is-valid'', ''is-invalid''}
                  \<union> {if ok then ''is-valid'' else ''is-invalid''}
            \<and> filter (\<lambda>c. c \<noteq> ''is-valid'' \<and> c \<noteq> ''is-invalid'') (classList f')
                = filter (\<lambda>c. c \<noteq> ''is-valid'' \<and> c \<noteq> ''is-invalid'') (classList f)
            \<and> e' = e\<lparr>classList := classList e',
                       textContent := (if ok then textContent e else msg)\<rparr>
            \<and> set (classList e')
                = (if ok then set (classList e) - {''d-block''}
                   else insert ''d-block'' (set (classList e)))
            \<and> filter (\<lambda>c. c \<noteq> ''d-block'') (classList e')
                = filter (\<lambda>c. c \<noteq> ''d-block'') (classList e)"
proof (cases ok)
  case True
  have "validateField_enh (Some f) (Some e) validationFn msg
          = Inr (True,
                 Some (setAttribute ''aria-invalid'' (js ''false'')
                         (classList_add ''is-valid'' (classList_remove [''is-invalid''] f))),
                 Some (classList_remove [''d-block''] e))"
    using assms True by (simp add: validateField_enh_def)
  moreover have "classList_remove [''d-block''] e
                   = e\<lparr>classList := classList (classList_remove [''d-block''] e),
                        textContent := textContent e\<rparr>"
    by (simp add: classList_remove_def)
  ultimately show ?thesis
    using True field_classes(4,6) [of f] error_classes(2,4) [of e]
      setAttribute_after [OF field_classes(2) [of f], of "''aria-invalid''" "js ''false''"]
    by simp
next
  case False
  have "validateField_enh (Some f) (Some e) validationFn msg
          = Inr (False,
                 Some (setAttribute ''aria-invalid'' (js ''true'')
                         (classList_remove [''is-valid''] (classList_add ''is-invalid'' f))),
                 Some (classList_add ''d-block'' (e\<lparr>textContent := msg\<rparr>)))"
    using assms False by (simp add: validateField_enh_def)
  moreover have "classList_add ''d-block'' (e\<lparr>textContent := msg\<rparr>)
                   = e\<lparr>classList := classList (classList_add ''d-block'' (e\<lparr>textContent := msg\<rparr>)),
                        textContent := msg\<rparr>"
    by (simp add: classList_add_def)
  ultimately show ?thesis
    using False field_classes(3,5) [of f] error_classes(1,3) [of "e\<lparr>textContent := msg\<rparr>"]
      setAttribute_after [OF field_classes(1) [of f], of "''aria-invalid''" "js ''true''"]
    by simp
qed

lemma validateField_empty_message:
  assumes "validationFn (val f) = Inr False"
  shows "\<exists>f' e'. validateField (Some f) (Some e) validationFn [] = Inr (False, Some f', Some e')
           \<and> textContent e' = textContent e"
    and "\<exists>f' e'. validateField_enh (Some f) (Some e) validationFn [] = Inr (False, Some f', Some e')
           \<and> textContent e' = textContent e"
  using assms by (simp_all add: validateField_def validateField_enh_def)

text \<open>
  Claim C4. Called with a field and an error element, with a validation function
  that returns \<open>ok\<close> on the value of the field, and with a message that is not empty,
  \<^verbatim>\<open>validateField\<close> returns \<open>ok\<close>, and no exception leaves it. When \<open>ok\<close> is false, the
  field gets the class \<^verbatim>\<open>is-invalid\<close> and loses \<^verbatim>\<open>is-valid\<close>, the error element gets the
  class \<^verbatim>\<open>d-block\<close>, and the text of the error element becomes the message. When \<open>ok\<close>
  is true, the field gets \<^verbatim>\<open>is-valid\<close> and loses \<^verbatim>\<open>is-invalid\<close>, and the error element
  loses \<^verbatim>\<open>d-block\<close> and keeps its text. Nothing else changes: the other classes of the
  two elements stay, in their order, and so does every other property of the two
  elements; the function has no access to anything but the two elements. The enhanced
  copy does the same and sets the attribute \<^verbatim>\<open>aria-invalid\<close> of the field. Every
  message the script hands to \<^verbatim>\<open>validateField\<close> is a literal that is not empty: the
  messages of \<^verbatim>\<open>fieldValidators\<close> (the one for an empty field is used for the electronic
  address only) and the two messages for the phone number.
\<close>

theorem validateField_surfaces_verdict:
  assumes "validationFn (val f) = Inr ok" and "msg \<noteq> []"
  shows "(\<exists>f' e'. validateField (Some f) (Some e) validationFn msg = Inr (ok, Some f', Some e')
            \<and> f' = f\<lparr>classList := classList f'\<rparr>
            \<and> set (classList f')
                = set (classList f) - {''is-valid'', ''is-invalid''}
                  \<union> {if ok then ''is-valid'' else ''is-invalid''}
            \<and> filter (\<lambda>c. c \<noteq> ''is-valid'' \<and> c \<noteq> ''is-invalid'') (classList f')
                = filter (\<lambda>c. c \<noteq> ''is-valid'' \<and> c \<noteq> ''is-invalid'') (classList f)
            \<and> e' = e\<lparr>classList := classList e',
                       textContent := (if ok then textContent e else msg)\<rparr>
            \<and> set (classList e')
                = (if ok then set (classList e) - {''d-block''}
                   else insert ''d-block'' (set (classList e)))
            \<and> filter (\<lambda>c. c \<noteq> ''d-block'') (classList e')
                = filter (\<lambda>c. c \<noteq> ''d-block'') (classList e))
       \<and> (\<exists>f' e'. validateField_enh (Some f) (Some e) validationFn msg
                      = Inr (ok, Some f', Some e')
            \<and> f' = f\<lparr>classList := classList f',
                       attrs := (attrs f)(''aria-invalid'' \<mapsto>
                                  (if ok then js ''false'' else js ''true''))\<rparr>
            \<and> set (classList f')
                = set (classList f) - {''is-valid'', ''is-invalid''}
                  \<union> {if ok then ''is-valid'' else ''is-invalid''}
            \<and> filter (\<lambda>c. c \<noteq> ''is-valid'' \<and> c \<noteq> ''is-invalid'') (classList f')
                = filter (\<lambda>c. c \<noteq> ''is-valid'' \<and> c \<noteq> ''is-invalid'') (classList f)
            \<and> e' = e\<lparr>classList := classList e',
                       textContent := (if ok then textContent e else msg)\<rparr>
            \<and> set (classList e')
                = (if ok then set (classList e) - {''d-block''}
                   else insert ''d-block'' (set (classList e)))
            \<and> filter (\<lambda>c. c \<noteq> ''d-block'') (classList e')
                = filter (\<lambda>c. c \<noteq> ''d-block'') (classList e))
       \<and> list_all (\<lambda>kc. errorMessage (snd kc) \<noteq> []
                      \<and> (fst kc = ''email'' \<longrightarrow> message_arg (emptyMessage (snd kc)) \<noteq> []))
            (fieldValidators @ fieldValidators_enh)
       \<and> js ''Please provide your phone number.'' \<noteq> []
       \<and> js ''Please provide a valid phone number for the selected country.'' \<noteq> []"
  using validateField_result
          [where validationFn = validationFn and f = f and ok = ok and msg = msg and e = e,
           OF assms]
    validateField_enh_result
          [where validationFn = validationFn and f = f and ok = ok and msg = msg and e = e,
           OF assms]
    script_messages
  by (intro conjI)

theorem validateField_surfaces_verdict_witness:
  "always_false (val blank) = Inr False
   \<and> js ''No.'' \<noteq> []
   \<and> (\<exists>f' e'. validateField (Some blank) (Some blank) always_false (js ''No.'')
                 = Inr (False, Some f', Some e')
        \<and> set (classList f') = {''is-invalid''} \<and> set (classList e') = {''d-block''}
        \<and> textContent e' = js ''No.'')
   \<and> always_true (val blank) = Inr True
   \<and> (\<exists>f' e'. validateField (Some blank) (Some blank) always_true (js ''No.'')
                 = Inr (True, Some f', Some e')
        \<and> set (classList f') = {''is-valid''} \<and> set (classList e') = {}
        \<and> textContent e' = [])"
proof -
  have a: "always_false (val blank) = Inr False" and b: "always_true (val blank) = Inr True"
    by (simp_all add: always_false_def always_true_def)
  have n: "js ''No.'' \<noteq> []" by (simp add: js_def)
  have c: "classList blank = []" "textContent blank = []" by (simp_all add: blank_def)
  from validateField_surfaces_verdict
         [where validationFn = always_false and f = blank and ok = False
            and msg = "js ''No.''" and e = blank, OF a n]
  obtain f1 e1 where 1:
    "validateField (Some blank) (Some blank) always_false (js ''No.'')
       = Inr (False, Some f1, Some e1)"
    "set (classList f1) = {''is-invalid''}" "set (classList e1) = {''d-block''}"
    "e1 = blank\<lparr>classList := classList e1, textContent := js ''No.''\<rparr>"
    unfolding c by auto
  from validateField_surfaces_verdict
         [where validationFn = always_true and f = blank and ok = True
            and msg = "js ''No.''" and e = blank, OF b n]
  obtain f2 e2 where 2:
    "validateField (Some blank) (Some blank) always_true (js ''No.'')
       = Inr (True, Some f2, Some e2)"
    "set (classList f2) = {''is-valid''}" "set (classList e2) = {}"
    "e2 = blank\<lparr>classList := classList e2, textContent := []\<rparr>"
    unfolding c by auto
  from 1(4) have t1: "textContent e1 = js ''No.''" by (cases e1) simp
  from 2(4) have t2: "textContent e2 = []" by (cases e2) simp
  from a b n 1(1-3) 2(1-3) t1 t2 show ?thesis by blast
qed


section \<open>The contact method and the phone field\<close>

lemma doc_upd: "doc (upd k f s) j = (if j = k then map_option f (doc s k) else doc s j)"
  by (simp add: upd_def)

lemma doc_store2:
  "doc (store2 k f k' e s) j = (if j = k' then e else if j = k then f else doc s j)"
  by (simp add: store2_def)

lemma doc_announce:
  "doc (announceToScreenReader_enh m s) j =
     (if j = ''status-announcer'' then map_option (\<lambda>e. e\<lparr>textContent := m\<rparr>) (doc s j)
      else doc s j)"
  by (simp add: announceToScreenReader_enh_def setTimeout_def upd_def split: option.splits)

text \<open>
  Claim C5. On a page with the phone group and the phone input: when the \<^verbatim>\<open>change\<close>
  listener of the phone option has run with that option ticked, the phone group is
  displayed as a block and the phone input is required; when the \<^verbatim>\<open>change\<close> listener of
  the email option has run with that option ticked, the phone group is not displayed,
  the phone input is not required and has neither \<^verbatim>\<open>is-valid\<close> nor \<^verbatim>\<open>is-invalid\<close>, and
  the phone error element, if there is one, is without \<^verbatim>\<open>d-block\<close>. Both variants.
\<close>

theorem contact_method_sets_phone_requirement:
  assumes "doc s ''phone-group'' = Some g" and "doc s ''phone'' = Some p"
  shows "(\<forall>cp. doc s ''contactPhone'' = Some cp \<and> checked cp \<longrightarrow>
            map_option display (doc (contactPhone_change s) ''phone-group'') = Some ''block''
          \<and> map_option required (doc (contactPhone_change s) ''phone'') = Some True
          \<and> map_option display (doc (contactPhone_change_enh s) ''phone-group'') = Some ''block''
          \<and> map_option required (doc (contactPhone_change_enh s) ''phone'') = Some True)
       \<and> (\<forall>ce. doc s ''contactEmail'' = Some ce \<and> checked ce \<longrightarrow>
            map_option display (doc (contactEmail_change s) ''phone-group'') = Some ''none''
          \<and> map_option required (doc (contactEmail_change s) ''phone'') = Some False
          \<and> map_option (has_class ''is-valid'') (doc (contactEmail_change s) ''phone'') = Some False
          \<and> map_option (has_class ''is-invalid'') (doc (contactEmail_change s) ''phone'')
               = Some False
          \<and> map_option (has_class ''d-block'') (doc (contactEmail_change s) ''phoneError'')
               \<noteq> Some True
          \<and> map_option display (doc (contactEmail_change_enh s) ''phone-group'') = Some ''none''
          \<and> map_option required (doc (contactEmail_change_enh s) ''phone'') = Some False
          \<and> map_option (has_class ''is-valid'') (doc (contactEmail_change_enh s) ''phone'')
               = Some False
          \<and> map_option (has_class ''is-invalid'') (doc (contactEmail_change_enh s) ''phone'')
               = Some False
          \<and> map_option (has_class ''d-block'') (doc (contactEmail_change_enh s) ''phoneError'')
               \<noteq> Some True)"
proof (intro conjI allI impI)
  fix cp assume "doc s ''contactPhone'' = Some cp \<and> checked cp"
  with assms show
    "map_option display (doc (contactPhone_change s) ''phone-group'') = Some ''block''"
    "map_option required (doc (contactPhone_change s) ''phone'') = Some True"
    "map_option display (doc (contactPhone_change_enh s) ''phone-group'') = Some ''block''"
    "map_option required (doc (contactPhone_change_enh s) ''phone'') = Some True"
    by (simp_all add: contactPhone_change_def contactPhone_change_enh_def doc_upd doc_announce
          setAttribute_def Let_def)
next
  fix ce assume "doc s ''contactEmail'' = Some ce \<and> checked ce"
  with assms show
    "map_option display (doc (contactEmail_change s) ''phone-group'') = Some ''none''"
    "map_option required (doc (contactEmail_change s) ''phone'') = Some False"
    "map_option (has_class ''is-valid'') (doc (contactEmail_change s) ''phone'') = Some False"
    "map_option (has_class ''is-invalid'') (doc (contactEmail_change s) ''phone'') = Some False"
    "map_option (has_class ''d-block'') (doc (contactEmail_change s) ''phoneError'') \<noteq> Some True"
    "map_option display (doc (contactEmail_change_enh s) ''phone-group'') = Some ''none''"
    "map_option required (doc (contactEmail_change_enh s) ''phone'') = Some False"
    "map_option (has_class ''is-valid'') (doc (contactEmail_change_enh s) ''phone'') = Some False"
    "map_option (has_class ''is-invalid'') (doc (contactEmail_change_enh s) ''phone'')
       = Some False"
    "map_option (has_class ''d-block'') (doc (contactEmail_change_enh s) ''phoneError'')
       \<noteq> Some True"
    by (simp_all add: contactEmail_change_def contactEmail_change_enh_def doc_upd doc_announce
          doc_store2 clearValidation_def clearValidation_enh_def has_class_def
          classList_remove_def setAttribute_def removeAttribute_def Let_def
          option.map_comp comp_def split: option.splits)
qed


lemma sample_doc_keys:
  "sample_doc fn byPhone ph pat ''phone-group'' = Some (blank\<lparr>display := ''none''\<rparr>)"
  "sample_doc fn byPhone ph pat ''phone''
     = Some (blank\<lparr>val := ph, selectionStart := length ph, selectionEnd := length ph\<rparr>)"
  "sample_doc fn byPhone ph pat ''contactPhone'' = Some (blank\<lparr>checked := byPhone\<rparr>)"
  "sample_doc fn byPhone ph pat ''contactEmail''
     = Some (blank\<lparr>checked := \<not> byPhone, defaultChecked := True\<rparr>)"
  "sample_doc fn byPhone ph pat ''countryCode'' = Some (country_select pat)"
  "sample_doc fn byPhone ph pat ''firstName'' = Some (blank\<lparr>val := fn\<rparr>)"
  "sample_doc fn byPhone ph pat ''firstNameError''
     = Some (blank\<lparr>classList := [''invalid-feedback'']\<rparr>)"
  "sample_doc fn byPhone ph pat ''phoneError''
     = Some (blank\<lparr>classList := [''invalid-feedback'']\<rparr>)"
  by (simp_all add: sample_doc_def)

lemma sample_page_doc [simp]: "doc (sample_page fn byPhone ph pat) = sample_doc fn byPhone ph pat"
  by (simp add: sample_page_def)

theorem contact_method_sets_phone_requirement_witness:
  "doc (sample_page [] True [] None) ''phone-group'' = Some (blank\<lparr>display := ''none''\<rparr>)
   \<and> doc (sample_page [] True [] None) ''phone''
       = Some (blank\<lparr>val := [], selectionStart := length ([] :: jsstring),
                     selectionEnd := length ([] :: jsstring)\<rparr>)
   \<and> doc (sample_page [] True [] None) ''contactPhone'' = Some (blank\<lparr>checked := True\<rparr>)
   \<and> checked (blank\<lparr>checked := True\<rparr>)
   \<and> map_option display (doc (contactPhone_change (sample_page [] True [] None)) ''phone-group'')
       = Some ''block''
   \<and> map_option required (doc (contactPhone_change_enh (sample_page [] True [] None)) ''phone'')
       = Some True"
proof -
  have g: "doc (sample_page [] True [] None) ''phone-group'' = Some (blank\<lparr>display := ''none''\<rparr>)"
    and p: "doc (sample_page [] True [] None) ''phone''
              = Some (blank\<lparr>val := [], selectionStart := length ([] :: jsstring),
                            selectionEnd := length ([] :: jsstring)\<rparr>)"
    and c: "doc (sample_page [] True [] None) ''contactPhone'' = Some (blank\<lparr>checked := True\<rparr>)"
    by (simp_all only: sample_page_doc sample_doc_keys)
  have k: "checked (blank\<lparr>checked := True\<rparr>)" by simp
  from contact_method_sets_phone_requirement [OF g p] c k
  have "map_option display (doc (contactPhone_change (sample_page [] True [] None)) ''phone-group'')
          = Some ''block''
        \<and> map_option required (doc (contactPhone_change_enh (sample_page [] True [] None)) ''phone'')
          = Some True"
    by blast
  with g p c k show ?thesis by blast
qed

section \<open>A country without a pattern\<close>

lemma validatePhoneNumber_no_pattern:
  "item (options sel) (selectedIndex sel) = Some opt \<Longrightarrow> data_pattern opt = None \<Longrightarrow>
     validatePhoneNumber RegExp n (Some sel) = Inr False"
  by (simp add: validatePhoneNumber_def)

text \<open>
  Claim C9, amended. When the selected option of the country selector has no
  \<^verbatim>\<open>data-pattern\<close> attribute, \<^verbatim>\<open>validatePhoneNumber\<close> returns false for every phone
  number, in both variants. On a page where the phone method is ticked and the phone
  input and its error element both exist, the \<^verbatim>\<open>submit\<close> listener then ends with a
  failed validation, whatever the phone number and the other fields hold.
\<close>

theorem no_pattern_rejects_phone:
  assumes "item (options sel) (selectedIndex sel) = Some opt" and "data_pattern opt = None"
  shows "validatePhoneNumber RegExp n (Some sel) = Inr False
       \<and> validatePhoneNumber_enh RegExp n (Some sel) = Inr False
       \<and> (\<forall>s cp p e.
             doc s ''countryCode'' = Some sel \<and> doc s ''contactPhone'' = Some cp \<and> checked cp
               \<and> doc s ''phone'' = Some p \<and> doc s ''phoneError'' = Some e
             \<longrightarrow> fst (submit_handler RegExp s) = Inr False
               \<and> fst (submit_handler_enh RegExp s) = Inr False)"
proof (intro conjI allI impI)
  show "validatePhoneNumber RegExp n (Some sel) = Inr False"
    using assms by (rule validatePhoneNumber_no_pattern)
  then show "validatePhoneNumber_enh RegExp n (Some sel) = Inr False"
    by (simp add: validatePhoneNumber_enh_eq)
next
  fix s :: page and cp p e :: element
  assume h: "doc s ''countryCode'' = Some sel \<and> doc s ''contactPhone'' = Some cp \<and> checked cp
               \<and> doc s ''phone'' = Some p \<and> doc s ''phoneError'' = Some e"
  then have "phone_check RegExp s = Inr False"
    using validatePhoneNumber_no_pattern [OF assms, of RegExp "val p"]
    by (simp add: phone_check_def)
  then have v: "submit_verdict RegExp s = Inr False"
    by (simp add: submit_verdict_def)
  from v show "fst (submit_handler RegExp s) = Inr False" by (simp add: submit_handler_fst)
  from v show "fst (submit_handler_enh RegExp s) = Inr False"
    by (simp add: submit_handler_enh_fst)
qed

lemma item_country_select:
  "item (options (country_select pat)) (selectedIndex (country_select pat))
     = Some \<lparr>data_pattern = pat, data_placeholder = None, option_text = []\<rparr>"
  by (simp add: country_select_def item_def blank_def)

theorem no_pattern_rejects_phone_witness:
  "item (options (country_select None)) (selectedIndex (country_select None))
     = Some \<lparr>data_pattern = None, data_placeholder = None, option_text = []\<rparr>
   \<and> data_pattern \<lparr>data_pattern = None, data_placeholder = None, option_text = []\<rparr> = None
   \<and> validatePhoneNumber sample_RegExp (js ''5'') (Some (country_select None)) = Inr False
   \<and> doc (sample_page (js ''Ada'') True (js ''5'') None) ''countryCode''
       = Some (country_select None)
   \<and> doc (sample_page (js ''Ada'') True (js ''5'') None) ''contactPhone''
       = Some (blank\<lparr>checked := True\<rparr>)
   \<and> checked (blank\<lparr>checked := True\<rparr>)
   \<and> fst (submit_handler sample_RegExp (sample_page (js ''Ada'') True (js ''5'') None))
       = Inr False
   \<and> fst (submit_handler_enh sample_RegExp (sample_page (js ''Ada'') True (js ''5'') None))
       = Inr False"
proof -
  have i: "item (options (country_select None)) (selectedIndex (country_select None))
             = Some \<lparr>data_pattern = None, data_placeholder = None, option_text = []\<rparr>"
    by (rule item_country_select)
  have d: "data_pattern \<lparr>data_pattern = None, data_placeholder = None, option_text = []\<rparr> = None"
    by simp
  have c: "doc (sample_page (js ''Ada'') True (js ''5'') None) ''countryCode''
             = Some (country_select None)"
    and cp: "doc (sample_page (js ''Ada'') True (js ''5'') None) ''contactPhone''
               = Some (blank\<lparr>checked := True\<rparr>)"
    and p: "doc (sample_page (js ''Ada'') True (js ''5'') None) ''phone''
              = Some (blank\<lparr>val := js ''5'', selectionStart := length (js ''5''),
                            selectionEnd := length (js ''5'')\<rparr>)"
    and e: "doc (sample_page (js ''Ada'') True (js ''5'') None) ''phoneError''
              = Some (blank\<lparr>classList := [''invalid-feedback'']\<rparr>)"
    by (simp_all only: sample_page_doc sample_doc_keys)
  have k: "checked (blank\<lparr>checked := True\<rparr>)" by simp
  note t = no_pattern_rejects_phone [OF i d, of sample_RegExp "js ''5''"]
  from t c cp p e k
  have r: "fst (submit_handler sample_RegExp (sample_page (js ''Ada'') True (js ''5'') None))
             = Inr False
           \<and> fst (submit_handler_enh sample_RegExp (sample_page (js ''Ada'') True (js ''5'') None))
             = Inr False"
    by blast
  from t have v: "validatePhoneNumber sample_RegExp (js ''5'') (Some (country_select None))
                    = Inr False"
    by blast
  from i d v c cp k r show ?thesis by blast
qed

lemma submit_handler_blocked:
  assumes "\<not> (text_check s \<and> phone_check RegExp s = Inr True)"
  shows "same_but_feedback (emit StopPropagation (emit PreventDefault s))
           (snd (submit_handler RegExp s))"
proof (cases rule: submit_handler_cases [of RegExp s])
  case (threw x s4)
  then show ?thesis by simp
next
  case (failed pv s4)
  then show ?thesis by simp
next
  case (passed s4)
  with assms show ?thesis by simp
qed

lemma sample_doc_text_keys:
  "sample_doc fn byPhone ph pat ''lastName'' = Some (blank\<lparr>val := js ''Lovelace''\<rparr>)"
  "sample_doc fn byPhone ph pat ''lastNameError''
     = Some (blank\<lparr>classList := [''invalid-feedback'']\<rparr>)"
  "sample_doc fn byPhone ph pat ''email'' = Some (blank\<lparr>val := js ''ada@example.org''\<rparr>)"
  "sample_doc fn byPhone ph pat ''emailError''
     = Some (blank\<lparr>classList := [''invalid-feedback'']\<rparr>)"
  "sample_doc fn byPhone ph pat ''messageSubject'' = Some (blank\<lparr>val := js ''Hello''\<rparr>)"
  "sample_doc fn byPhone ph pat ''messageSubjectError''
     = Some (blank\<lparr>classList := [''invalid-feedback'']\<rparr>)"
  "sample_doc fn byPhone ph pat ''message'' = Some (blank\<lparr>val := js ''Good day.''\<rparr>)"
  "sample_doc fn byPhone ph pat ''messageError''
     = Some (blank\<lparr>classList := [''invalid-feedback'']\<rparr>)"
  "sample_doc fn byPhone ph pat ''successModal'' = Some (blank\<lparr>display := ''none''\<rparr>)"
  "sample_doc fn byPhone ph pat ''modalOverlay'' = Some (blank\<lparr>display := ''none''\<rparr>)"
  "sample_doc fn byPhone ph pat ''status-announcer'' = Some blank"
  by (simp_all add: sample_doc_def)

lemma sample_values:
  "trim (js ''Ada'') \<noteq> []" "trim (js ''Lovelace'') \<noteq> []" "trim (js ''ada@example.org'') \<noteq> []"
  "isValidEmail (js ''ada@example.org'')" "trim (js ''Hello'') \<noteq> []"
  "trim (js ''Good day.'') \<noteq> []" "trim (js '' '') = []" "trim [] = []"
  by code_simp+

lemma text_check_doc:
  "text_check s =
     ((case (doc s ''firstName'', doc s ''firstNameError'') of
         (Some f, Some e) \<Rightarrow> trim (val f) \<noteq> [] | _ \<Rightarrow> True)
    \<and> (case (doc s ''lastName'', doc s ''lastNameError'') of
         (Some f, Some e) \<Rightarrow> trim (val f) \<noteq> [] | _ \<Rightarrow> True)
    \<and> (case (doc s ''email'', doc s ''emailError'') of
         (Some f, Some e) \<Rightarrow> trim (val f) \<noteq> [] \<and> isValidEmail (val f) | _ \<Rightarrow> True)
    \<and> (case (doc s ''messageSubject'', doc s ''messageSubjectError'') of
         (Some f, Some e) \<Rightarrow> trim (val f) \<noteq> [] | _ \<Rightarrow> True)
    \<and> (case (doc s ''message'', doc s ''messageError'') of
         (Some f, Some e) \<Rightarrow> trim (val f) \<noteq> [] | _ \<Rightarrow> True))"
  by (simp add: text_check_def fieldValidators_def field_check_def
        cong: option.case_cong prod.case_cong)

lemma val_blank_upd [simp]: "val (blank\<lparr>val := v\<rparr>) = v"
  by simp

lemma text_check_sample:
  "text_check (sample_page fn byPhone ph pat) = (trim fn \<noteq> [])"
  by (simp add: text_check_doc sample_doc_keys sample_doc_text_keys sample_values)

lemma doc_without: "doc (without k s) j = (if j = k then None else doc s j)"
  by (simp add: without_def)

lemma text_check_without:
  assumes "k = ''phone'' \<or> k = ''phoneError'' \<or> k = ''countryCode''"
  shows "text_check (without k s) = text_check s"
  using assms by (elim disjE; simp add: text_check_doc doc_without)


lemma submit_verdict_page_without_phoneError:
  "submit_verdict sample_RegExp page_without_phoneError = Inr True"
proof -
  have t: "text_check page_without_phoneError"
    by (simp add: page_without_phoneError_def text_check_without text_check_sample
          sample_values)
  have p: "phone_check sample_RegExp page_without_phoneError = Inr True"
    by (simp add: phone_check_def page_without_phoneError_def doc_without sample_doc_keys)
  have m: "doc page_without_phoneError ''modalOverlay'' \<noteq> None"
    "doc page_without_phoneError ''successModal'' \<noteq> None"
    by (simp_all add: page_without_phoneError_def doc_without sample_doc_text_keys)
  from t p m show ?thesis
    by (simp add: submit_verdict_def text_check_def)
qed

theorem no_pattern_missing_error_element_counterexample:
  "map_option (\<lambda>sel. map_option data_pattern (item (options sel) (selectedIndex sel)))
       (doc page_without_phoneError ''countryCode'') = Some (Some None)
   \<and> map_option checked (doc page_without_phoneError ''contactPhone'') = Some True
   \<and> map_option val (doc page_without_phoneError ''phone'') = Some (js ''5'')
   \<and> doc page_without_phoneError ''phoneError'' = None
   \<and> fst (submit_handler sample_RegExp page_without_phoneError) = Inr True
   \<and> fst (submit_handler_enh sample_RegExp page_without_phoneError) = Inr True"
  by (simp add: submit_handler_fst submit_handler_enh_fst submit_verdict_page_without_phoneError)
     (simp add: page_without_phoneError_def doc_without sample_doc_keys item_country_select)

section \<open>A page without the phone input\<close>

lemma phone_check_page_without_phone_input:
  "phone_check sample_RegExp page_without_phone_input = Inl TypeError"
  by (simp add: phone_check_def page_without_phone_input_def doc_without sample_doc_keys)

text \<open>
  Claim C10, at the input where the code departs from it. The page has the phone
  method ticked and no phone input; every text field is filled in correctly. The
  \<^verbatim>\<open>submit\<close> listener reads \<^verbatim>\<open>elements.phoneInput.value\<close> and ends with a TypeError, in both
  variants.
\<close>

theorem submit_without_phone_input_throws:
  "doc page_without_phone_input ''phone'' = None
   \<and> map_option checked (doc page_without_phone_input ''contactPhone'') = Some True
   \<and> text_check page_without_phone_input
   \<and> fst (submit_handler sample_RegExp page_without_phone_input) = Inl TypeError
   \<and> fst (submit_handler_enh sample_RegExp page_without_phone_input) = Inl TypeError"
proof -
  have t: "text_check page_without_phone_input"
    by (simp add: page_without_phone_input_def text_check_without text_check_sample
          sample_values)
  have v: "submit_verdict sample_RegExp page_without_phone_input = Inl TypeError"
    by (simp add: submit_verdict_def phone_check_page_without_phone_input)
  have d: "doc page_without_phone_input ''phone'' = None"
    "map_option checked (doc page_without_phone_input ''contactPhone'') = Some True"
    by (simp_all add: page_without_phone_input_def doc_without sample_doc_keys)
  from t v d show ?thesis
    by (simp add: submit_handler_fst submit_handler_enh_fst)
qed

section \<open>What a submission changes\<close>

lemma same_but_feedback_effects: "same_but_feedback s s' \<Longrightarrow> effects s' = effects s"
  by (cases s, cases s') (simp add: same_but_feedback_def)

lemma same_but_feedback_display:
  "same_but_feedback s s' \<Longrightarrow> map_option display (doc s' k) = map_option display (doc s k)"
  using same_but_feedback_doc [of s s' k]
  by (cases "doc s k"; cases "doc s' k") (simp_all add: feedback_only_def)

lemma validate_and_frame:
  "j \<noteq> k \<Longrightarrow> j \<noteq> k' \<Longrightarrow> doc (snd (validate_and k k' fn msg b s)) j = doc s j"
  by (simp add: validate_and_def doc_store2 split: sum.splits prod.splits)

lemma validate_and_enh_frame:
  "j \<noteq> k \<Longrightarrow> j \<noteq> k' \<Longrightarrow> doc (snd (validate_and_enh k k' fn msg b s)) j = doc s j"
  by (simp add: validate_and_enh_def doc_store2 split: sum.splits prod.splits)

lemma submit_field_frame:
  "j \<noteq> fst kc \<Longrightarrow> j \<noteq> fst kc @ ''Error'' \<Longrightarrow> doc (snd (submit_field kc b s)) j = doc s j"
  by (cases "doc s (fst kc)"; cases "doc s (fst kc @ ''Error'')")
     (auto simp: submit_field_def validate_and_frame Let_def)

lemma submit_field_enh_frame:
  "j \<noteq> fst kc \<Longrightarrow> j \<noteq> fst kc @ ''Error'' \<Longrightarrow>
     doc (snd (submit_field_enh kc b s)) j = doc s j"
  by (cases "doc s (fst kc)"; cases "doc s (fst kc @ ''Error'')")
     (auto simp: submit_field_enh_def validate_and_enh_frame Let_def)

lemma submit_fields_frame:
  "list_all (\<lambda>kc. j \<noteq> fst kc \<and> j \<noteq> fst kc @ ''Error'') kcs \<Longrightarrow>
     doc (snd (submit_fields kcs b s)) j = doc s j"
proof (induction kcs arbitrary: b s)
  case Nil
  show ?case by simp
next
  case (Cons kc kcs)
  obtain r s1 where step: "submit_field kc b s = (r, s1)" by (cases "submit_field kc b s")
  from submit_field_fst [of kc b s] step obtain b1 where r: "r = Inr b1" by simp
  from Cons.prems submit_field_frame [of j kc b s] step have "doc s1 j = doc s j" by simp
  with Cons.IH [of b1 s1] Cons.prems step r show ?case by simp
qed

lemma submit_fields_enh_frame:
  "list_all (\<lambda>kc. j \<noteq> fst kc \<and> j \<noteq> fst kc @ ''Error'') kcs \<Longrightarrow>
     doc (snd (submit_fields_enh kcs b s)) j = doc s j"
proof (induction kcs arbitrary: b s)
  case Nil
  show ?case by simp
next
  case (Cons kc kcs)
  obtain r s1 where step: "submit_field_enh kc b s = (r, s1)"
    by (cases "submit_field_enh kc b s")
  from submit_field_enh_fst [of kc b s] step obtain b1 where r: "r = Inr b1" by simp
  from Cons.prems submit_field_enh_frame [of j kc b s] step have "doc s1 j = doc s j" by simp
  with Cons.IH [of b1 s1] Cons.prems step r show ?case by simp
qed

lemma submit_phone_frame:
  "j \<noteq> ''phone'' \<Longrightarrow> j \<noteq> ''phoneError'' \<Longrightarrow> doc (snd (submit_phone RegExp b s)) j = doc s j"
  by (cases "doc s ''contactPhone''"; cases "doc s ''phone''")
     (simp_all add: submit_phone_def validate_and_frame)

lemma submit_phone_enh_frame:
  "j \<noteq> ''phone'' \<Longrightarrow> j \<noteq> ''phoneError'' \<Longrightarrow>
     doc (snd (submit_phone_enh RegExp b s)) j = doc s j"
  by (cases "doc s ''contactPhone''"; cases "doc s ''phone''")
     (simp_all add: submit_phone_enh_def validate_and_enh_frame)

lemma first_name_message: "js ''Please provide your first name.'' \<noteq> []"
  by (simp add: js_def)

lemma first_name_marked:
  assumes "doc s ''firstName'' = Some f" and "doc s ''firstNameError'' = Some e"
    and "trim (val f) = []"
  shows "doc (snd (submit_fields fieldValidators True s)) ''firstName''
           = Some (classList_remove [''is-valid''] (classList_add ''is-invalid'' f))"
    and "doc (snd (submit_fields fieldValidators True s)) ''firstNameError''
           = Some (classList_add ''d-block'' (e\<lparr>textContent := js ''Please provide your first name.''\<rparr>))"
proof -
  define rest where "rest = tl fieldValidators"
  define c where "c = hd fieldValidators"
  have fv: "fieldValidators = c # rest" by (simp add: c_def rest_def fieldValidators_def)
  have c: "fst c = ''firstName''" "validator (snd c) = (\<lambda>v. trim v \<noteq> [])"
    "errorMessage (snd c) = js ''Please provide your first name.''"
    by (simp_all add: c_def fieldValidators_def)
  have step: "submit_field c True s =
      (Inr False, store2 ''firstName''
          (Some (classList_remove [''is-valid''] (classList_add ''is-invalid'' f)))
          ''firstNameError''
          (Some (classList_add ''d-block'' (e\<lparr>textContent := js ''Please provide your first name.''\<rparr>)))
          s)"
    using assms c first_name_message
    by (simp add: submit_field_def validate_and_def validateField_def Let_def)
  have fr: "list_all (\<lambda>kc. ''firstName'' \<noteq> fst kc \<and> ''firstName'' \<noteq> fst kc @ ''Error'') rest"
    "list_all (\<lambda>kc. ''firstNameError'' \<noteq> fst kc \<and> ''firstNameError'' \<noteq> fst kc @ ''Error'') rest"
    by (simp_all add: rest_def fieldValidators_def)
  show "doc (snd (submit_fields fieldValidators True s)) ''firstName''
           = Some (classList_remove [''is-valid''] (classList_add ''is-invalid'' f))"
    using step submit_fields_frame [OF fr(1)] by (simp add: fv doc_store2)
  show "doc (snd (submit_fields fieldValidators True s)) ''firstNameError''
           = Some (classList_add ''d-block'' (e\<lparr>textContent := js ''Please provide your first name.''\<rparr>))"
    using step submit_fields_frame [OF fr(2)] by (simp add: fv doc_store2)
qed

lemma first_name_marked_enh:
  assumes "doc s ''firstName'' = Some f" and "doc s ''firstNameError'' = Some e"
    and "trim (val f) = []"
  shows "doc (snd (submit_fields_enh fieldValidators_enh True s)) ''firstName''
           = Some (setAttribute ''aria-invalid'' (js ''true'')
                     (classList_remove [''is-valid''] (classList_add ''is-invalid'' f)))"
    and "doc (snd (submit_fields_enh fieldValidators_enh True s)) ''firstNameError''
           = Some (classList_add ''d-block'' (e\<lparr>textContent := js ''Please provide your first name.''\<rparr>))"
proof -
  define rest where "rest = tl fieldValidators_enh"
  define c where "c = hd fieldValidators_enh"
  have fv: "fieldValidators_enh = c # rest"
    by (simp add: c_def rest_def fieldValidators_enh_def)
  have c: "fst c = ''firstName''" "validator (snd c) = (\<lambda>v. trim v \<noteq> [])"
    "errorMessage (snd c) = js ''Please provide your first name.''"
    by (simp_all add: c_def fieldValidators_enh_def)
  have step: "submit_field_enh c True s =
      (Inr False, store2 ''firstName''
          (Some (setAttribute ''aria-invalid'' (js ''true'')
                   (classList_remove [''is-valid''] (classList_add ''is-invalid'' f))))
          ''firstNameError''
          (Some (classList_add ''d-block'' (e\<lparr>textContent := js ''Please provide your first name.''\<rparr>)))
          s)"
    using assms c first_name_message
    by (simp add: submit_field_enh_def validate_and_enh_def validateField_enh_def Let_def)
  have fr: "list_all (\<lambda>kc. ''firstName'' \<noteq> fst kc \<and> ''firstName'' \<noteq> fst kc @ ''Error'') rest"
    "list_all (\<lambda>kc. ''firstNameError'' \<noteq> fst kc \<and> ''firstNameError'' \<noteq> fst kc @ ''Error'') rest"
    by (simp_all add: rest_def fieldValidators_enh_def)
  show "doc (snd (submit_fields_enh fieldValidators_enh True s)) ''firstName''
           = Some (setAttribute ''aria-invalid'' (js ''true'')
                     (classList_remove [''is-valid''] (classList_add ''is-invalid'' f)))"
    using step submit_fields_enh_frame [OF fr(1)] by (simp add: fv doc_store2)
  show "doc (snd (submit_fields_enh fieldValidators_enh True s)) ''firstNameError''
           = Some (classList_add ''d-block'' (e\<lparr>textContent := js ''Please provide your first name.''\<rparr>))"
    using step submit_fields_enh_frame [OF fr(2)] by (simp add: fv doc_store2)
qed

lemma doc_emit [simp]: "doc (emit x s) = doc s"
  by (simp add: emit_def)

lemma text_check_emit [simp]: "text_check (emit x s) = text_check s"
  by (simp add: text_check_def same_but_feedback_emit)

lemma submit_handler_blocked_state:
  assumes "\<not> (text_check s \<and> phone_check RegExp s = Inr True)"
  shows "snd (submit_handler RegExp s) =
           snd (submit_phone RegExp (text_check s)
                  (snd (submit_fields fieldValidators True
                          (emit StopPropagation (emit PreventDefault s)))))"
proof -
  define s2 where "s2 = emit StopPropagation (emit PreventDefault s)"
  obtain r3 s3 where f: "submit_fields fieldValidators True s2 = (r3, s3)"
    by (cases "submit_fields fieldValidators True s2")
  from submit_fields_both [of fieldValidators True s2] f
  have r3: "r3 = Inr (text_check s)" and f23: "same_but_feedback s2 s3"
    by (simp_all add: text_check_def [symmetric] s2_def)
  obtain r4 s4 where p: "submit_phone RegExp (text_check s) s3 = (r4, s4)"
    by (cases "submit_phone RegExp (text_check s) s3")
  from submit_phone_fst [of RegExp "text_check s" s3] p phone_check_feedback [OF f23, of RegExp]
  have r4: "r4 = map_sum id (\<lambda>ok. ok \<and> text_check s) (phone_check RegExp s)"
    by (simp add: s2_def same_but_feedback_emit)
  have "snd (submit_handler RegExp s) = s4"
    using f p r3 r4 assms
    by (cases "phone_check RegExp s") (auto simp: submit_handler_def s2_def [symmetric] Let_def)
  with f p show ?thesis by (simp add: s2_def)
qed

lemma submit_handler_enh_blocked_state:
  assumes "\<not> (text_check s \<and> phone_check RegExp s = Inr True)"
  shows "snd (submit_handler_enh RegExp s) =
           (let s4 = snd (submit_phone_enh RegExp (text_check s)
                            (snd (submit_fields_enh fieldValidators_enh True
                                    (emit StopPropagation (emit PreventDefault s)))))
            in case phone_check RegExp s of
                 Inl x \<Rightarrow> s4
               | Inr pv \<Rightarrow> snd (submit_failure_enh s4))"
proof -
  define s2 where "s2 = emit StopPropagation (emit PreventDefault s)"
  obtain r3 s3 where f: "submit_fields_enh fieldValidators_enh True s2 = (r3, s3)"
    by (cases "submit_fields_enh fieldValidators_enh True s2")
  from submit_fields_enh_both [of fieldValidators_enh True s2] f
  have r3: "r3 = Inr (text_check s)" and f23: "same_but_feedback s2 s3"
    by (simp_all add: text_check_def [symmetric] s2_def fieldValidators_enh_eq)
  obtain r4 s4 where p: "submit_phone_enh RegExp (text_check s) s3 = (r4, s4)"
    by (cases "submit_phone_enh RegExp (text_check s) s3")
  from submit_phone_enh_fst [of RegExp "text_check s" s3] p
    phone_check_feedback [OF f23, of RegExp]
  have r4: "r4 = map_sum id (\<lambda>ok. ok \<and> text_check s) (phone_check RegExp s)"
    by (simp add: s2_def same_but_feedback_emit)
  have "snd (submit_handler_enh RegExp s) =
          (case phone_check RegExp s of Inl x \<Rightarrow> s4 | Inr pv \<Rightarrow> snd (submit_failure_enh s4))"
    using f p r3 r4 assms
    by (cases "phone_check RegExp s")
       (auto simp: submit_handler_enh_def s2_def [symmetric] Let_def)
  with f p show ?thesis by (simp add: s2_def Let_def)
qed

lemma doc_submit_failure_enh:
  "j \<noteq> ''status-announcer'' \<Longrightarrow> doc (snd (submit_failure_enh s)) j = doc s j"
  by (simp add: submit_failure_enh_def Let_def doc_announce split: option.splits)

lemma text_check_first_name:
  "doc s ''firstName'' = Some f \<Longrightarrow> doc s ''firstNameError'' = Some e \<Longrightarrow>
     trim (val f) = [] \<Longrightarrow> \<not> text_check s"
  by (simp add: text_check_doc)

lemma submit_verdict_not_text:
  "\<not> text_check s \<Longrightarrow> submit_verdict RegExp s \<noteq> Inr True"
  by (simp add: submit_verdict_def text_check_def split: sum.splits)

lemma has_class_marked [simp]:
  "has_class ''is-invalid'' (classList_remove [''is-valid''] (classList_add ''is-invalid'' f))"
  "has_class ''is-invalid''
     (setAttribute a v (classList_remove [''is-valid''] (classList_add ''is-invalid'' f)))"
  "has_class ''d-block'' (classList_add ''d-block'' e)"
  by (simp_all add: has_class_def)

lemma same_but_feedback_fields:
  "same_but_feedback s (snd (submit_phone RegExp b (snd (submit_fields kcs b' s))))"
  using submit_fields_both [of kcs b' s]
    submit_phone_snd [of "snd (submit_fields kcs b' s)" RegExp b]
  by (blast intro: same_but_feedback_trans)

lemma same_but_feedback_fields_enh:
  "same_but_feedback s (snd (submit_phone_enh RegExp b (snd (submit_fields_enh kcs b' s))))"
  using submit_fields_enh_both [of kcs b' s]
    submit_phone_enh_snd [of "snd (submit_fields_enh kcs b' s)" RegExp b]
  by (blast intro: same_but_feedback_trans)

text \<open>
  Claim C2. On a page with the first-name field and its error element, a submission
  while the value of the field is empty or only white space does not reach the branch
  that shows the success modal; afterwards the field has the class \<^verbatim>\<open>is-invalid\<close>, its
  error element has the class \<^verbatim>\<open>d-block\<close> and the text \<^verbatim>\<open>Please provide your first name.\<close>,
  and the \<^verbatim>\<open>display\<close> of the success modal and of its overlay is what it was before. This
  holds in both variants, whatever else the page holds, also when the listener ends with
  an exception.
\<close>

theorem empty_first_name_blocks_submission:
  assumes "doc s ''firstName'' = Some f" and "doc s ''firstNameError'' = Some e"
    and "trim (val f) = []"
  shows "fst (submit_handler RegExp s) \<noteq> Inr True
       \<and> map_option (has_class ''is-invalid'') (doc (snd (submit_handler RegExp s)) ''firstName'')
           = Some True
       \<and> map_option (has_class ''d-block'') (doc (snd (submit_handler RegExp s)) ''firstNameError'')
           = Some True
       \<and> map_option textContent (doc (snd (submit_handler RegExp s)) ''firstNameError'')
           = Some (js ''Please provide your first name.'')
       \<and> map_option display (doc (snd (submit_handler RegExp s)) ''successModal'')
           = map_option display (doc s ''successModal'')
       \<and> map_option display (doc (snd (submit_handler RegExp s)) ''modalOverlay'')
           = map_option display (doc s ''modalOverlay'')
       \<and> fst (submit_handler_enh RegExp s) \<noteq> Inr True
       \<and> map_option (has_class ''is-invalid'')
            (doc (snd (submit_handler_enh RegExp s)) ''firstName'') = Some True
       \<and> map_option (has_class ''d-block'')
            (doc (snd (submit_handler_enh RegExp s)) ''firstNameError'') = Some True
       \<and> map_option textContent (doc (snd (submit_handler_enh RegExp s)) ''firstNameError'')
           = Some (js ''Please provide your first name.'')
       \<and> map_option display (doc (snd (submit_handler_enh RegExp s)) ''successModal'')
           = map_option display (doc s ''successModal'')
       \<and> map_option display (doc (snd (submit_handler_enh RegExp s)) ''modalOverlay'')
           = map_option display (doc s ''modalOverlay'')"
proof -
  define s2 where "s2 = emit StopPropagation (emit PreventDefault s)"
  have nt: "\<not> text_check s" using assms by (rule text_check_first_name)
  then have blocked: "\<not> (text_check s \<and> phone_check RegExp s = Inr True)" by simp
  have d2: "doc s2 ''firstName'' = Some f" "doc s2 ''firstNameError'' = Some e"
    using assms by (simp_all add: s2_def)
  \<comment> \<open>the baseline variant\<close>
  define t where "t = snd (submit_handler RegExp s)"
  have t: "t = snd (submit_phone RegExp (text_check s) (snd (submit_fields fieldValidators True s2)))"
    unfolding t_def s2_def using blocked by (rule submit_handler_blocked_state)
  have fb: "same_but_feedback s2 t" unfolding t by (rule same_but_feedback_fields)
  have b1: "fst (submit_handler RegExp s) \<noteq> Inr True"
    using nt by (simp add: submit_handler_fst submit_verdict_not_text)
  have b2: "doc t ''firstName''
              = Some (classList_remove [''is-valid''] (classList_add ''is-invalid'' f))"
    unfolding t using first_name_marked(1) [OF d2 assms(3)] by (simp add: submit_phone_frame)
  have b3: "doc t ''firstNameError''
              = Some (classList_add ''d-block'' (e\<lparr>textContent := js ''Please provide your first name.''\<rparr>))"
    unfolding t using first_name_marked(2) [OF d2 assms(3)] by (simp add: submit_phone_frame)
  have b4: "map_option display (doc t k) = map_option display (doc s k)" for k
    using same_but_feedback_display [OF fb, of k] by (simp add: s2_def)
  \<comment> \<open>the enhanced variant\<close>
  define u4 where "u4 = snd (submit_phone_enh RegExp (text_check s)
                               (snd (submit_fields_enh fieldValidators_enh True s2)))"
  define u where "u = snd (submit_handler_enh RegExp s)"
  have u: "u = (case phone_check RegExp s of Inl x \<Rightarrow> u4 | Inr pv \<Rightarrow> snd (submit_failure_enh u4))"
    unfolding u_def u4_def s2_def
    using submit_handler_enh_blocked_state [OF blocked] by (simp add: Let_def)
  have fe: "same_but_feedback s2 u4" unfolding u4_def by (rule same_but_feedback_fields_enh)
  have du: "doc u k = doc u4 k" if "k \<noteq> ''status-announcer''" for k
    unfolding u using that by (cases "phone_check RegExp s") (simp_all add: doc_submit_failure_enh)
  have e1: "fst (submit_handler_enh RegExp s) \<noteq> Inr True"
    using nt by (simp add: submit_handler_enh_fst submit_verdict_not_text)
  have e2: "doc u ''firstName''
              = Some (setAttribute ''aria-invalid'' (js ''true'')
                        (classList_remove [''is-valid''] (classList_add ''is-invalid'' f)))"
    using first_name_marked_enh(1) [OF d2 assms(3)]
    by (simp add: du u4_def submit_phone_enh_frame)
  have e3: "doc u ''firstNameError''
              = Some (classList_add ''d-block'' (e\<lparr>textContent := js ''Please provide your first name.''\<rparr>))"
    using first_name_marked_enh(2) [OF d2 assms(3)]
    by (simp add: du u4_def submit_phone_enh_frame)
  have e4: "map_option display (doc u k) = map_option display (doc s k)"
    if "k \<noteq> ''status-announcer''" for k
    using same_but_feedback_display [OF fe, of k] that by (simp add: du s2_def)
  show ?thesis
    unfolding t_def [symmetric] u_def [symmetric]
    using b1 b2 b3 b4 e1 e2 e3 e4 by simp
qed

lemma val_blank_upd2 [simp]: "val (blank\<lparr>val := v\<rparr>) = v"
  by simp

theorem empty_first_name_blocks_submission_witness:
  "doc (sample_page (js '' '') False [] None) ''firstName'' = Some (blank\<lparr>val := js '' ''\<rparr>)
   \<and> doc (sample_page (js '' '') False [] None) ''firstNameError''
       = Some (blank\<lparr>classList := [''invalid-feedback'']\<rparr>)
   \<and> trim (val (blank\<lparr>val := js '' ''\<rparr>)) = []
   \<and> fst (submit_handler sample_RegExp (sample_page (js '' '') False [] None)) \<noteq> Inr True
   \<and> map_option (has_class ''is-invalid'')
        (doc (snd (submit_handler sample_RegExp (sample_page (js '' '') False [] None)))
           ''firstName'') = Some True
   \<and> map_option textContent
        (doc (snd (submit_handler sample_RegExp (sample_page (js '' '') False [] None)))
           ''firstNameError'') = Some (js ''Please provide your first name.'')"
proof -
  have a: "doc (sample_page (js '' '') False [] None) ''firstName''
             = Some (blank\<lparr>val := js '' ''\<rparr>)"
    and b: "doc (sample_page (js '' '') False [] None) ''firstNameError''
              = Some (blank\<lparr>classList := [''invalid-feedback'']\<rparr>)"
    by (simp_all only: sample_page_doc sample_doc_keys)
  have c: "trim (val (blank\<lparr>val := js '' ''\<rparr>)) = []"
    by (simp only: val_blank_upd2 sample_values)
  note t = empty_first_name_blocks_submission [OF a b c, of sample_RegExp]
  from a b c t show ?thesis by blast
qed

lemma effects_upd [simp]: "effects (upd k f s) = effects s"
  by (simp add: upd_def)

lemma effects_form_forEach [simp]: "effects (form_forEach sel f s) = effects s"
  by (simp add: form_forEach_def)

lemma effects_announce [simp]: "effects (announceToScreenReader_enh m s) = effects s"
  by (simp add: announceToScreenReader_enh_def setTimeout_def upd_def split: option.splits)

lemma effects_setTimeout [simp]: "effects (snd (setTimeout cb d s)) = effects s"
  by (simp add: setTimeout_def)

lemma effects_emit [simp]: "effects (emit x s) = effects s @ [x]"
  by (simp add: emit_def)

lemma effects_submit_success:
  "effects (snd (submit_success s)) =
     effects s @ (if fst (submit_success s) = Inr True then [FormReset] else [])"
  by (simp add: submit_success_def form_reset_def Let_def split: option.splits)

lemma effects_submit_success_enh:
  "effects (snd (submit_success_enh s)) =
     effects s @ (if fst (submit_success_enh s) = Inr True then [FormReset] else [])"
  by (simp add: submit_success_enh_def form_reset_def Let_def split: option.splits)

lemma effects_submit_failure_enh:
  "\<exists>xs. effects (snd (submit_failure_enh s)) = effects s @ xs \<and> FormReset \<notin> set xs"
  by (simp add: submit_failure_enh_def Let_def split: option.splits)

lemma doc_focus_first:
  "doc (snd (case x of None \<Rightarrow> (r, a) | Some y \<Rightarrow> (r, emit (g y) a))) = doc a"
  by (cases x) simp_all

lemma doc_submit_failure_enh_eq:
  "doc (snd (submit_failure_enh s)) =
     doc (announceToScreenReader_enh
            (js ''Form contains errors. Please check the fields and try again.'') s)"
  unfolding submit_failure_enh_def Let_def by (rule doc_focus_first)

lemma values_kept_failure_enh:
  "rel_option feedback_only (doc s k) (doc (snd (submit_failure_enh s)) k)"
  by (cases "doc s k") (auto simp: doc_submit_failure_enh_eq doc_announce)

lemma emitted_append [simp]: "effects s' = effects s @ xs \<Longrightarrow> emitted s s' = xs"
  by (simp add: emitted_def)

lemma submit_handler_effects:
  "\<exists>xs. effects (snd (submit_handler RegExp s))
          = effects s @ PreventDefault # StopPropagation # xs
        \<and> (fst (submit_handler RegExp s) = Inr False \<longrightarrow> xs = [])"
proof (cases rule: submit_handler_cases [of RegExp s])
  case (threw x s4)
  then show ?thesis using same_but_feedback_effects [OF threw(3)] by simp
next
  case (failed pv s4)
  then show ?thesis using same_but_feedback_effects [OF failed(4)] by simp
next
  case (passed s4)
  then show ?thesis
    using same_but_feedback_effects [OF passed(4)] effects_submit_success [of s4]
    by (auto simp: submit_success_fst)
qed

lemma submit_handler_enh_effects:
  "\<exists>xs. effects (snd (submit_handler_enh RegExp s))
          = effects s @ PreventDefault # StopPropagation # xs
        \<and> (fst (submit_handler_enh RegExp s) = Inr False \<longrightarrow> FormReset \<notin> set xs)"
proof (cases rule: submit_handler_enh_cases [of RegExp s])
  case (threw x s4)
  then show ?thesis using same_but_feedback_effects [OF threw(3)] by simp
next
  case (failed pv s4)
  then show ?thesis
    using same_but_feedback_effects [OF failed(4)] effects_submit_failure_enh [of s4]
    by auto
next
  case (passed s4)
  then show ?thesis
    using same_but_feedback_effects [OF passed(4)] effects_submit_success_enh [of s4]
    by (auto simp: submit_success_enh_fst)
qed

lemma submit_handler_values_kept:
  assumes "fst (submit_handler RegExp s) = Inr False"
  shows "values_kept s (snd (submit_handler RegExp s))"
proof (cases rule: submit_handler_cases [of RegExp s])
  case (threw x s4)
  with assms show ?thesis by simp
next
  case (failed pv s4)
  then show ?thesis using same_but_feedback_doc [OF failed(4)] by (simp add: values_kept_def)
next
  case (passed s4)
  with assms show ?thesis by (simp add: submit_success_fst split: if_splits)
qed

lemma submit_handler_enh_values_kept:
  assumes "fst (submit_handler_enh RegExp s) = Inr False"
  shows "values_kept s (snd (submit_handler_enh RegExp s))"
proof (cases rule: submit_handler_enh_cases [of RegExp s])
  case (threw x s4)
  with assms show ?thesis by simp
next
  case (failed pv s4)
  have "rel_option feedback_only (doc s k) (doc (snd (submit_failure_enh s4)) k)" for k
    using same_but_feedback_doc [OF failed(4), of k] values_kept_failure_enh [of s4 k]
    by (auto intro: rel_feedback_trans)
  with failed show ?thesis by (simp add: values_kept_def)
next
  case (passed s4)
  with assms show ?thesis by (simp add: submit_success_enh_fst split: if_splits)
qed

text \<open>
  Claim C3. Every run of the \<^verbatim>\<open>submit\<close> listener starts by calling \<^verbatim>\<open>preventDefault\<close> and
  \<^verbatim>\<open>stopPropagation\<close> on the event, in both variants and whatever happens afterwards. When
  the listener ends with a failed validation, every element of the page is what it was
  up to validation feedback (class list, text, attributes): values, ticks and selected
  options are unchanged, and the form has not been reset. The baseline variant then
  has made no other platform call; the enhanced variant may have focused the first
  invalid field.
\<close>

theorem invalid_submission_changes_feedback_only:
  "take 2 (emitted s (snd (submit_handler RegExp s))) = [PreventDefault, StopPropagation]
   \<and> take 2 (emitted s (snd (submit_handler_enh RegExp s))) = [PreventDefault, StopPropagation]
   \<and> (fst (submit_handler RegExp s) = Inr False \<longrightarrow>
         values_kept s (snd (submit_handler RegExp s))
       \<and> emitted s (snd (submit_handler RegExp s)) = [PreventDefault, StopPropagation])
   \<and> (fst (submit_handler_enh RegExp s) = Inr False \<longrightarrow>
         values_kept s (snd (submit_handler_enh RegExp s))
       \<and> FormReset \<notin> set (emitted s (snd (submit_handler_enh RegExp s))))"
proof -
  obtain xs where b: "effects (snd (submit_handler RegExp s))
                        = effects s @ PreventDefault # StopPropagation # xs"
    "fst (submit_handler RegExp s) = Inr False \<longrightarrow> xs = []"
    using submit_handler_effects by blast
  obtain ys where e: "effects (snd (submit_handler_enh RegExp s))
                        = effects s @ PreventDefault # StopPropagation # ys"
    "fst (submit_handler_enh RegExp s) = Inr False \<longrightarrow> FormReset \<notin> set ys"
    using submit_handler_enh_effects by blast
  show ?thesis
    using b e submit_handler_values_kept [of RegExp s] submit_handler_enh_values_kept [of RegExp s]
    by (simp add: emitted_append [OF b(1)] emitted_append [OF e(1)])
qed

lemma submit_verdict_blank_first_name:
  "submit_verdict sample_RegExp (sample_page (js '' '') False [] None) = Inr False"
proof -
  have t: "\<not> text_check (sample_page (js '' '') False [] None)"
    by (simp add: text_check_sample sample_values)
  have p: "phone_check sample_RegExp (sample_page (js '' '') False [] None) = Inr True"
    by (simp add: phone_check_def sample_doc_keys)
  from t p show ?thesis by (simp add: submit_verdict_def text_check_def)
qed

theorem invalid_submission_changes_feedback_only_witness:
  "fst (submit_handler sample_RegExp (sample_page (js '' '') False [] None)) = Inr False
   \<and> values_kept (sample_page (js '' '') False [] None)
        (snd (submit_handler sample_RegExp (sample_page (js '' '') False [] None)))
   \<and> emitted (sample_page (js '' '') False [] None)
        (snd (submit_handler sample_RegExp (sample_page (js '' '') False [] None)))
       = [PreventDefault, StopPropagation]
   \<and> fst (submit_handler_enh sample_RegExp (sample_page (js '' '') False [] None)) = Inr False
   \<and> values_kept (sample_page (js '' '') False [] None)
        (snd (submit_handler_enh sample_RegExp (sample_page (js '' '') False [] None)))
   \<and> FormReset \<notin> set (emitted (sample_page (js '' '') False [] None)
        (snd (submit_handler_enh sample_RegExp (sample_page (js '' '') False [] None))))"
proof -
  have a: "fst (submit_handler sample_RegExp (sample_page (js '' '') False [] None)) = Inr False"
    by (simp only: submit_handler_fst submit_verdict_blank_first_name)
  have b: "fst (submit_handler_enh sample_RegExp (sample_page (js '' '') False [] None))
             = Inr False"
    by (simp only: submit_handler_enh_fst submit_verdict_blank_first_name)
  note t = invalid_submission_changes_feedback_only
             [of "sample_page (js '' '') False [] None" sample_RegExp]
  from a b t show ?thesis by blast
qed

section \<open>When a submission succeeds\<close>

lemma formElems_simps [simp]:
  "formElems (upd k f s) = formElems s"
  "formElems (emit x s) = formElems s"
  "formElems (form_forEach sel g s) = formElems s"
  by (simp_all add: upd_def emit_def form_forEach_def)

lemma doc_form_forEach:
  "doc (form_forEach sel g s) k =
     (if k \<in> set (formElems s) then map_option (\<lambda>e. if sel e then g e else e) (doc s k)
      else doc s k)"
  by (simp add: form_forEach_def)

lemma display_simps [simp]:
  "display (reset_element e) = display e"
  "display (classList_remove cs e) = display e"
  "display (classList_add c e) = display e"
  by (simp_all add: reset_element_def classList_remove_def classList_add_def)

lemma val_simps [simp]:
  "val (classList_remove cs e) = val e" "defaultValue (classList_remove cs e) = defaultValue e"
  "checked (classList_remove cs e) = checked e"
  "defaultChecked (classList_remove cs e) = defaultChecked e"
  "val (reset_element e) = defaultValue e" "defaultValue (reset_element e) = defaultValue e"
  "checked (reset_element e) = defaultChecked e"
  "defaultChecked (reset_element e) = defaultChecked e"
  by (simp_all add: reset_element_def classList_remove_def)

lemma is_reset_simps [simp]:
  "is_reset (reset_element e)"
  "is_reset (classList_remove cs e) = is_reset e"
  by (simp_all add: is_reset_def reset_element_def classList_remove_def)

lemma submit_success_state:
  assumes "doc s ''modalOverlay'' = Some a" and "doc s ''successModal'' = Some b"
  shows "map_option display (doc (snd (submit_success s)) ''successModal'') = Some ''block''"
    and "map_option display (doc (snd (submit_success s)) ''modalOverlay'') = Some ''block''"
    and "k \<in> set (formElems s) \<Longrightarrow> doc (snd (submit_success s)) k = Some e \<Longrightarrow> is_reset e"
  using assms
  by (auto simp: submit_success_def form_reset_def Let_def doc_form_forEach doc_upd
        option.map_comp comp_def split: if_splits)

lemma phone_check_present:
  assumes "doc s ''contactPhone'' = Some cp" and "doc s ''phone'' = Some ph"
    and "doc s ''phoneError'' = Some pe" and "doc s ''countryCode'' = Some sel"
    and "item (options sel) (selectedIndex sel) = Some opt"
  shows "phone_check RegExp s =
           (if \<not> checked cp then Inr True
            else if trim (val ph) = [] then Inr False
            else case data_pattern opt of
                   None \<Rightarrow> Inr False
                 | Some pat \<Rightarrow>
                     if pat = [] then Inr False
                     else case RegExp pat of
                            None \<Rightarrow> Inl SyntaxError
                          | Some t \<Rightarrow>
                              Inr (t (remove_class False [WS, Ch 0x2D, Ch 0x28, Ch 0x29, Ch 0x2E]
                                        (val ph))))"
  using assms by (simp add: phone_check_def validatePhoneNumber_def)

lemma phone_check_present_iff:
  assumes "doc s ''contactPhone'' = Some cp" and "doc s ''phone'' = Some ph"
    and "doc s ''phoneError'' = Some pe" and "doc s ''countryCode'' = Some sel"
    and "item (options sel) (selectedIndex sel) = Some opt"
  shows "(phone_check RegExp s = Inr True) =
           (checked cp \<longrightarrow>
              trim (val ph) \<noteq> [] \<and>
              (\<exists>pat t. data_pattern opt = Some pat \<and> pat \<noteq> [] \<and> RegExp pat = Some t \<and>
                 t (remove_class False [WS, Ch 0x2D, Ch 0x28, Ch 0x29, Ch 0x2E] (val ph))))"
    and "phone_check RegExp s = Inr True \<or> phone_check RegExp s = Inr False
           \<or> phone_check RegExp s = Inl SyntaxError"
  unfolding phone_check_present [OF assms]
  by (auto split: option.splits)

lemma text_check_present:
  assumes "doc s ''firstName'' = Some f1" and "doc s ''firstNameError'' = Some e1"
    and "doc s ''lastName'' = Some f2" and "doc s ''lastNameError'' = Some e2"
    and "doc s ''email'' = Some f3" and "doc s ''emailError'' = Some e3"
    and "doc s ''messageSubject'' = Some f4" and "doc s ''messageSubjectError'' = Some e4"
    and "doc s ''message'' = Some f5" and "doc s ''messageError'' = Some e5"
  shows "text_check s =
           (trim (val f1) \<noteq> [] \<and> trim (val f2) \<noteq> [] \<and> trim (val f3) \<noteq> [] \<and> isValidEmail (val f3)
             \<and> trim (val f4) \<noteq> [] \<and> trim (val f5) \<noteq> [])"
  using assms by (simp add: text_check_doc)

lemma submit_handler_passed_state:
  assumes "text_check s" and "phone_check RegExp s = Inr True"
  obtains s4 where "submit_handler RegExp s = submit_success s4"
    and "same_but_feedback (emit StopPropagation (emit PreventDefault s)) s4"
proof (cases rule: submit_handler_cases [of RegExp s])
  case (threw x s4)
  with assms show ?thesis by simp
next
  case (failed pv s4)
  with assms show ?thesis by simp
next
  case (passed s4)
  with that show ?thesis by blast
qed

text \<open>
  Claim C1, amended. On a page that has the five text fields with their error
  elements, the phone option, the phone input with its error element, a country
  selector with a selected option, the success modal and its overlay, the \<^verbatim>\<open>submit\<close>
  listener takes the branch that shows the modal and resets the form exactly when: each
  of the five text fields has a value that is not only white space; the value of the
  email field matches \<^verbatim>\<open>/^[^\s@]+@[^\s@]+\.[^\s@]+$/\<close>; and, if the phone option is ticked,
  the phone value is not only white space, the selected option has a non-empty
  \<^verbatim>\<open>data-pattern\<close>, that pattern is a regular expression, and the phone value without
  white space, hyphens, parentheses and dots matches it. In that case the modal and the
  overlay are displayed as blocks afterwards, the form has been reset (every element of
  the form holds its default value, tick and selection) and the platform calls were
  \<^verbatim>\<open>preventDefault\<close>, \<^verbatim>\<open>stopPropagation\<close>, \<^verbatim>\<open>reset\<close>. Otherwise the listener ends with a
  failed validation, or with the SyntaxError of a pattern that is no regular expression;
  the display of the modal and of the overlay is unchanged and the form is not reset.
\<close>

theorem submission_succeeds_iff_all_checks_pass:
  fixes RegExp :: regexp_ctor
  assumes "doc s ''firstName'' = Some f1" and "doc s ''firstNameError'' = Some e1"
    and "doc s ''lastName'' = Some f2" and "doc s ''lastNameError'' = Some e2"
    and "doc s ''email'' = Some f3" and "doc s ''emailError'' = Some e3"
    and "doc s ''messageSubject'' = Some f4" and "doc s ''messageSubjectError'' = Some e4"
    and "doc s ''message'' = Some f5" and "doc s ''messageError'' = Some e5"
    and "doc s ''contactPhone'' = Some cp" and "doc s ''phone'' = Some ph"
    and "doc s ''phoneError'' = Some pe" and "doc s ''countryCode'' = Some sel"
    and "item (options sel) (selectedIndex sel) = Some opt"
    and "doc s ''modalOverlay'' = Some mo" and "doc s ''successModal'' = Some sm"
  defines "ok \<equiv>
      trim (val f1) \<noteq> [] \<and> trim (val f2) \<noteq> [] \<and> trim (val f3) \<noteq> [] \<and> isValidEmail (val f3)
      \<and> trim (val f4) \<noteq> [] \<and> trim (val f5) \<noteq> []
      \<and> (checked cp \<longrightarrow>
            trim (val ph) \<noteq> [] \<and>
            (\<exists>pat t. data_pattern opt = Some pat \<and> pat \<noteq> [] \<and> RegExp pat = Some t \<and>
               t (remove_class False [WS, Ch 0x2D, Ch 0x28, Ch 0x29, Ch 0x2E] (val ph))))"
  shows "(fst (submit_handler RegExp s) = Inr True) = ok
       \<and> (ok \<longrightarrow>
             map_option display (doc (snd (submit_handler RegExp s)) ''successModal'')
               = Some ''block''
           \<and> map_option display (doc (snd (submit_handler RegExp s)) ''modalOverlay'')
               = Some ''block''
           \<and> (\<forall>k e. k \<in> set (formElems s) \<and> doc (snd (submit_handler RegExp s)) k = Some e
                  \<longrightarrow> is_reset e)
           \<and> emitted s (snd (submit_handler RegExp s))
               = [PreventDefault, StopPropagation, FormReset])
       \<and> (\<not> ok \<longrightarrow>
             (fst (submit_handler RegExp s) = Inr False
                \<or> fst (submit_handler RegExp s) = Inl SyntaxError)
           \<and> map_option display (doc (snd (submit_handler RegExp s)) ''successModal'')
               = map_option display (doc s ''successModal'')
           \<and> map_option display (doc (snd (submit_handler RegExp s)) ''modalOverlay'')
               = map_option display (doc s ''modalOverlay'')
           \<and> emitted s (snd (submit_handler RegExp s)) = [PreventDefault, StopPropagation])"
proof -
  define s2 where "s2 = emit StopPropagation (emit PreventDefault s)"
  have tc: "text_check s =
              (trim (val f1) \<noteq> [] \<and> trim (val f2) \<noteq> [] \<and> trim (val f3) \<noteq> []
                \<and> isValidEmail (val f3) \<and> trim (val f4) \<noteq> [] \<and> trim (val f5) \<noteq> [])"
    using assms(1-10) by (rule text_check_present)
  note pc = phone_check_present_iff [OF assms(11-15), of RegExp]
  have ok: "ok = (text_check s \<and> phone_check RegExp s = Inr True)"
    unfolding ok_def tc pc(1) by blast
  have verdict: "submit_verdict RegExp s =
      (case phone_check RegExp s of Inl x \<Rightarrow> Inl x
       | Inr pv \<Rightarrow> if text_check s \<and> pv then Inr True else Inr False)"
    using assms(16,17) by (simp add: submit_verdict_def text_check_def cong: sum.case_cong)
  have iff: "(fst (submit_handler RegExp s) = Inr True) = ok"
    unfolding submit_handler_fst verdict ok
    by (cases "phone_check RegExp s") auto
  have good: "map_option display (doc (snd (submit_handler RegExp s)) ''successModal'')
                = Some ''block''
            \<and> map_option display (doc (snd (submit_handler RegExp s)) ''modalOverlay'')
                = Some ''block''
            \<and> (\<forall>k e. k \<in> set (formElems s) \<and> doc (snd (submit_handler RegExp s)) k = Some e
                   \<longrightarrow> is_reset e)
            \<and> emitted s (snd (submit_handler RegExp s))
                = [PreventDefault, StopPropagation, FormReset]" if ok
  proof -
    from that ok have t: "text_check s" and p: "phone_check RegExp s = Inr True" by simp_all
    from t p obtain s4 where h: "submit_handler RegExp s = submit_success s4"
      and fb: "same_but_feedback s2 s4"
      unfolding s2_def by (rule submit_handler_passed_state)
    from same_but_feedback_doc [OF fb, of "''modalOverlay''"] assms(16)
    obtain a where a: "doc s4 ''modalOverlay'' = Some a"
      by (cases "doc s4 ''modalOverlay''") (simp_all add: s2_def)
    from same_but_feedback_doc [OF fb, of "''successModal''"] assms(17)
    obtain b where b: "doc s4 ''successModal'' = Some b"
      by (cases "doc s4 ''successModal''") (simp_all add: s2_def)
    have e1: "formElems s4 = formElems s"
      using fb by (cases s, cases s4) (simp add: same_but_feedback_def s2_def emit_def)
    have ef: "effects (snd (submit_success s4)) = effects s @ [PreventDefault, StopPropagation, FormReset]"
      using effects_submit_success [of s4] same_but_feedback_effects [OF fb] a b
      by (simp add: submit_success_fst s2_def)
    show ?thesis
      unfolding h
      using submit_success_state [OF a b] e1 ef by auto
  qed
  have bad: "(fst (submit_handler RegExp s) = Inr False
                \<or> fst (submit_handler RegExp s) = Inl SyntaxError)
           \<and> map_option display (doc (snd (submit_handler RegExp s)) ''successModal'')
               = map_option display (doc s ''successModal'')
           \<and> map_option display (doc (snd (submit_handler RegExp s)) ''modalOverlay'')
               = map_option display (doc s ''modalOverlay'')
           \<and> emitted s (snd (submit_handler RegExp s)) = [PreventDefault, StopPropagation]"
    if "\<not> ok"
  proof -
    from that ok have blocked: "\<not> (text_check s \<and> phone_check RegExp s = Inr True)" by simp
    from submit_handler_blocked [OF blocked]
    have fb: "same_but_feedback s2 (snd (submit_handler RegExp s))" by (simp add: s2_def)
    have r: "fst (submit_handler RegExp s) = Inr False
               \<or> fst (submit_handler RegExp s) = Inl SyntaxError"
      unfolding submit_handler_fst verdict using blocked pc(2) by auto
    have e: "effects (snd (submit_handler RegExp s))
               = effects s @ [PreventDefault, StopPropagation]"
      using same_but_feedback_effects [OF fb] by (simp add: s2_def)
    show ?thesis
      using r same_but_feedback_display [OF fb] e by (simp add: s2_def)
  qed
  from iff good bad show ?thesis by blast
qed

lemma sample_RegExp_patterns:
  "sample_RegExp (js ''^[0-9]*$'') = Some (list_all is_digit)"
  "sample_RegExp (js ''^[0-9]{10}$'') = Some (\<lambda>t. length t = 10 \<and> list_all is_digit t)"
  "js ''^[0-9]*$'' \<noteq> []" "js ''^[0-9]{10}$'' \<noteq> []" "js '' '' \<noteq> []"
  by (simp_all add: sample_RegExp_def js_def)

lemma sample_stripped:
  "list_all is_digit (remove_class False [WS, Ch 0x2D, Ch 0x28, Ch 0x29, Ch 0x2E] (js '' ''))"
  "length (remove_class False [WS, Ch 0x2D, Ch 0x28, Ch 0x29, Ch 0x2E] (js ''012 345-6789'')) = 10"
  "list_all is_digit
     (remove_class False [WS, Ch 0x2D, Ch 0x28, Ch 0x29, Ch 0x2E] (js ''012 345-6789''))"
  "trim (js ''012 345-6789'') \<noteq> []"
  by code_simp+

lemma blank_upd_simps [simp]:
  "val (blank\<lparr>val := v, selectionStart := a, selectionEnd := b\<rparr>) = v"
  "checked (blank\<lparr>checked := c\<rparr>) = c"
  by simp_all

theorem submission_succeeds_iff_all_checks_pass_witness:
  "doc (sample_page (js ''Ada'') True (js ''012 345-6789'') (Some (js ''^[0-9]{10}$'')))
       ''firstName'' = Some (blank\<lparr>val := js ''Ada''\<rparr>)
   \<and> doc (sample_page (js ''Ada'') True (js ''012 345-6789'') (Some (js ''^[0-9]{10}$'')))
       ''contactPhone'' = Some (blank\<lparr>checked := True\<rparr>)
   \<and> doc (sample_page (js ''Ada'') True (js ''012 345-6789'') (Some (js ''^[0-9]{10}$'')))
       ''countryCode'' = Some (country_select (Some (js ''^[0-9]{10}$'')))
   \<and> item (options (country_select (Some (js ''^[0-9]{10}$''))))
         (selectedIndex (country_select (Some (js ''^[0-9]{10}$''))))
       = Some \<lparr>data_pattern = Some (js ''^[0-9]{10}$''), data_placeholder = None,
               option_text = []\<rparr>
   \<and> fst (submit_handler sample_RegExp
         (sample_page (js ''Ada'') True (js ''012 345-6789'') (Some (js ''^[0-9]{10}$''))))
       = Inr True
   \<and> map_option display
         (doc (snd (submit_handler sample_RegExp
            (sample_page (js ''Ada'') True (js ''012 345-6789'') (Some (js ''^[0-9]{10}$'')))))
            ''successModal'') = Some ''block''
   \<and> emitted (sample_page (js ''Ada'') True (js ''012 345-6789'') (Some (js ''^[0-9]{10}$'')))
         (snd (submit_handler sample_RegExp
            (sample_page (js ''Ada'') True (js ''012 345-6789'') (Some (js ''^[0-9]{10}$'')))))
       = [PreventDefault, StopPropagation, FormReset]"
proof -
  define pg where
    "pg = sample_page (js ''Ada'') True (js ''012 345-6789'') (Some (js ''^[0-9]{10}$''))"
  have d: "doc pg = sample_doc (js ''Ada'') True (js ''012 345-6789'') (Some (js ''^[0-9]{10}$''))"
    by (simp add: pg_def)
  note t = submission_succeeds_iff_all_checks_pass
    [of pg "blank\<lparr>val := js ''Ada''\<rparr>" "blank\<lparr>classList := [''invalid-feedback'']\<rparr>"
        "blank\<lparr>val := js ''Lovelace''\<rparr>" "blank\<lparr>classList := [''invalid-feedback'']\<rparr>"
        "blank\<lparr>val := js ''ada@example.org''\<rparr>" "blank\<lparr>classList := [''invalid-feedback'']\<rparr>"
        "blank\<lparr>val := js ''Hello''\<rparr>" "blank\<lparr>classList := [''invalid-feedback'']\<rparr>"
        "blank\<lparr>val := js ''Good day.''\<rparr>" "blank\<lparr>classList := [''invalid-feedback'']\<rparr>"
        "blank\<lparr>checked := True\<rparr>"
        "blank\<lparr>val := js ''012 345-6789'', selectionStart := length (js ''012 345-6789''),
               selectionEnd := length (js ''012 345-6789'')\<rparr>"
        "blank\<lparr>classList := [''invalid-feedback'']\<rparr>"
        "country_select (Some (js ''^[0-9]{10}$''))"
        "\<lparr>data_pattern = Some (js ''^[0-9]{10}$''), data_placeholder = None, option_text = []\<rparr>"
        "blank\<lparr>display := ''none''\<rparr>" "blank\<lparr>display := ''none''\<rparr>" sample_RegExp,
     unfolded d sample_doc_keys sample_doc_text_keys item_country_select, simplified]
  have r: "fst (submit_handler sample_RegExp pg) = Inr True
       \<and> map_option display (doc (snd (submit_handler sample_RegExp pg)) ''successModal'')
           = Some ''block''
       \<and> emitted pg (snd (submit_handler sample_RegExp pg))
           = [PreventDefault, StopPropagation, FormReset]"
    using t by (simp add: sample_values sample_stripped sample_RegExp_patterns)
  have h: "doc pg ''firstName'' = Some (blank\<lparr>val := js ''Ada''\<rparr>)"
    "doc pg ''contactPhone'' = Some (blank\<lparr>checked := True\<rparr>)"
    "doc pg ''countryCode'' = Some (country_select (Some (js ''^[0-9]{10}$'')))"
    by (simp_all only: d sample_doc_keys)
  from r h item_country_select [of "Some (js ''^[0-9]{10}$'')"] show ?thesis
    unfolding pg_def by blast
qed

lemma sample_RegExp_empty: "sample_RegExp [] = Some (\<lambda>t. True)" "js ''5'' \<noteq> []"
  by (simp_all add: sample_RegExp_def js_def)

theorem phone_check_counterexample:
  "map_option val (doc (sample_page (js ''Ada'') True (js '' '') (Some (js ''^[0-9]*$'')))
      ''phone'') = Some (js '' '')
   \<and> js '' '' \<noteq> []
   \<and> map_option checked (doc (sample_page (js ''Ada'') True (js '' '') (Some (js ''^[0-9]*$'')))
      ''contactPhone'') = Some True
   \<and> map_option (\<lambda>sel. map_option data_pattern (item (options sel) (selectedIndex sel)))
        (doc (sample_page (js ''Ada'') True (js '' '') (Some (js ''^[0-9]*$''))) ''countryCode'')
       = Some (Some (Some (js ''^[0-9]*$'')))
   \<and> sample_RegExp (js ''^[0-9]*$'') = Some (list_all is_digit)
   \<and> list_all is_digit
        (remove_class False [WS, Ch 0x2D, Ch 0x28, Ch 0x29, Ch 0x2E] (js '' ''))
   \<and> text_check (sample_page (js ''Ada'') True (js '' '') (Some (js ''^[0-9]*$'')))
   \<and> fst (submit_handler sample_RegExp
          (sample_page (js ''Ada'') True (js '' '') (Some (js ''^[0-9]*$'')))) = Inr False
   \<and> map_option val (doc (sample_page (js ''Ada'') True (js ''5'') (Some [])) ''phone'')
       = Some (js ''5'')
   \<and> js ''5'' \<noteq> []
   \<and> map_option checked (doc (sample_page (js ''Ada'') True (js ''5'') (Some []))
      ''contactPhone'') = Some True
   \<and> map_option (\<lambda>sel. map_option data_pattern (item (options sel) (selectedIndex sel)))
        (doc (sample_page (js ''Ada'') True (js ''5'') (Some [])) ''countryCode'')
       = Some (Some (Some []))
   \<and> sample_RegExp [] = Some (\<lambda>t. True)
   \<and> text_check (sample_page (js ''Ada'') True (js ''5'') (Some []))
   \<and> fst (submit_handler sample_RegExp (sample_page (js ''Ada'') True (js ''5'') (Some [])))
       = Inr False"
proof -
  define pg where "pg = sample_page (js ''Ada'') True (js '' '') (Some (js ''^[0-9]*$''))"
  have d: "doc pg = sample_doc (js ''Ada'') True (js '' '') (Some (js ''^[0-9]*$''))"
    by (simp add: pg_def)
  have t: "text_check pg" by (simp add: pg_def text_check_sample sample_values)
  have p: "phone_check sample_RegExp pg = Inr False"
    by (simp add: phone_check_def d sample_doc_keys sample_values)
  have v: "fst (submit_handler sample_RegExp pg) = Inr False"
    using p by (simp add: submit_handler_fst submit_verdict_def)
  have l: "map_option val (doc pg ''phone'') = Some (js '' '')"
    "map_option checked (doc pg ''contactPhone'') = Some True"
    "map_option (\<lambda>sel. map_option data_pattern (item (options sel) (selectedIndex sel)))
        (doc pg ''countryCode'') = Some (Some (Some (js ''^[0-9]*$'')))"
    by (simp_all add: d sample_doc_keys item_country_select)
  define pg' where "pg' = sample_page (js ''Ada'') True (js ''5'') (Some [])"
  have d': "doc pg' = sample_doc (js ''Ada'') True (js ''5'') (Some [])"
    by (simp add: pg'_def)
  have t': "text_check pg'" by (simp add: pg'_def text_check_sample sample_values)
  have p': "phone_check sample_RegExp pg' = Inr False"
    by (simp add: phone_check_def d' sample_doc_keys validatePhoneNumber_def
          item_country_select)
  have v': "fst (submit_handler sample_RegExp pg') = Inr False"
    using p' by (simp add: submit_handler_fst submit_verdict_def)
  have l': "map_option val (doc pg' ''phone'') = Some (js ''5'')"
    "map_option checked (doc pg' ''contactPhone'') = Some True"
    "map_option (\<lambda>sel. map_option data_pattern (item (options sel) (selectedIndex sel)))
        (doc pg' ''countryCode'') = Some (Some (Some []))"
    by (simp_all add: d' sample_doc_keys item_country_select)
  from t v l t' v' l' sample_RegExp_patterns(1,5) sample_stripped(1) sample_RegExp_empty
  show ?thesis
    unfolding pg_def pg'_def by blast
qed


section \<open>The debounce of the enhanced scroll listener\<close>




lemma grows_refl [simp]: "grows s s"
  by (simp add: grows_def)






lemma tview_simps [simp]:
  "tview (upd k f s) = tview s"
  "tview (emit x s) = tview s"
  "tview (store2 k a k' b s) = tview s"
  "tview (form_forEach sel g s) = tview s"
  "tview (s\<lparr>doc := d\<rparr>) = tview s"
  "tview (s\<lparr>doc := d, scrollY := y\<rparr>) = tview s"
  "tview (s\<lparr>lastSection := l\<rparr>) = tview s"
  "tview (s\<lparr>navLinks := n\<rparr>) = tview s"
  by (simp_all add: tview_def upd_def emit_def store2_def form_forEach_def)



lemma same_but_feedback_tview: "same_but_feedback s s' \<Longrightarrow> tview s' = tview s"
  by (cases s, cases s') (simp add: same_but_feedback_def tview_def)







lemma tview_phoneInput_input_enh [simp]: "tview (phoneInput_input_enh s) = tview s"
  by (cases "doc s ''phone''") (simp_all add: phoneInput_input_enh_def Let_def)

lemma tview_phoneInput_paste_enh [simp]: "tview (phoneInput_paste_enh t s) = tview s"
  by (cases "doc s ''phone''") (simp_all add: phoneInput_paste_enh_def Let_def)











lemma tview_run_callback [simp]: "tview (run_callback cb s) = tview s"
  by (cases cb) (simp_all add: run_callback_def update_nav_enh_def)


lemma tview_edit_phone [simp]: "tview (edit_phone raw a b s) = tview s"
  by (simp add: edit_phone_def)

lemma tview_field_blur_enh [simp]: "tview (field_blur_enh kc s) = tview s"
  by (simp add: field_blur_enh_def Let_def same_but_feedback_tview [OF validate_and_enh_snd]
        split: option.splits)

lemma tview_phone_blur_enh [simp]: "tview (phone_blur_enh RegExp s) = tview s"
  by (simp add: phone_blur_enh_def same_but_feedback_tview [OF validate_and_enh_snd]
        split: option.splits)

lemma tview_closeModal_enh [simp]: "tview (closeModal_enh b s) = tview s"
  by (simp add: closeModal_enh_def Let_def)

lemma tview_modalOverlay_click_enh [simp]: "tview (modalOverlay_click_enh b s) = tview s"
  by (simp add: modalOverlay_click_enh_def split: option.splits)

lemma tview_keydown_enh [simp]: "tview (keydown_enh key b s) = tview s"
  by (simp add: keydown_enh_def split: option.splits)










section \<open>The phone value between input events\<close>

lemma val_update_simps [simp]:
  "val (classList_add c e) = val e"
  "val (setAttribute a v e) = val e"
  "val (removeAttribute a e) = val e"
  by (simp_all add: classList_add_def setAttribute_def removeAttribute_def)

lemma same_but_feedback_val:
  "same_but_feedback s s' \<Longrightarrow> map_option val (doc s' k) = map_option val (doc s k)"
  using same_but_feedback_doc [of s s' k] by (rule rel_feedback_val)

lemma same_but_feedback_defaultValue:
  "same_but_feedback s s' \<Longrightarrow>
     map_option defaultValue (doc s' k) = map_option defaultValue (doc s k)"
  using same_but_feedback_doc [of s s' k]
  by (cases "doc s k"; cases "doc s' k") (simp_all add: feedback_only_def)

lemma same_but_feedback_formElems: "same_but_feedback s s' \<Longrightarrow> formElems s' = formElems s"
  by (cases s, cases s') (simp add: same_but_feedback_def)

lemma proj_form_forEach:
  assumes "\<And>e. pr (g e) = pr e"
  shows "map_option pr (doc (form_forEach sel g s) k) = map_option pr (doc s k)"
  using assms by (cases "doc s k") (simp_all add: doc_form_forEach)

lemma proj_upd:
  assumes "\<And>e. pr (g e) = pr e"
  shows "map_option pr (doc (upd j g s) k) = map_option pr (doc s k)"
  using assms by (cases "doc s k") (auto simp: doc_upd)

lemma val_form_reset:
  "map_option val (doc (form_reset s) k) =
     (if k \<in> set (formElems s) then map_option defaultValue (doc s k)
      else map_option val (doc s k))"
  by (cases "doc s k") (simp_all add: form_reset_def doc_form_forEach)

lemma display_update_simps [simp]:
  "val (e\<lparr>display := d\<rparr>) = val e" "defaultValue (e\<lparr>display := d\<rparr>) = defaultValue e"
  "defaultValue (setAttribute a v e) = defaultValue e"
  "val (e\<lparr>textContent := t\<rparr>) = val e"
  by (simp_all add: setAttribute_def)

lemma val_submit_success:
  "map_option val (doc (snd (submit_success s)) k) =
     (if fst (submit_success s) = Inr True \<and> k \<in> set (formElems s)
      then map_option defaultValue (doc s k) else map_option val (doc s k))"
proof (cases "doc s ''modalOverlay''")
  case None
  then show ?thesis by (simp add: submit_success_def)
next
  case (Some a)
  define s1 where "s1 = upd ''modalOverlay'' (\<lambda>e. e\<lparr>display := ''block''\<rparr>) s"
  have v1: "map_option val (doc s1 k) = map_option val (doc s k)"
    "map_option defaultValue (doc s1 k) = map_option defaultValue (doc s k)"
    unfolding s1_def by (simp_all add: proj_upd)
  show ?thesis
  proof (cases "doc s1 ''successModal''")
    case None
    with Some v1 show ?thesis by (simp add: submit_success_def s1_def [symmetric] Let_def)
  next
    case (Some b)
    define s2 where "s2 = upd ''successModal'' (\<lambda>e. e\<lparr>display := ''block''\<rparr>) s1"
    have v2: "map_option val (doc s2 k) = map_option val (doc s k)"
      "map_option defaultValue (doc s2 k) = map_option defaultValue (doc s k)"
      unfolding s2_def using v1 by (simp_all add: proj_upd)
    have f2: "formElems s2 = formElems s" by (simp add: s2_def s1_def)
    have "map_option val (doc (snd (submit_success s)) k) = map_option val (doc (form_reset s2) k)"
      using \<open>doc s ''modalOverlay'' = Some a\<close> Some
      by (simp add: submit_success_def s1_def [symmetric] s2_def [symmetric] Let_def
            proj_form_forEach)
    moreover have "fst (submit_success s) = Inr True"
      using \<open>doc s ''modalOverlay'' = Some a\<close> Some
      by (simp add: submit_success_def s1_def [symmetric] Let_def)
    ultimately show ?thesis by (simp add: val_form_reset v2 f2)
  qed
qed

lemma doc_setTimeout [simp]: "doc (snd (setTimeout cb d s)) = doc s"
  by (simp add: setTimeout_def)

lemma formElems_more [simp]:
  "formElems (snd (setTimeout cb d s)) = formElems s"
  "formElems (announceToScreenReader_enh m s) = formElems s"
  by (simp_all add: setTimeout_def announceToScreenReader_enh_def upd_def split: option.splits)

lemma val_announce:
  "map_option val (doc (announceToScreenReader_enh m s) k) = map_option val (doc s k)"
  "map_option defaultValue (doc (announceToScreenReader_enh m s) k)
     = map_option defaultValue (doc s k)"
  by (simp_all add: doc_announce option.map_comp comp_def)

lemma val_submit_success_enh:
  "map_option val (doc (snd (submit_success_enh s)) k) =
     (if fst (submit_success_enh s) = Inr True \<and> k \<in> set (formElems s)
      then map_option defaultValue (doc s k) else map_option val (doc s k))"
proof (cases "doc s ''modalOverlay''")
  case None
  then show ?thesis by (simp add: submit_success_enh_def)
next
  case (Some a)
  define s2 where "s2 = upd ''modalOverlay'' (setAttribute ''aria-hidden'' (js ''false''))
                          (upd ''modalOverlay'' (\<lambda>e. e\<lparr>display := ''block''\<rparr>) s)"
  have v2: "map_option val (doc s2 k) = map_option val (doc s k)"
    "map_option defaultValue (doc s2 k) = map_option defaultValue (doc s k)"
    unfolding s2_def by (simp_all add: proj_upd)
  show ?thesis
  proof (cases "doc s2 ''successModal''")
    case None
    with Some v2 show ?thesis by (simp add: submit_success_enh_def s2_def [symmetric] Let_def)
  next
    case (Some b)
    define s4 where "s4 = upd ''successModal'' (setAttribute ''aria-hidden'' (js ''false''))
                            (upd ''successModal'' (\<lambda>e. e\<lparr>display := ''block''\<rparr>) s2)"
    define s6 where "s6 = announceToScreenReader_enh (js ''Message sent successfully!'')
                            (if modalHasButton s4
                             then snd (setTimeout FocusCloseButton 100 s4) else s4)"
    have v4: "map_option val (doc s4 k) = map_option val (doc s k)"
      "map_option defaultValue (doc s4 k) = map_option defaultValue (doc s k)"
      unfolding s4_def using v2 by (simp_all add: proj_upd)
    have v6: "map_option val (doc s6 k) = map_option val (doc s k)"
      "map_option defaultValue (doc s6 k) = map_option defaultValue (doc s k)"
      unfolding s6_def using v4 by (simp_all add: val_announce)
    have f6: "formElems s6 = formElems s" by (simp add: s6_def s4_def s2_def)
    have "map_option val (doc (snd (submit_success_enh s)) k)
            = map_option val (doc (form_reset s6) k)"
      unfolding s6_def s4_def
      using \<open>doc s ''modalOverlay'' = Some a\<close> Some
      by (simp add: submit_success_enh_def s2_def [symmetric] Let_def proj_form_forEach)
    moreover have "fst (submit_success_enh s) = Inr True"
      using \<open>doc s ''modalOverlay'' = Some a\<close> Some
      by (simp add: submit_success_enh_def s2_def [symmetric] Let_def)
    ultimately show ?thesis by (simp add: val_form_reset v6 f6)
  qed
qed

lemma val_submit_failure_enh:
  "map_option val (doc (snd (submit_failure_enh s)) k) = map_option val (doc s k)"
  by (simp add: doc_submit_failure_enh_eq val_announce)

lemma val_submit_handler:
  "map_option val (doc (snd (submit_handler RegExp s)) k) = map_option val (doc s k)
   \<or> map_option val (doc (snd (submit_handler RegExp s)) k) = map_option defaultValue (doc s k)"
proof (cases rule: submit_handler_cases [of RegExp s])
  case (threw x s4)
  with same_but_feedback_val [OF threw(3), of k] show ?thesis by simp
next
  case (failed pv s4)
  with same_but_feedback_val [OF failed(4), of k] show ?thesis by simp
next
  case (passed s4)
  with same_but_feedback_val [OF passed(4), of k]
    same_but_feedback_defaultValue [OF passed(4), of k]
  show ?thesis by (simp add: val_submit_success)
qed

lemma val_submit_handler_enh:
  "map_option val (doc (snd (submit_handler_enh RegExp s)) k) = map_option val (doc s k)
   \<or> map_option val (doc (snd (submit_handler_enh RegExp s)) k)
       = map_option defaultValue (doc s k)"
proof (cases rule: submit_handler_enh_cases [of RegExp s])
  case (threw x s4)
  with same_but_feedback_val [OF threw(3), of k] show ?thesis by simp
next
  case (failed pv s4)
  with same_but_feedback_val [OF failed(4), of k] show ?thesis
    by (simp add: val_submit_failure_enh)
next
  case (passed s4)
  with same_but_feedback_val [OF passed(4), of k]
    same_but_feedback_defaultValue [OF passed(4), of k]
  show ?thesis by (simp add: val_submit_success_enh)
qed

lemma phone_text_iff:
  "phone_text s = Some (v, d) \<longleftrightarrow>
     map_option val (doc s ''phone'') = Some v
     \<and> map_option defaultValue (doc s ''phone'') = Some d"
  by (cases "doc s ''phone''") (auto simp: phone_text_def)

lemma phone_text_eqI:
  "map_option val (doc s' ''phone'') = map_option val (doc s ''phone'') \<Longrightarrow>
   map_option defaultValue (doc s' ''phone'') = map_option defaultValue (doc s ''phone'') \<Longrightarrow>
   phone_text s' = phone_text s"
  by (cases "doc s ''phone''"; cases "doc s' ''phone''") (auto simp: phone_text_def)

lemma phone_text_feedback: "same_but_feedback s s' \<Longrightarrow> phone_text s' = phone_text s"
  by (intro phone_text_eqI same_but_feedback_val same_but_feedback_defaultValue)

lemma phone_text_upd:
  assumes "\<And>e. val (g e) = val e" and "\<And>e. defaultValue (g e) = defaultValue e"
  shows "phone_text (upd j g s) = phone_text s"
  using assms by (intro phone_text_eqI proj_upd)

lemma phone_text_emit [simp]: "phone_text (emit x s) = phone_text s"
  by (simp add: phone_text_def emit_def)

lemma phone_text_announce [simp]: "phone_text (announceToScreenReader_enh m s) = phone_text s"
  by (intro phone_text_eqI val_announce)

lemma defaultValue_update_simps [simp]:
  "defaultValue (classList_add c e) = defaultValue e"
  "defaultValue (classList_remove cs e) = defaultValue e"
  "defaultValue (removeAttribute a e) = defaultValue e"
  "defaultValue (reset_element e) = defaultValue e"
  by (simp_all add: classList_add_def classList_remove_def removeAttribute_def reset_element_def)

lemma val_classList_remove [simp]: "val (classList_remove cs e) = val e"
  by (simp add: classList_remove_def)

lemma defaultValue_form_reset:
  "map_option defaultValue (doc (form_reset s) k) = map_option defaultValue (doc s k)"
  by (simp add: form_reset_def proj_form_forEach emit_def)

lemma defaultValue_submit_success:
  "map_option defaultValue (doc (snd (submit_success s)) k) = map_option defaultValue (doc s k)"
  by (simp add: submit_success_def Let_def proj_form_forEach proj_upd defaultValue_form_reset
        split: option.splits)

lemma defaultValue_submit_success_enh:
  "map_option defaultValue (doc (snd (submit_success_enh s)) k)
     = map_option defaultValue (doc s k)"
  by (simp add: submit_success_enh_def Let_def proj_form_forEach proj_upd
        defaultValue_form_reset val_announce split: option.splits)

lemma defaultValue_submit_failure_enh:
  "map_option defaultValue (doc (snd (submit_failure_enh s)) k)
     = map_option defaultValue (doc s k)"
  by (simp add: doc_submit_failure_enh_eq val_announce)

lemma defaultValue_submit_handler:
  "map_option defaultValue (doc (snd (submit_handler RegExp s)) k)
     = map_option defaultValue (doc s k)"
proof (cases rule: submit_handler_cases [of RegExp s])
  case (threw x s4)
  with same_but_feedback_defaultValue [OF threw(3), of k] show ?thesis by simp
next
  case (failed pv s4)
  with same_but_feedback_defaultValue [OF failed(4), of k] show ?thesis by simp
next
  case (passed s4)
  with same_but_feedback_defaultValue [OF passed(4), of k]
  show ?thesis by (simp add: defaultValue_submit_success)
qed

lemma defaultValue_submit_handler_enh:
  "map_option defaultValue (doc (snd (submit_handler_enh RegExp s)) k)
     = map_option defaultValue (doc s k)"
proof (cases rule: submit_handler_enh_cases [of RegExp s])
  case (threw x s4)
  with same_but_feedback_defaultValue [OF threw(3), of k] show ?thesis by simp
next
  case (failed pv s4)
  with same_but_feedback_defaultValue [OF failed(4), of k] show ?thesis
    by (simp add: defaultValue_submit_failure_enh)
next
  case (passed s4)
  with same_but_feedback_defaultValue [OF passed(4), of k]
  show ?thesis by (simp add: defaultValue_submit_success_enh)
qed


lemma phone_text_change_listeners:
  "phone_text (contactPhone_change s) = phone_text s"
  "phone_text (contactPhone_change_enh s) = phone_text s"
  "phone_text (contactEmail_change s) = phone_text s"
  "phone_text (contactEmail_change_enh s) = phone_text s"
  "phone_text (snd (countryCode_change s)) = phone_text s"
  "phone_text (snd (countryCode_change_enh s)) = phone_text s"
  by (simp_all add: phone_text_def contactPhone_change_def contactPhone_change_enh_def
        contactEmail_change_def contactEmail_change_enh_def countryCode_change_def
        countryCode_change_enh_def Let_def doc_upd doc_store2
        doc_announce clearValidation_def clearValidation_enh_def option.map_comp comp_def
        split: option.splits)

lemma phone_text_blur:
  "phone_text (field_blur kc s) = phone_text s"
  "phone_text (field_blur_enh kc s) = phone_text s"
  "phone_text (phone_blur RegExp s) = phone_text s"
  "phone_text (phone_blur_enh RegExp s) = phone_text s"
  by (simp_all add: field_blur_def field_blur_enh_def phone_blur_def phone_blur_enh_def Let_def
        phone_text_feedback [OF validate_and_snd] phone_text_feedback [OF validate_and_enh_snd]
        split: option.splits)

lemma phone_text_modal:
  "phone_text (modalOverlay_click s) = phone_text s"
  "phone_text (modalOverlay_click_enh b s) = phone_text s"
  "phone_text (keydown_enh key b s) = phone_text s"
  by (simp_all add: modalOverlay_click_def modalOverlay_click_enh_def keydown_enh_def
        closeModal_def closeModal_enh_def Let_def phone_text_upd split: option.splits)

lemma phone_text_navigation:
  "phone_text (scroll_handler s) = phone_text s"
  "phone_text (scroll_handler_enh s) = phone_text s"
  "phone_text (anchor_click href found offcanvas s) = phone_text s"
  "phone_text (anchor_click_enh href found offcanvas s) = phone_text s"
  by (simp_all add: phone_text_def scroll_handler_def scroll_handler_enh_def anchor_click_def
        anchor_click_enh_def clearTimeout_def setTimeout_def emit_def Let_def
        split: option.splits)

lemma phone_text_fields [simp]:
  "phone_text (s\<lparr>navLinks := n\<rparr>) = phone_text s"
  "phone_text (s\<lparr>timers := ts\<rparr>) = phone_text s"
  "phone_text (s\<lparr>lastSection := l\<rparr>) = phone_text s"
  "phone_text (s\<lparr>doc := d, scrollY := y\<rparr>) = phone_text (s\<lparr>doc := d\<rparr>)"
  by (simp_all add: phone_text_def)

lemma only_digits_and_spaces_append [simp]:
  "only_digits_and_spaces (u @ v) \<longleftrightarrow> only_digits_and_spaces u \<and> only_digits_and_spaces v"
  by (simp add: only_digits_and_spaces_def)

lemma phone_text_fire_timer: "phone_text (fire_timer i s) = phone_text s"
proof (cases "find (\<lambda>t. fst t = i) (timers s)")
  case None
  then show ?thesis by (simp add: fire_timer_def)
next
  case (Some t)
  obtain j cb d where t: "t = (j, cb, d)" by (cases t)
  have "phone_text (run_callback cb s') = phone_text s'" for s'
    by (cases cb) (simp_all add: run_callback_def phone_text_upd update_nav_enh_def)
  with Some t show ?thesis by (simp add: fire_timer_def)
qed

lemma phone_text_observe: "phone_text (observe_entry_enh en s) = phone_text s"
proof -
  show ?thesis
    by (simp add: observe_entry_enh_def Let_def split: option.splits)
qed

lemma phone_text_observer: "phone_text (observer_callback_enh entries s) = phone_text s"
  unfolding observer_callback_enh_def
  by (induction entries arbitrary: s) (simp_all add: phone_text_observe)

lemma phone_text_input:
  assumes "doc s ''phone'' = Some p"
  shows "phone_text (phoneInput_input s) = Some (digits_and_spaces_of (val p), defaultValue p)"
    and "phone_text (phoneInput_input_enh s) = Some (digits_and_spaces_of (val p), defaultValue p)"
  using assms
  by (simp_all add: phone_text_def phoneInput_input_def phoneInput_input_enh_def Let_def
        strip_remove_class)

lemma phone_text_paste:
  assumes "doc s ''phone'' = Some p"
  shows "phone_text (phoneInput_paste t s)
           = Some (digits_and_spaces_of
                     (take (selectionStart p) (val p) @ t @ drop (selectionEnd p) (val p)),
                   defaultValue p)"
    and "phone_text (phoneInput_paste_enh t s)
           = Some (digits_and_spaces_of
                     (take (selectionStart p) (val p) @ t @ drop (selectionEnd p) (val p)),
                   defaultValue p)"
  using assms
  by (simp_all add: phone_text_def phoneInput_paste_def phoneInput_paste_enh_def
        phoneInput_input_def phoneInput_input_enh_def Let_def emit_def strip_remove_class
        substring_take substring_from_drop)

lemma phone_text_edit:
  assumes "doc s ''phone'' = Some p"
  shows "phone_text (phoneInput_input (edit_phone raw a b s))
           = Some (digits_and_spaces_of raw, defaultValue p)"
    and "phone_text (phoneInput_input_enh (edit_phone raw a b s))
           = Some (digits_and_spaces_of raw, defaultValue p)"
proof -
  have "doc (edit_phone raw a b s) ''phone''
          = Some (p\<lparr>val := raw, selectionStart := a, selectionEnd := b\<rparr>)"
    using assms by (simp add: edit_phone_def doc_upd)
  from phone_text_input [OF this]
  show "phone_text (phoneInput_input (edit_phone raw a b s))
           = Some (digits_and_spaces_of raw, defaultValue p)"
    and "phone_text (phoneInput_input_enh (edit_phone raw a b s))
           = Some (digits_and_spaces_of raw, defaultValue p)"
    by simp_all
qed

lemma phone_text_submit:
  assumes "phone_text s = Some (v, d)"
  shows "phone_text (snd (submit_handler RegExp s)) = Some (v, d)
       \<or> phone_text (snd (submit_handler RegExp s)) = Some (d, d)"
    and "phone_text (snd (submit_handler_enh RegExp s)) = Some (v, d)
       \<or> phone_text (snd (submit_handler_enh RegExp s)) = Some (d, d)"
  using assms val_submit_handler [of RegExp s "''phone''"]
    val_submit_handler_enh [of RegExp s "''phone''"]
  by (auto simp: phone_text_iff defaultValue_submit_handler defaultValue_submit_handler_enh)

lemma step_phone_text:
  assumes "phone_text s = Some (v, d)" and "quiet ev s"
  shows "\<exists>v'. phone_text (step RegExp ev s) = Some (v', d)
            \<and> (v' = v \<or> v' = d \<or> only_digits_and_spaces v')"
proof -
  from assms(1) obtain p where p: "doc s ''phone'' = Some p" "val p = v" "defaultValue p = d"
    by (auto simp: phone_text_def)
  show ?thesis
  proof (cases ev)
    case Submit
    with phone_text_submit(1) [OF assms(1), of RegExp] show ?thesis
      by (auto simp: step_def)
  next
    case (PhoneEdit raw a b)
    with phone_text_edit(1) [OF p(1)] p show ?thesis
      by (simp add: step_def digits_and_spaces_of_clean)
  next
    case PhoneInput
    with phone_text_input(1) [OF p(1)] p show ?thesis
      by (simp add: step_def digits_and_spaces_of_clean)
  next
    case (PhonePaste t)
    with phone_text_paste(1) [OF p(1)] p show ?thesis
      by (simp add: step_def digits_and_spaces_of_clean)
  next
    case (Change d' y)
    with assms show ?thesis by (simp add: step_def quiet_def)
  qed (use assms(1) in \<open>simp_all add: step_def phone_text_change_listeners phone_text_blur
         phone_text_modal phone_text_navigation split: option.splits\<close>)
qed

lemma step_enh_phone_text:
  assumes "phone_text s = Some (v, d)" and "quiet ev s"
  shows "\<exists>v'. phone_text (step_enh RegExp ev s) = Some (v', d)
            \<and> (v' = v \<or> v' = d \<or> only_digits_and_spaces v')"
proof -
  from assms(1) obtain p where p: "doc s ''phone'' = Some p" "val p = v" "defaultValue p = d"
    by (auto simp: phone_text_def)
  show ?thesis
  proof (cases ev)
    case Submit
    with phone_text_submit(2) [OF assms(1), of RegExp] show ?thesis
      by (auto simp: step_enh_def)
  next
    case (PhoneEdit raw a b)
    with phone_text_edit(2) [OF p(1)] p show ?thesis
      by (simp add: step_enh_def digits_and_spaces_of_clean)
  next
    case PhoneInput
    with phone_text_input(2) [OF p(1)] p show ?thesis
      by (simp add: step_enh_def digits_and_spaces_of_clean)
  next
    case (PhonePaste t)
    with phone_text_paste(2) [OF p(1)] p show ?thesis
      by (simp add: step_enh_def digits_and_spaces_of_clean)
  next
    case (Change d' y)
    with assms show ?thesis by (simp add: step_enh_def quiet_def)
  qed (use assms(1) in \<open>simp_all add: step_enh_def phone_text_change_listeners phone_text_blur
         phone_text_modal phone_text_navigation phone_text_fire_timer phone_text_observer
         split: option.splits\<close>)
qed

lemma quiet_run_phone_text:
  assumes st: "\<And>s v ev. phone_text s = Some (v, d) \<Longrightarrow> quiet ev s \<Longrightarrow>
                 \<exists>v'. phone_text (st ev s) = Some (v', d)
                    \<and> (v' = v \<or> v' = d \<or> only_digits_and_spaces v')"
  shows "phone_text s = Some (v, d) \<Longrightarrow> v = d \<or> only_digits_and_spaces v \<Longrightarrow>
         quiet_run st evs s \<Longrightarrow>
         \<exists>v'. phone_text (foldl (\<lambda>s ev. st ev s) s evs) = Some (v', d)
            \<and> (v' = d \<or> only_digits_and_spaces v')"
proof (induction evs arbitrary: s v)
  case Nil
  then show ?case by simp
next
  case (Cons ev evs)
  from Cons.prems(3) have q: "quiet ev s" and r: "quiet_run st evs (st ev s)" by simp_all
  from st [OF Cons.prems(1) q] obtain v' where
    v': "phone_text (st ev s) = Some (v', d)" "v' = v \<or> v' = d \<or> only_digits_and_spaces v'"
    by blast
  with Cons.prems(2) have "v' = d \<or> only_digits_and_spaces v'" by blast
  from Cons.IH [OF v'(1) this r] show ?case by simp
qed


lemma phone_text_submit_passed:
  assumes "phone_text s = Some (v, d)" and "''phone'' \<in> set (formElems s)"
  shows "fst (submit_handler RegExp s) = Inr True \<Longrightarrow>
           phone_text (snd (submit_handler RegExp s)) = Some (d, d)"
    and "fst (submit_handler_enh RegExp s) = Inr True \<Longrightarrow>
           phone_text (snd (submit_handler_enh RegExp s)) = Some (d, d)"
proof -
  assume ok: "fst (submit_handler RegExp s) = Inr True"
  show "phone_text (snd (submit_handler RegExp s)) = Some (d, d)"
  proof (cases rule: submit_handler_cases [of RegExp s])
    case (threw x s4)
    with ok show ?thesis by simp
  next
    case (failed pv s4)
    with ok show ?thesis by simp
  next
    case (passed s4)
    from phone_text_feedback [OF passed(4)] assms(1)
    have p4: "phone_text s4 = Some (v, d)" by simp
    from same_but_feedback_formElems [OF passed(4)] assms(2)
    have f4: "''phone'' \<in> set (formElems s4)" by (simp add: emit_def)
    from ok passed(1) have "fst (submit_success s4) = Inr True" by simp
    with p4 f4 passed(1) show ?thesis
      by (simp add: phone_text_iff val_submit_success defaultValue_submit_success)
  qed
next
  assume ok: "fst (submit_handler_enh RegExp s) = Inr True"
  show "phone_text (snd (submit_handler_enh RegExp s)) = Some (d, d)"
  proof (cases rule: submit_handler_enh_cases [of RegExp s])
    case (threw x s4)
    with ok show ?thesis by simp
  next
    case (failed pv s4)
    with ok show ?thesis by (simp add: submit_failure_enh_fst)
  next
    case (passed s4)
    from phone_text_feedback [OF passed(4)] assms(1)
    have p4: "phone_text s4 = Some (v, d)" by simp
    from same_but_feedback_formElems [OF passed(4)] assms(2)
    have f4: "''phone'' \<in> set (formElems s4)" by (simp add: emit_def)
    from ok passed(1) have "fst (submit_success_enh s4) = Inr True" by simp
    with p4 f4 passed(1) show ?thesis
      by (simp add: phone_text_iff val_submit_success_enh defaultValue_submit_success_enh)
  qed
qed

lemma step_keeps_phone_text:
  assumes "quiet ev s" and "ev \<noteq> Submit" and "ev \<noteq> PhoneInput"
    and "\<forall>raw a b. ev \<noteq> PhoneEdit raw a b" and "\<forall>t. ev \<noteq> PhonePaste t"
  shows "phone_text (step RegExp ev s) = phone_text s"
    and "phone_text (step_enh RegExp ev s) = phone_text s"
  using assms
  by (cases ev; simp add: step_def step_enh_def quiet_def phone_text_change_listeners
        phone_text_blur phone_text_modal phone_text_navigation phone_text_fire_timer
        phone_text_observer split: option.splits)+

lemma phone_text_submit_exact:
  assumes "phone_text s = Some (v, d)"
  shows "phone_text (snd (submit_handler RegExp s))
           = Some (if fst (submit_handler RegExp s) = Inr True \<and> ''phone'' \<in> set (formElems s)
                   then d else v, d)"
    and "phone_text (snd (submit_handler_enh RegExp s))
           = Some (if fst (submit_handler_enh RegExp s) = Inr True
                      \<and> ''phone'' \<in> set (formElems s)
                   then d else v, d)"
proof -
  show "phone_text (snd (submit_handler RegExp s))
           = Some (if fst (submit_handler RegExp s) = Inr True \<and> ''phone'' \<in> set (formElems s)
                   then d else v, d)"
  proof (cases rule: submit_handler_cases [of RegExp s])
    case (threw x s4)
    with phone_text_feedback [OF threw(3)] assms show ?thesis by simp
  next
    case (failed pv s4)
    with phone_text_feedback [OF failed(4)] assms show ?thesis by simp
  next
    case (passed s4)
    from phone_text_feedback [OF passed(4)] assms
    have p4: "phone_text s4 = Some (v, d)" by simp
    from same_but_feedback_formElems [OF passed(4)]
    have f4: "formElems s4 = formElems s" by (simp add: emit_def)
    from p4 f4 passed(1) show ?thesis
      by (simp add: phone_text_iff val_submit_success defaultValue_submit_success)
  qed
  show "phone_text (snd (submit_handler_enh RegExp s))
           = Some (if fst (submit_handler_enh RegExp s) = Inr True
                      \<and> ''phone'' \<in> set (formElems s)
                   then d else v, d)"
  proof (cases rule: submit_handler_enh_cases [of RegExp s])
    case (threw x s4)
    with phone_text_feedback [OF threw(3)] assms show ?thesis by simp
  next
    case (failed pv s4)
    from phone_text_feedback [OF failed(4)] assms
    have p4: "phone_text s4 = Some (v, d)" by simp
    with failed(1) show ?thesis
      by (simp add: phone_text_iff val_submit_failure_enh defaultValue_submit_failure_enh
            submit_failure_enh_fst)
  next
    case (passed s4)
    from phone_text_feedback [OF passed(4)] assms
    have p4: "phone_text s4 = Some (v, d)" by simp
    from same_but_feedback_formElems [OF passed(4)]
    have f4: "formElems s4 = formElems s" by (simp add: emit_def)
    from p4 f4 passed(1) show ?thesis
      by (simp add: phone_text_iff val_submit_success_enh defaultValue_submit_success_enh)
  qed
qed

text \<open>
  Claim C8, amended. On a page with the phone field: when the \<^verbatim>\<open>input\<close> listener of the
  field has run, the value of the field is the text it found with every code unit
  deleted that is no digit and no white space character (and with the line breaks
  deleted, which the field does not take), whatever the user has put into the field.
  When the \<^verbatim>\<open>paste\<close> listener has run, the value is the text before the selection, the
  clipboard text and the text after the selection, joined and cleaned in the same way:
  the listener ends by dispatching an \<^verbatim>\<open>input\<close> event. Both values hold digits and
  white space only. The \<^verbatim>\<open>submit\<close> listener puts the default value of the field in the
  place of its value when the submission succeeds and the field belongs to the form,
  and keeps the value otherwise. Every other event keeps the value, if it is no edit
  of the field behind the back of the \<^verbatim>\<open>input\<close> listener; and every event keeps the
  default value. So between input events, whatever listeners run and timeouts expire:
  if the value of the phone field was its default value or a string of digits and
  white space at the start, it is its default value or such a string afterwards. Both
  variants agree.
\<close>

theorem phone_value_clean_after_input:
  assumes "doc s ''phone'' = Some p"
  shows "map_option val (doc (phoneInput_input s) ''phone'')
           = Some (digits_and_spaces_of (val p))
       \<and> map_option val (doc (phoneInput_input_enh s) ''phone'')
           = Some (digits_and_spaces_of (val p))
       \<and> map_option val (doc (step RegExp (PhoneEdit raw a b) s) ''phone'')
           = Some (digits_and_spaces_of raw)
       \<and> map_option val (doc (step_enh RegExp (PhoneEdit raw a b) s) ''phone'')
           = Some (digits_and_spaces_of raw)
       \<and> map_option val (doc (phoneInput_paste pastedText s) ''phone'')
           = Some (digits_and_spaces_of
                     (take (selectionStart p) (val p) @ pastedText
                        @ drop (selectionEnd p) (val p)))
       \<and> map_option val (doc (phoneInput_paste_enh pastedText s) ''phone'')
           = Some (digits_and_spaces_of
                     (take (selectionStart p) (val p) @ pastedText
                        @ drop (selectionEnd p) (val p)))
       \<and> (\<forall>v. only_digits_and_spaces (digits_and_spaces_of v))
       \<and> phone_text (step RegExp Submit s)
           = Some (if fst (submit_handler RegExp s) = Inr True
                      \<and> ''phone'' \<in> set (formElems s)
                   then defaultValue p else val p, defaultValue p)
       \<and> phone_text (step_enh RegExp Submit s)
           = Some (if fst (submit_handler_enh RegExp s) = Inr True
                      \<and> ''phone'' \<in> set (formElems s)
                   then defaultValue p else val p, defaultValue p)
       \<and> (\<forall>ev. quiet ev s \<and> ev \<noteq> Submit \<and> ev \<noteq> PhoneInput
                \<and> (\<forall>raw a b. ev \<noteq> PhoneEdit raw a b) \<and> (\<forall>t. ev \<noteq> PhonePaste t) \<longrightarrow>
              phone_text (step RegExp ev s) = phone_text s
              \<and> phone_text (step_enh RegExp ev s) = phone_text s)
       \<and> (val p = defaultValue p \<or> only_digits_and_spaces (val p) \<longrightarrow>
            (\<forall>evs. quiet_run (step RegExp) evs s \<longrightarrow>
               (\<exists>v. phone_text (run RegExp evs s) = Some (v, defaultValue p)
                  \<and> (v = defaultValue p \<or> only_digits_and_spaces v)))
          \<and> (\<forall>evs. quiet_run (step_enh RegExp) evs s \<longrightarrow>
               (\<exists>v. phone_text (run_enh RegExp evs s) = Some (v, defaultValue p)
                  \<and> (v = defaultValue p \<or> only_digits_and_spaces v))))"
proof -
  have pt: "phone_text s = Some (val p, defaultValue p)"
    using assms by (simp add: phone_text_def)
  have i: "map_option val (doc (phoneInput_input s) ''phone'')
             = Some (digits_and_spaces_of (val p))"
    "map_option val (doc (phoneInput_input_enh s) ''phone'')
             = Some (digits_and_spaces_of (val p))"
    using assms by (rule input_val, rule input_val_enh)
  have e: "map_option val (doc (step RegExp (PhoneEdit raw a b) s) ''phone'')
             = Some (digits_and_spaces_of raw)"
    "map_option val (doc (step_enh RegExp (PhoneEdit raw a b) s) ''phone'')
             = Some (digits_and_spaces_of raw)"
    using phone_text_edit [OF assms, of raw a b]
    by (simp_all add: step_def step_enh_def phone_text_iff)
  have c: "map_option val (doc (phoneInput_paste pastedText s) ''phone'')
           = Some (digits_and_spaces_of
                     (take (selectionStart p) (val p) @ pastedText
                        @ drop (selectionEnd p) (val p)))"
    "map_option val (doc (phoneInput_paste_enh pastedText s) ''phone'')
           = Some (digits_and_spaces_of
                     (take (selectionStart p) (val p) @ pastedText
                        @ drop (selectionEnd p) (val p)))"
    using assms by (rule paste_val, rule paste_val_enh)
  have u: "phone_text (step RegExp Submit s)
           = Some (if fst (submit_handler RegExp s) = Inr True
                      \<and> ''phone'' \<in> set (formElems s)
                   then defaultValue p else val p, defaultValue p)"
    "phone_text (step_enh RegExp Submit s)
           = Some (if fst (submit_handler_enh RegExp s) = Inr True
                      \<and> ''phone'' \<in> set (formElems s)
                   then defaultValue p else val p, defaultValue p)"
    using phone_text_submit_exact [OF pt, of RegExp] by (simp_all add: step_def step_enh_def)
  have k: "\<forall>ev. quiet ev s \<and> ev \<noteq> Submit \<and> ev \<noteq> PhoneInput
                \<and> (\<forall>raw a b. ev \<noteq> PhoneEdit raw a b) \<and> (\<forall>t. ev \<noteq> PhonePaste t) \<longrightarrow>
              phone_text (step RegExp ev s) = phone_text s
              \<and> phone_text (step_enh RegExp ev s) = phone_text s"
    by (intro allI impI conjI step_keeps_phone_text) simp_all
  have r: "\<exists>v. phone_text (run RegExp evs s) = Some (v, defaultValue p)
              \<and> (v = defaultValue p \<or> only_digits_and_spaces v)"
    if "val p = defaultValue p \<or> only_digits_and_spaces (val p)"
      and "quiet_run (step RegExp) evs s" for evs
    using quiet_run_phone_text [where st = "step RegExp", OF step_phone_text pt that]
    by (simp add: run_def)
  have r': "\<exists>v. phone_text (run_enh RegExp evs s) = Some (v, defaultValue p)
              \<and> (v = defaultValue p \<or> only_digits_and_spaces v)"
    if "val p = defaultValue p \<or> only_digits_and_spaces (val p)"
      and "quiet_run (step_enh RegExp) evs s" for evs
    using quiet_run_phone_text [where st = "step_enh RegExp", OF step_enh_phone_text pt that]
    by (simp add: run_enh_def)
  have inv: "val p = defaultValue p \<or> only_digits_and_spaces (val p) \<longrightarrow>
            (\<forall>evs. quiet_run (step RegExp) evs s \<longrightarrow>
               (\<exists>v. phone_text (run RegExp evs s) = Some (v, defaultValue p)
                  \<and> (v = defaultValue p \<or> only_digits_and_spaces v)))
          \<and> (\<forall>evs. quiet_run (step_enh RegExp) evs s \<longrightarrow>
               (\<exists>v. phone_text (run_enh RegExp evs s) = Some (v, defaultValue p)
                  \<and> (v = defaultValue p \<or> only_digits_and_spaces v)))"
    using r r' by blast
  from digits_and_spaces_of_clean have cl: "\<forall>v. only_digits_and_spaces (digits_and_spaces_of v)"
    by blast
  from i e c cl u k inv show ?thesis by (intro conjI)
qed

lemma sample_cleaned:
  "digits_and_spaces_of (js ''12'') = js ''12''"
  "digits_and_spaces_of (js ''+1-5'') = js ''15''"
  "digits_and_spaces_of (take (length (js ''12'')) (js ''12'') @ js ''(0) 2x''
      @ drop (length (js ''12'')) (js ''12'')) = js ''120 2''"
  "only_digits_and_spaces (js ''12'')"
  by code_simp+

theorem phone_value_clean_after_input_witness:
  "doc (sample_page [] True (js ''12'') None) ''phone''
       = Some (blank\<lparr>val := js ''12'', selectionStart := length (js ''12''),
                     selectionEnd := length (js ''12'')\<rparr>)
   \<and> map_option val (doc (phoneInput_input (sample_page [] True (js ''12'') None)) ''phone'')
       = Some (js ''12'')
   \<and> map_option val
        (doc (step sample_RegExp (PhoneEdit (js ''+1-5'') 4 4) (sample_page [] True (js ''12'') None))
           ''phone'')
       = Some (js ''15'')
   \<and> map_option val
        (doc (phoneInput_paste (js ''(0) 2x'') (sample_page [] True (js ''12'') None)) ''phone'')
       = Some (js ''120 2'')
   \<and> only_digits_and_spaces (js ''12'')
   \<and> quiet_run (step_enh sample_RegExp)
        [PhoneEdit (js ''+1-5'') 4 4, Submit, PhonePaste (js ''(0) 2x''), PhoneBlur, Scroll]
        (sample_page [] True (js ''12'') None)
   \<and> (\<exists>v. phone_text
              (run_enh sample_RegExp
                 [PhoneEdit (js ''+1-5'') 4 4, Submit, PhonePaste (js ''(0) 2x''), PhoneBlur, Scroll]
                 (sample_page [] True (js ''12'') None)) = Some (v, [])
          \<and> (v = [] \<or> only_digits_and_spaces v))"
proof -
  have h: "doc (sample_page [] True (js ''12'') None) ''phone''
             = Some (blank\<lparr>val := js ''12'', selectionStart := length (js ''12''),
                           selectionEnd := length (js ''12'')\<rparr>)"
    by (simp only: sample_page_doc sample_doc_keys)
  have q: "quiet_run (step_enh sample_RegExp)
        [PhoneEdit (js ''+1-5'') 4 4, Submit, PhonePaste (js ''(0) 2x''), PhoneBlur, Scroll]
        (sample_page [] True (js ''12'') None)"
    by (simp add: quiet_def)
  have sel: "val (blank\<lparr>val := js ''12'', selectionStart := length (js ''12''),
                           selectionEnd := length (js ''12'')\<rparr>) = js ''12''"
    "defaultValue (blank\<lparr>val := js ''12'', selectionStart := length (js ''12''),
                           selectionEnd := length (js ''12'')\<rparr>) = []"
    "selectionStart (blank\<lparr>val := js ''12'', selectionStart := length (js ''12''),
                           selectionEnd := length (js ''12'')\<rparr>) = length (js ''12'')"
    "selectionEnd (blank\<lparr>val := js ''12'', selectionStart := length (js ''12''),
                           selectionEnd := length (js ''12'')\<rparr>) = length (js ''12'')"
    by (simp_all add: blank_def)
  note t = phone_value_clean_after_input
             [OF h, of sample_RegExp "js ''+1-5''" 4 4 "js ''(0) 2x''", unfolded sel sample_cleaned]
  from t q sample_cleaned(4)
  have "\<exists>v. phone_text
              (run_enh sample_RegExp
                 [PhoneEdit (js ''+1-5'') 4 4, Submit, PhonePaste (js ''(0) 2x''), PhoneBlur, Scroll]
                 (sample_page [] True (js ''12'') None)) = Some (v, [])
          \<and> (v = [] \<or> only_digits_and_spaces v)"
    by blast
  with t h q sample_cleaned(4) show ?thesis by blast
qed

lemma page_with_phone_default_facts:
  "phone_text page_with_phone_default = Some (js ''41'', js ''+41'')"
  "''phone'' \<in> set (formElems page_with_phone_default)"
  "submit_verdict sample_RegExp page_with_phone_default = Inr True"
proof -
  show "phone_text page_with_phone_default = Some (js ''41'', js ''+41'')"
    by (simp add: page_with_phone_default_def phone_text_def doc_upd sample_doc_keys)
  show "''phone'' \<in> set (formElems page_with_phone_default)"
    by (simp add: page_with_phone_default_def sample_page_def upd_def)
  have t: "text_check page_with_phone_default"
    by (simp add: page_with_phone_default_def text_check_doc doc_upd sample_doc_keys
          sample_doc_text_keys sample_values)
  have p: "phone_check sample_RegExp page_with_phone_default = Inr True"
    by (simp add: page_with_phone_default_def phone_check_def doc_upd sample_doc_keys)
  have m: "doc page_with_phone_default ''modalOverlay'' \<noteq> None"
    "doc page_with_phone_default ''successModal'' \<noteq> None"
    by (simp_all add: page_with_phone_default_def doc_upd sample_doc_text_keys)
  from t p m show "submit_verdict sample_RegExp page_with_phone_default = Inr True"
    by (simp add: submit_verdict_def)
qed

lemma plus_is_no_digit: "\<not> only_digits_and_spaces (js ''+41'')" "only_digits_and_spaces (js ''41'')"
  by code_simp+

theorem phone_default_counterexample:
  "phone_text page_with_phone_default = Some (js ''41'', js ''+41'')
   \<and> only_digits_and_spaces (js ''41'')
   \<and> fst (submit_handler sample_RegExp page_with_phone_default) = Inr True
   \<and> phone_text (snd (submit_handler sample_RegExp page_with_phone_default))
       = Some (js ''+41'', js ''+41'')
   \<and> fst (submit_handler_enh sample_RegExp page_with_phone_default) = Inr True
   \<and> phone_text (run_enh sample_RegExp [Submit] page_with_phone_default)
       = Some (js ''+41'', js ''+41'')
   \<and> \<not> only_digits_and_spaces (js ''+41'')"
proof -
  note f = page_with_phone_default_facts
  have a: "fst (submit_handler sample_RegExp page_with_phone_default) = Inr True"
    and b: "fst (submit_handler_enh sample_RegExp page_with_phone_default) = Inr True"
    by (simp_all add: submit_handler_fst submit_handler_enh_fst f(3))
  from phone_text_submit_passed [OF f(1,2)] a b
  have "phone_text (snd (submit_handler sample_RegExp page_with_phone_default))
          = Some (js ''+41'', js ''+41'')"
    and "phone_text (run_enh sample_RegExp [Submit] page_with_phone_default)
          = Some (js ''+41'', js ''+41'')"
    by (simp_all add: run_enh_def step_enh_def)
  with a b f(1) plus_is_no_digit show ?thesis by blast
qed

end
